(* ===== verification/Prelude.thy ===== *)
theory Prelude
  imports Main "HOL-Library.Char_ord" "HOL-Library.List_Lexorder" "HOL-Library.Code_Target_Numeral"
begin

text \<open>
  Shared vocabulary of the development: the named collections of rewrite rules the
  component theories add to, the two quote characters that delimit SQL identifiers and
  SQL string literals, and decimal digit strings (JavaScript's rendering of an integer in
  a template literal, and the digit runs a SQL placeholder \<open>$n\<close> or a numeric literal
  consists of), with the round trip between numbers and their decimal strings.
\<close>

named_theorems decimal_simps "evaluation and inversion rules for decimal digit strings"
named_theorems js_simps "evaluation rules of the JavaScript runtime fragment"
named_theorems sql_simps "evaluation rules of the generated SQL fragments"

abbreviation dq :: char where
  "dq \<equiv> CHR 0x22"

abbreviation sq :: char where
  "sq \<equiv> CHR 0x27"

subsection \<open>Error results\<close>

text \<open>
  A computation that may raise is a value of \<open>'e + 'a\<close> (\<open>Inl\<close> the error).
  \<open>sbind\<close> runs the rest of the computation on a result and propagates an error, as
  an exception propagates; \<open>map_sum\<close> maps a raising function over a list, stopping
  at the first error.
\<close>

definition sbind :: "'e + 'a \<Rightarrow> ('a \<Rightarrow> 'e + 'b) \<Rightarrow> 'e + 'b" where
  "sbind x f = (case x of Inl e \<Rightarrow> Inl e | Inr a \<Rightarrow> f a)"

fun map_sum :: "('a \<Rightarrow> 'e + 'b) \<Rightarrow> 'a list \<Rightarrow> 'e + 'b list" where
  "map_sum f [] = Inr []"
| "map_sum f (x # xs) = sbind (f x) (\<lambda>y. sbind (map_sum f xs) (\<lambda>ys. Inr (y # ys)))"

lemma sbind_Inl [simp]: "sbind (Inl e) f = Inl e"
  by (simp add: sbind_def)

lemma sbind_Inr [simp]: "sbind (Inr a) f = f a"
  by (simp add: sbind_def)

lemma sbind_eq_Inr_iff [simp]:
  "sbind x f = Inr b \<longleftrightarrow> (\<exists>a. x = Inr a \<and> f a = Inr b)"
  by (cases x) auto

lemma sbind_eq_Inl_iff:
  "sbind x f = Inl e \<longleftrightarrow> x = Inl e \<or> (\<exists>a. x = Inr a \<and> f a = Inl e)"
  by (cases x) auto

lemma case_list_eq_Inr [simp]:
  "(case xs of [] \<Rightarrow> Inl e | y # ys \<Rightarrow> f y ys) = Inr b \<longleftrightarrow> (\<exists>y ys. xs = y # ys \<and> f y ys = Inr b)"
  by (cases xs) auto

lemma sbind_assoc: "sbind (sbind x f) g = sbind x (\<lambda>a. sbind (f a) g)"
  by (cases x) auto

lemma sbind_if: "sbind (if b then x else y) f = (if b then sbind x f else sbind y f)"
  by simp

lemma map_sum_Inr_length: "map_sum f xs = Inr ys \<Longrightarrow> length ys = length xs"
  by (induction xs arbitrary: ys) auto

lemma map_sum_Inr_nth:
  "map_sum f xs = Inr ys \<Longrightarrow> i < length xs \<Longrightarrow> f (xs ! i) = Inr (ys ! i)"
proof (induction xs arbitrary: ys i)
  case Nil
  then show ?case by simp
next
  case (Cons x xs)
  then show ?case by (cases i) auto
qed

lemma map_sum_all_Inr:
  "(\<And>x. x \<in> set xs \<Longrightarrow> f x = Inr (g x)) \<Longrightarrow> map_sum f xs = Inr (map g xs)"
  by (induction xs) auto

lemma map_sum_Inr_set:
  assumes "map_sum f xs = Inr ys" and "y \<in> set ys"
  shows "\<exists>x \<in> set xs. f x = Inr y"
proof -
  obtain i where "i < length ys" and "y = ys ! i"
    using assms(2) by (auto simp: in_set_conv_nth)
  then show ?thesis
    using map_sum_Inr_nth [OF assms(1)] map_sum_Inr_length [OF assms(1)] by (metis nth_mem)
qed

subsection \<open>Decimal digits\<close>

definition is_digit :: "char \<Rightarrow> bool" where
  "is_digit c \<longleftrightarrow> (48::nat) \<le> of_char c \<and> of_char c \<le> (57::nat)"

definition digit_value :: "char \<Rightarrow> nat" where
  "digit_value c = of_char c - 48"

definition digit_char :: "nat \<Rightarrow> char" where
  "digit_char d = ''0123456789'' ! d"

text \<open>The decimal rendering of a natural number, most significant digit first.\<close>

fun string_of_nat :: "nat \<Rightarrow> string" where
  "string_of_nat n =
     (if n < 10 then [digit_char n] else string_of_nat (n div 10) @ [digit_char (n mod 10)])"

declare string_of_nat.simps [simp del]

definition nat_of_digits :: "string \<Rightarrow> nat" where
  "nat_of_digits ds = foldl (\<lambda>acc c. 10 * acc + digit_value c) 0 ds"

definition string_of_int :: "int \<Rightarrow> string" where
  "string_of_int i =
     (if i < 0 then CHR ''-'' # string_of_nat (nat (- i)) else string_of_nat (nat i))"

subsection \<open>Digits and their values\<close>

lemma below_ten_cases: "d < (10::nat) \<Longrightarrow> d \<in> {0, 1, 2, 3, 4, 5, 6, 7, 8, 9}"
  by auto

lemma digit_char_is_digit [simp, decimal_simps]: "d < 10 \<Longrightarrow> is_digit (digit_char d)"
  by (drule below_ten_cases) (auto simp: is_digit_def digit_char_def)

lemma digit_value_digit_char [simp, decimal_simps]:
  "d < 10 \<Longrightarrow> digit_value (digit_char d) = d"
  by (drule below_ten_cases) (auto simp: digit_value_def digit_char_def)

lemma string_of_nat_not_Nil [simp, decimal_simps]: "string_of_nat n \<noteq> []"
  by (subst string_of_nat.simps) simp

lemma string_of_nat_digits [decimal_simps]: "c \<in> set (string_of_nat n) \<Longrightarrow> is_digit c"
proof (induction n rule: string_of_nat.induct)
  case (1 n)
  show ?case
  proof (cases "n < 10")
    case True
    with "1.prems" show ?thesis by (simp add: string_of_nat.simps [of n])
  next
    case False
    with "1.prems" "1.IH" show ?thesis by (auto simp: string_of_nat.simps [of n])
  qed
qed

lemma nat_of_digits_snoc [simp, decimal_simps]:
  "nat_of_digits (ds @ [c]) = 10 * nat_of_digits ds + digit_value c"
  by (simp add: nat_of_digits_def)

lemma nat_of_digits_Nil [simp, decimal_simps]: "nat_of_digits [] = 0"
  by (simp add: nat_of_digits_def)

text \<open>Round trip: reading back the decimal rendering gives the number.\<close>

lemma nat_of_digits_string_of_nat [simp, decimal_simps]:
  "nat_of_digits (string_of_nat n) = n"
proof (induction n rule: string_of_nat.induct)
  case (1 n)
  show ?case
  proof (cases "n < 10")
    case True
    then have "string_of_nat n = [] @ [digit_char n]" by (simp add: string_of_nat.simps [of n])
    with True show ?thesis by (simp only: nat_of_digits_snoc) simp
  next
    case False
    then have "string_of_nat n = string_of_nat (n div 10) @ [digit_char (n mod 10)]"
      by (simp add: string_of_nat.simps [of n])
    with False "1.IH" show ?thesis by simp
  qed
qed

lemma string_of_nat_inject [simp, decimal_simps]:
  "string_of_nat m = string_of_nat n \<longleftrightarrow> m = n"
  by (metis nat_of_digits_string_of_nat)

text \<open>A digit run followed by a non-digit is split off exactly by \<open>takeWhile\<close>.\<close>

lemma takeWhile_digits_append [decimal_simps]:
  "\<not> is_digit c \<Longrightarrow> takeWhile is_digit (string_of_nat n @ c # rest) = string_of_nat n"
  by (simp add: takeWhile_append2 string_of_nat_digits)

lemma dropWhile_digits_append [decimal_simps]:
  "\<not> is_digit c \<Longrightarrow> dropWhile is_digit (string_of_nat n @ c # rest) = c # rest"
  by (simp add: dropWhile_append2 string_of_nat_digits)

lemma takeWhile_digits_all [decimal_simps]:
  "takeWhile is_digit (string_of_nat n) = string_of_nat n"
  by (simp add: string_of_nat_digits)

lemma dropWhile_digits_all [decimal_simps]:
  "dropWhile is_digit (string_of_nat n) = []"
  by (simp add: string_of_nat_digits)

end
