(* ===== verification/JsRuntime.thy ===== *)
theory JsRuntime
  imports Prelude "HOL-Library.Multiset"
begin

text \<open>
  The fragment of the JavaScript runtime (Node.js, ECMAScript semantics) that the code of
  \<open>src/helpers/sql.js\<close> and \<open>src/models/*.js\<close> relies on, and the error classes of
  \<open>expressError\<close> that it throws. Values are the JSON-like values a request body or query
  string carries; an object is an association list in property-creation order with
  distinct keys. \<open>Object.keys\<close>/\<open>Object.values\<close> follow the ordinary-object key order
  of the language (array-index keys first, ascending, then the other keys in creation
  order); property lookup \<open>o[k]\<close> falls back to the members of \<open>Object.prototype\<close>;
  \<open>a || b\<close>, \<open>Array.prototype.join\<close>, \<open>ToString\<close> of a template literal and
  \<open>parseInt\<close> with no radix are written out as the language specifies them.
  JavaScript numbers are modelled by their integer values only (the code compares and
  renders integers), and only ASCII white space is modelled in \<open>parseInt\<close>.
\<close>

datatype jsval =
    JUndefined
  | JNull
  | JBool bool
  | JNum int
  | JStr string
  | JFunction string
  | JObject

type_synonym 'v jsobj = "(string \<times> 'v) list"

definition js_obj_wf :: "'v jsobj \<Rightarrow> bool" where
  "js_obj_wf obj \<longleftrightarrow> distinct (map fst obj)"

subsection \<open>Truthiness, \<open>||\<close> and \<open>ToString\<close>\<close>

fun js_truthy :: "jsval \<Rightarrow> bool" where
  "js_truthy JUndefined = False"
| "js_truthy JNull = False"
| "js_truthy (JBool b) = b"
| "js_truthy (JNum n) = (n \<noteq> 0)"
| "js_truthy (JStr s) = (s \<noteq> [])"
| "js_truthy (JFunction f) = True"
| "js_truthy JObject = True"

definition js_or :: "jsval \<Rightarrow> jsval \<Rightarrow> jsval" where
  "js_or a b = (if js_truthy a then a else b)"

fun js_to_string :: "jsval \<Rightarrow> string" where
  "js_to_string JUndefined = ''undefined''"
| "js_to_string JNull = ''null''"
| "js_to_string (JBool b) = (if b then ''true'' else ''false'')"
| "js_to_string (JNum n) = string_of_int n"
| "js_to_string (JStr s) = s"
| "js_to_string (JFunction f) = ''function '' @ f @ ''() { [native code] }''"
| "js_to_string JObject = ''[object Object]''"

subsection \<open>Property lookup through \<open>Object.prototype\<close>\<close>

definition object_prototype_methods :: "string list" where
  "object_prototype_methods =
     [''__defineGetter__'', ''__defineSetter__'', ''hasOwnProperty'', ''__lookupGetter__'',
      ''__lookupSetter__'', ''isPrototypeOf'', ''propertyIsEnumerable'', ''toString'',
      ''valueOf'', ''toLocaleString'']"

definition object_prototype_get :: "string \<Rightarrow> jsval" where
  "object_prototype_get k =
     (if k = ''constructor'' then JFunction ''Object''
      else if k \<in> set object_prototype_methods then JFunction k
      else if k = ''__proto__'' then JObject
      else JUndefined)"

definition js_get :: "jsval jsobj \<Rightarrow> string \<Rightarrow> jsval" where
  "js_get obj k = (case map_of obj k of Some v \<Rightarrow> v | None \<Rightarrow> object_prototype_get k)"

subsection \<open>\<open>Object.keys\<close> and \<open>Object.values\<close>\<close>

text \<open>
  An array index is the canonical decimal string of an integer below \<open>2^32 - 1\<close>;
  such keys are enumerated first, in ascending numeric order.
\<close>

definition is_array_index :: "string \<Rightarrow> bool" where
  "is_array_index k \<longleftrightarrow>
     k \<noteq> [] \<and> list_all is_digit k \<and> (if hd k = CHR ''0'' then k = ''0'' else True)
     \<and> nat_of_digits k < 4294967295"

definition own_entries :: "'v jsobj \<Rightarrow> 'v jsobj" where
  "own_entries obj =
     sort_key (\<lambda>e. nat_of_digits (fst e)) (filter (\<lambda>e. is_array_index (fst e)) obj)
     @ filter (\<lambda>e. \<not> is_array_index (fst e)) obj"

definition object_keys :: "'v jsobj \<Rightarrow> string list" where
  "object_keys obj = map fst (own_entries obj)"

definition object_values :: "'v jsobj \<Rightarrow> 'v list" where
  "object_values obj = map snd (own_entries obj)"

subsection \<open>\<open>Array.prototype.join\<close>\<close>

text \<open>\<open>undefined\<close> and \<open>null\<close> elements are joined as the empty string.\<close>

definition join_elem :: "jsval \<Rightarrow> string" where
  "join_elem v = (case v of JUndefined \<Rightarrow> [] | JNull \<Rightarrow> [] | _ \<Rightarrow> js_to_string v)"

fun js_join :: "string \<Rightarrow> jsval list \<Rightarrow> string" where
  "js_join sep [] = []"
| "js_join sep [v] = join_elem v"
| "js_join sep (v # w # vs) = join_elem v @ sep @ js_join sep (w # vs)"

subsection \<open>\<open>parseInt\<close> with no radix\<close>

definition is_js_space :: "char \<Rightarrow> bool" where
  "is_js_space c \<longleftrightarrow> of_char c \<in> {9, 10, 11, 12, 13, 32 :: nat}"

definition radix_digit :: "nat \<Rightarrow> char \<Rightarrow> nat option" where
  "radix_digit radix c =
     (let n = of_char c :: nat;
          d = (if 48 \<le> n \<and> n \<le> 57 then Some (n - 48)
               else if 97 \<le> n \<and> n \<le> 122 then Some (n - 87)
               else if 65 \<le> n \<and> n \<le> 90 then Some (n - 55)
               else None)
      in case d of Some v \<Rightarrow> if v < radix then Some v else None | None \<Rightarrow> None)"

definition radix_value :: "nat \<Rightarrow> string \<Rightarrow> nat" where
  "radix_value radix z =
     foldl (\<lambda>acc c. radix * acc + (case radix_digit radix c of Some v \<Rightarrow> v | None \<Rightarrow> 0)) 0 z"

definition parse_sign :: "string \<Rightarrow> int \<times> string" where
  "parse_sign s =
     (case s of
        c # r \<Rightarrow> if c = CHR ''-'' then (-1, r) else if c = CHR ''+'' then (1, r) else (1, s)
      | [] \<Rightarrow> (1, s))"

definition parse_radix_prefix :: "string \<Rightarrow> nat \<times> string" where
  "parse_radix_prefix s =
     (case s of
        c0 # cx # r \<Rightarrow>
          if c0 = CHR ''0'' \<and> (cx = CHR ''x'' \<or> cx = CHR ''X'') then (16, r) else (10, s)
      | _ \<Rightarrow> (10, s))"

text \<open>\<open>None\<close> is \<open>NaN\<close>.\<close>

definition parseInt :: "jsval \<Rightarrow> int option" where
  "parseInt v =
     (let s = dropWhile is_js_space (js_to_string v);
          (sign, s1) = parse_sign s;
          (radix, s2) = parse_radix_prefix s1;
          z = takeWhile (\<lambda>c. radix_digit radix c \<noteq> None) s2
      in if z = [] then None else Some (sign * int (radix_value radix z)))"

text \<open>The relational operator \<open>a > b\<close> on two numbers: false when either is \<open>NaN\<close>.\<close>

definition js_num_gt :: "int option \<Rightarrow> int option \<Rightarrow> bool" where
  "js_num_gt a b = (case (a, b) of (Some x, Some y) \<Rightarrow> x > y | _ \<Rightarrow> False)"

subsection \<open>The error classes of \<open>expressError\<close>\<close>

text \<open>
  \<open>BadRequestError\<close> (status 400), \<open>NotFoundError\<close> (404), \<open>ExpressError(message,
  status)\<close>, and an error the database client raises for a statement it rejects, which
  the application's error handler reports with status 500.
\<close>

datatype error =
    BadRequestError string
  | NotFoundError string
  | ExpressError string nat
  | DbError string

fun error_status :: "error \<Rightarrow> nat" where
  "error_status (BadRequestError m) = 400"
| "error_status (NotFoundError m) = 404"
| "error_status (ExpressError m s) = s"
| "error_status (DbError m) = 500"

subsection \<open>Lemmas on the runtime fragment\<close>

lemma mset_own_entries [simp]: "mset (own_entries obj) = mset obj"
  by (simp add: own_entries_def)

lemma set_own_entries [simp]: "set (own_entries obj) = set obj"
  by (metis mset_own_entries set_mset_mset)

lemma length_own_entries [simp]: "length (own_entries obj) = length obj"
  by (metis mset_own_entries size_mset)

lemma length_object_keys [simp]: "length (object_keys obj) = length obj"
  by (simp add: object_keys_def)

lemma length_object_values [simp]: "length (object_values obj) = length obj"
  by (simp add: object_values_def)

lemma object_keys_Nil_iff [simp]: "object_keys obj = [] \<longleftrightarrow> obj = []"
  by (metis length_0_conv length_object_keys)

lemma set_object_keys [simp]: "set (object_keys obj) = fst ` set obj"
  by (simp add: object_keys_def)

lemma own_entries_single [simp]: "own_entries [e] = [e]"
  by (simp add: own_entries_def)

lemma own_entries_no_index [js_simps]:
  "list_all (\<lambda>e. \<not> is_array_index (fst e)) obj \<Longrightarrow> own_entries obj = obj"
  by (simp add: own_entries_def list_all_iff filter_id_conv)

text \<open>The values are those of the keys, position by position.\<close>

lemma object_values_aligned:
  assumes "js_obj_wf obj"
  shows "map (map_of obj) (object_keys obj) = map Some (object_values obj)"
proof -
  have "\<And>e. e \<in> set (own_entries obj) \<Longrightarrow> map_of obj (fst e) = Some (snd e)"
    using assms by (auto simp: js_obj_wf_def)
  then show ?thesis
    by (simp add: object_keys_def object_values_def)
qed

text \<open>An array-index key comes before every other key, and before every larger index.\<close>

lemma object_keys_index_first:
  assumes a: "a \<in> fst ` set obj" and b: "b \<in> fst ` set obj" and ia: "is_array_index a"
    and ord: "\<not> is_array_index b \<or> nat_of_digits a < nat_of_digits b"
  shows "\<exists>i j. i < j \<and> j < length obj \<and> object_keys obj ! i = a \<and> object_keys obj ! j = b"
proof -
  let ?A = "sort_key (\<lambda>e. nat_of_digits (fst e)) (filter (\<lambda>e. is_array_index (fst e)) obj)"
  let ?B = "filter (\<lambda>e. \<not> is_array_index (fst e)) obj"
  have keys: "object_keys obj = map fst ?A @ map fst ?B"
    by (simp add: object_keys_def own_entries_def)
  have "a \<in> fst ` set ?A"
    using a ia by (auto simp: image_iff)
  then obtain e where e: "e \<in> set ?A" "fst e = a"
    by blast
  then obtain i where i: "i < length ?A" "fst (?A ! i) = a"
    by (metis in_set_conv_nth)
  have len: "length obj = length ?A + length ?B"
    using arg_cong [OF keys, of length] by simp
  show ?thesis
  proof (cases "is_array_index b")
    case False
    have "b \<in> fst ` set ?B"
      using b False by (auto simp: image_iff)
    then obtain e where e: "e \<in> set ?B" "fst e = b"
      by blast
    then obtain j where j: "j < length ?B" "fst (?B ! j) = b"
      by (metis in_set_conv_nth)
    show ?thesis
      using i j len
      by (intro exI [of _ i] exI [of _ "length ?A + j"]) (simp add: keys nth_append)
  next
    case True
    with ord have lt: "nat_of_digits a < nat_of_digits b" by simp
    have "b \<in> fst ` set ?A"
      using b True by (auto simp: image_iff)
    then obtain e where e: "e \<in> set ?A" "fst e = b"
      by blast
    then obtain j where j: "j < length ?A" "fst (?A ! j) = b"
      by (metis in_set_conv_nth)
    have "i < j"
    proof (rule ccontr)
      assume "\<not> i < j"
      then have "nat_of_digits (fst (?A ! j)) \<le> nat_of_digits (fst (?A ! i))"
        using sorted_nth_mono [OF sorted_sort_key [of "\<lambda>e. nat_of_digits (fst e)" "filter (\<lambda>e. is_array_index (fst e)) obj"], of j i] i
        by (simp add: not_less)
      with i j lt show False by simp
    qed
    then show ?thesis
      using i j len
      by (intro exI [of _ i] exI [of _ j]) (simp add: keys nth_append)
  qed
qed

lemma object_prototype_names_unquoted:
  "list_all (\<lambda>m. dq \<notin> set m) (''constructor'' # ''__proto__'' # object_prototype_methods)"
  by (simp add: object_prototype_methods_def)

lemma object_prototype_get_dq:
  "dq \<in> set k \<Longrightarrow> object_prototype_get k = JUndefined"
  using object_prototype_names_unquoted unfolding object_prototype_get_def list_all_iff
  by (metis list.set_intros)

lemma js_join_Cons_Cons [js_simps]:
  "js_join sep (v # vs) = join_elem v @ (if vs = [] then [] else sep @ js_join sep vs)"
  by (cases vs) simp_all

lemma js_get_own [js_simps]: "map_of obj k = Some v \<Longrightarrow> js_get obj k = v"
  by (simp add: js_get_def)

lemma js_get_absent [js_simps]:
  "map_of obj k = None \<Longrightarrow> js_get obj k = object_prototype_get k"
  by (simp add: js_get_def)

lemma js_or_truthy [js_simps]: "js_truthy a \<Longrightarrow> js_or a b = a"
  by (simp add: js_or_def)

lemma js_or_falsy [js_simps]: "\<not> js_truthy a \<Longrightarrow> js_or a b = b"
  by (simp add: js_or_def)

end
