(* ===== verification/Sql.thy ===== *)
theory Sql
  imports JsRuntime
begin

text \<open>
  \<open>src/helpers/sql.js\<close>: \<open>sqlForPartialUpdate(dataToUpdate, jsToSql)\<close> builds the SET
  clause of a partial UPDATE. \<open>sql_column\<close> is the expression
  \<open>jsToSql[colName] || colName\<close>, \<open>sql_set_fragment\<close> the template literal
  \<open>"${...}"=$${idx + 1}\<close>, and \<open>sqlForPartialUpdate\<close> the whole function: the
  \<open>BadRequestError("No data")\<close> raised for an object with no keys, the fragments joined
  with \<open>", "\<close>, and the values in \<open>Object.values\<close> order. The returned object is the
  record \<open>sql_update\<close> (its field \<open>values\<close> is \<open>values'\<close>, \<open>values\<close> being an
  Isabelle keyword).

  \<open>parse_set_clause\<close> is how the database reads such a clause back: a comma-separated
  list of \<open>"column"=$n\<close> assignments. It is not code of the repository; it states what
  the clause means, so that the round trip \<open>parse_set_clause (setCols r)\<close> can say which
  column receives which bound parameter.
\<close>

record 'v sql_update =
  setCols :: string
  values' :: "'v list"

definition sql_column :: "jsval jsobj \<Rightarrow> string \<Rightarrow> string" where
  "sql_column jsToSql colName = js_to_string (js_or (js_get jsToSql colName) (JStr colName))"

definition sql_set_fragment :: "jsval jsobj \<Rightarrow> string \<Rightarrow> nat \<Rightarrow> string" where
  "sql_set_fragment jsToSql colName idx =
     dq # sql_column jsToSql colName @ dq # CHR ''='' # CHR ''$'' # string_of_nat (idx + 1)"

definition sqlForPartialUpdate :: "'v jsobj \<Rightarrow> jsval jsobj \<Rightarrow> error + 'v sql_update" where
  "sqlForPartialUpdate dataToUpdate jsToSql =
     (let keys = object_keys dataToUpdate in
      if length keys = 0 then Inl (BadRequestError ''No data'')
      else
        (let cols = map (\<lambda>(idx, colName). sql_set_fragment jsToSql colName idx) (enumerate 0 keys)
         in Inr \<lparr>setCols = js_join '', '' (map JStr cols), values' = object_values dataToUpdate\<rparr>))"

text \<open>The fixture of \<open>src/helpers/sql.test.js\<close>: payload, translation table, expected result.\<close>

definition sql_test_payload :: "jsval jsobj" where
  "sql_test_payload = [(''job_title'', JStr ''data scientist''), (''age'', JNum 20)]"

definition sql_test_jsToSql :: "jsval jsobj" where
  "sql_test_jsToSql = [(''job_title'', JStr ''job_title''), (''age'', JStr ''age'')]"

definition sql_test_expected :: "jsval sql_update" where
  \<open>sql_test_expected =
     \<lparr>setCols = ''"job_title"=$1, "age"=$2'', values' = [JStr ''data scientist'', JNum 20]\<rparr>\<close>

subsection \<open>Reading a SET clause back\<close>

definition parse_placeholder :: "string \<Rightarrow> (nat \<times> string) option" where
  "parse_placeholder s =
     (case s of
        c1 # c2 # r \<Rightarrow>
          if c1 = CHR ''='' \<and> c2 = CHR ''$'' \<and> takeWhile is_digit r \<noteq> []
          then Some (nat_of_digits (takeWhile is_digit r), dropWhile is_digit r)
          else None
      | _ \<Rightarrow> None)"

definition parse_assignment :: "string \<Rightarrow> ((string \<times> nat) \<times> string) option" where
  "parse_assignment s =
     (case s of
        c # r \<Rightarrow>
          if c = dq then
            (case dropWhile (\<lambda>x. x \<noteq> dq) r of
               q # r' \<Rightarrow> map_option (\<lambda>(n, rest). ((takeWhile (\<lambda>x. x \<noteq> dq) r, n), rest))
                          (parse_placeholder r')
             | [] \<Rightarrow> None)
          else None
      | [] \<Rightarrow> None)"

lemma parse_placeholder_shorter:
  "parse_placeholder s = Some (n, rest) \<Longrightarrow> length rest < length s"
  by (auto simp: parse_placeholder_def split: list.splits if_splits
           intro: le_less_trans [OF length_dropWhile_le])

lemma parse_assignment_shorter:
  assumes "parse_assignment s = Some (a, rest)"
  shows "length rest < length s"
proof (cases s)
  case Nil
  with assms show ?thesis by (simp add: parse_assignment_def)
next
  case (Cons c r)
  with assms obtain q r' n where
    dw: "dropWhile (\<lambda>x. x \<noteq> dq) r = q # r'" and ph: "parse_placeholder r' = Some (n, rest)"
    by (auto simp: parse_assignment_def split: if_splits list.splits)
  have "length (q # r') \<le> length r"
    by (metis dw length_dropWhile_le)
  with ph Cons show ?thesis
    using parse_placeholder_shorter by fastforce
qed

function parse_set_clause :: "string \<Rightarrow> (string \<times> nat) list option" where
  "parse_set_clause s =
     (case parse_assignment s of
        None \<Rightarrow> None
      | Some (a, rest) \<Rightarrow>
          (case rest of
             [] \<Rightarrow> Some [a]
           | c1 # c2 # rest' \<Rightarrow>
               if c1 = CHR '','' \<and> c2 = CHR '' '' then map_option (Cons a) (parse_set_clause rest')
               else None
           | _ \<Rightarrow> None))"
  by pat_completeness auto
termination
proof (relation "measure length")
  fix s x a rest c1 y c2 rest'
  assume "parse_assignment s = Some x" "(a, rest) = x" "rest = c1 # y" "y = c2 # rest'"
  then have "length rest < length s"
    using parse_assignment_shorter by blast
  with \<open>rest = c1 # y\<close> \<open>y = c2 # rest'\<close> show "(rest', s) \<in> measure length" by simp
qed simp

declare parse_set_clause.simps [simp del]

subsection \<open>Reading one fragment back\<close>

lemma parse_placeholder_digits [sql_simps]:
  assumes "takeWhile is_digit rest = []"
  shows "parse_placeholder (CHR ''='' # CHR ''$'' # string_of_nat m @ rest) = Some (m, rest)"
proof -
  have "dropWhile is_digit rest = rest"
    using assms by (cases rest) auto
  then show ?thesis
    using assms by (simp add: parse_placeholder_def takeWhile_append2 dropWhile_append2
                              string_of_nat_digits)
qed

lemma parse_assignment_fragment [sql_simps]:
  assumes "dq \<notin> set c" and "takeWhile is_digit rest = []"
  shows "parse_assignment (dq # c @ dq # CHR ''='' # CHR ''$'' # string_of_nat m @ rest)
           = Some ((c, m), rest)"
proof -
  have tw: "takeWhile (\<lambda>x. x \<noteq> dq) (c @ dq # X) = c" for X
    using assms(1) by (induction c) auto
  have dw: "dropWhile (\<lambda>x. x \<noteq> dq) (c @ dq # X) = dq # X" for X
    using assms(1) by (induction c) auto
  show ?thesis
    using assms(2) by (simp add: parse_assignment_def tw dw parse_placeholder_digits)
qed

text \<open>
  The clause the code joins from the fragments \<open>"column"=$(i+1)\<close>, for the keys
  numbered from \<open>n\<close>, reads back as the columns paired with the placeholders
  \<open>n+1, n+2, \<dots>\<close>, provided no column contains a double quote.
\<close>

lemma parse_set_clause_join:
  assumes "ks \<noteq> []" and "list_all (\<lambda>k. dq \<notin> set (sql_column jsToSql k)) ks"
  shows "parse_set_clause (js_join '', '' (map JStr
            (map (\<lambda>(i, k). sql_set_fragment jsToSql k i) (enumerate n ks))))
         = Some (zip (map (sql_column jsToSql) ks) [Suc n..<Suc n + length ks])"
  using assms
proof (induction ks arbitrary: n)
  case Nil
  then show ?case by simp
next
  case (Cons k ks)
  let ?col = "sql_column jsToSql k"
  let ?frag = "sql_set_fragment jsToSql k n"
  let ?rest = "js_join '', '' (map JStr
                 (map (\<lambda>(i, k). sql_set_fragment jsToSql k i) (enumerate (Suc n) ks)))"
  have frag: "?frag @ r = dq # ?col @ dq # CHR ''='' # CHR ''$'' # string_of_nat (Suc n) @ r" for r
    by (simp add: sql_set_fragment_def)
  have dq_col: "dq \<notin> set ?col"
    using Cons.prems(2) by simp
  show ?case
  proof (cases "ks = []")
    case True
    have "parse_assignment (?frag @ []) = Some ((?col, Suc n), [])"
      unfolding frag using dq_col by (rule parse_assignment_fragment) simp
    then have "parse_set_clause ?frag = Some [(?col, Suc n)]"
      unfolding parse_set_clause.simps [of ?frag] by simp
    with True show ?thesis
      by (simp add: join_elem_def)
  next
    case False
    have IH: "parse_set_clause ?rest
                = Some (zip (map (sql_column jsToSql) ks) [Suc (Suc n)..<Suc (Suc n) + length ks])"
      using Cons.IH [of "Suc n", OF False] Cons.prems(2) by (simp del: upt_Suc)
    have "parse_assignment (?frag @ '', '' @ ?rest) = Some ((?col, Suc n), '', '' @ ?rest)"
      unfolding frag using dq_col by (rule parse_assignment_fragment) (simp add: is_digit_def)
    then have "parse_set_clause (?frag @ '', '' @ ?rest)
                 = map_option (Cons (?col, Suc n)) (parse_set_clause ?rest)"
      unfolding parse_set_clause.simps [of "?frag @ '', '' @ ?rest"] by simp
    moreover have "js_join '', '' (map JStr (map (\<lambda>(i, k). sql_set_fragment jsToSql k i)
                     (enumerate n (k # ks)))) = ?frag @ '', '' @ ?rest"
      using False by (cases ks) (simp_all add: join_elem_def)
    moreover have "[Suc n..<Suc n + length (k # ks)] = Suc n # [Suc (Suc n)..<Suc (Suc n) + length ks]"
      by (simp add: upt_conv_Cons del: upt_Suc)
    ultimately show ?thesis
      using IH by (simp del: upt_Suc)
  qed
qed

lemma sqlForPartialUpdate_Inr_iff:
  "sqlForPartialUpdate data jsToSql = Inr r \<longleftrightarrow>
     data \<noteq> [] \<and>
     r = \<lparr>setCols = js_join '', '' (map JStr (map (\<lambda>(idx, colName).
                 sql_set_fragment jsToSql colName idx) (enumerate 0 (object_keys data)))),
          values' = object_values data\<rparr>"
  by (auto simp: sqlForPartialUpdate_def Let_def)

lemma sqlForPartialUpdate_no_data_iff:
  "(\<exists>e. sqlForPartialUpdate data jsToSql = Inl e) \<longleftrightarrow> data = []"
  by (auto simp: sqlForPartialUpdate_def Let_def)

subsection \<open>Properties of \<open>sqlForPartialUpdate\<close>\<close>

text \<open>
  C2: an update payload with no keys is refused with \<open>BadRequestError("No data")\<close>, and
  that is the only error the function raises.
\<close>

theorem sqlForPartialUpdate_no_data:
  "sqlForPartialUpdate dataToUpdate jsToSql = Inl e \<longleftrightarrow>
     dataToUpdate = [] \<and> e = BadRequestError ''No data''"
  by (auto simp: sqlForPartialUpdate_def Let_def)

text \<open>
  Read back by the database, the clause assigns the \<open>i\<close>-th key's column (the translated
  name) from the placeholder \<open>$i\<close>, for \<open>i = 1 \<dots> n\<close> in the order of \<open>Object.keys\<close>,
  provided no column name contains a double quote.
\<close>

lemma sqlForPartialUpdate_set_clause:
  assumes "sqlForPartialUpdate dataToUpdate jsToSql = Inr r"
    and "list_all (\<lambda>k. dq \<notin> set (sql_column jsToSql k)) (object_keys dataToUpdate)"
  shows "parse_set_clause (setCols r)
           = Some (zip (map (sql_column jsToSql) (object_keys dataToUpdate))
                       [1..<Suc (length (values' r))])"
proof -
  have ne: "object_keys dataToUpdate \<noteq> []"
    using assms(1) by (auto simp: sqlForPartialUpdate_Inr_iff)
  from assms(1) show ?thesis
    using parse_set_clause_join [OF ne assms(2), of 0]
    by (auto simp: sqlForPartialUpdate_Inr_iff object_values_def simp del: upt_Suc)
qed

text \<open>
  C1: the bound values line up with the placeholders. For a well-formed payload (distinct
  keys), the clause reads back as \<open>n\<close> assignments, \<open>n\<close> the number of values, and the
  \<open>i\<close>-th assignment writes the placeholder \<open>$(i+1)\<close> into the column of the \<open>i\<close>-th key,
  whose value in the payload is exactly the \<open>i\<close>-th bound value.
\<close>

theorem sqlForPartialUpdate_binds_values:
  assumes "js_obj_wf dataToUpdate"
    and "sqlForPartialUpdate dataToUpdate jsToSql = Inr r"
    and "list_all (\<lambda>k. dq \<notin> set (sql_column jsToSql k)) (object_keys dataToUpdate)"
  shows "\<exists>asgs. parse_set_clause (setCols r) = Some asgs \<and> length asgs = length (values' r) \<and>
           (\<forall>i < length asgs.
              asgs ! i = (sql_column jsToSql (object_keys dataToUpdate ! i), Suc i) \<and>
              map_of dataToUpdate (object_keys dataToUpdate ! i) = Some (values' r ! i))"
proof -
  let ?ks = "object_keys dataToUpdate"
  have vals: "values' r = object_values dataToUpdate"
    using assms(2) by (simp add: sqlForPartialUpdate_Inr_iff)
  have len: "length (values' r) = length ?ks"
    by (simp add: vals)
  have aligned: "map (map_of dataToUpdate) ?ks = map Some (values' r)"
    using object_values_aligned [OF assms(1)] by (simp add: vals)
  have "map_of dataToUpdate (?ks ! i) = Some (values' r ! i)" if "i < length ?ks" for i
    using arg_cong [OF aligned, of "\<lambda>xs. xs ! i"] that len by simp
  moreover have "parse_set_clause (setCols r) = Some (zip (map (sql_column jsToSql) ?ks) [1..<Suc (length (values' r))])"
    by (rule sqlForPartialUpdate_set_clause [OF assms(2,3)])
  ultimately show ?thesis
    using len by (intro exI [of _ "zip (map (sql_column jsToSql) ?ks) [1..<Suc (length (values' r))]"])
                 (auto simp del: upt_Suc)
qed

lemmas sql_eval_simps = sqlForPartialUpdate_def sql_set_fragment_def sql_column_def js_get_def
  js_or_def object_keys_def object_values_def own_entries_def is_array_index_def is_digit_def
  object_prototype_get_def object_prototype_methods_def string_of_nat.simps digit_char_def
  join_elem_def

lemma sql_test_fixture_eval:
  "sqlForPartialUpdate sql_test_payload sql_test_jsToSql = Inr sql_test_expected"
  by (simp add: sql_eval_simps sql_test_payload_def sql_test_jsToSql_def sql_test_expected_def)

theorem sqlForPartialUpdate_binds_values_witness:
  "js_obj_wf sql_test_payload \<and>
   sqlForPartialUpdate sql_test_payload sql_test_jsToSql = Inr sql_test_expected \<and>
   list_all (\<lambda>k. dq \<notin> set (sql_column sql_test_jsToSql k)) (object_keys sql_test_payload) \<and>
   (\<exists>asgs. parse_set_clause (setCols sql_test_expected) = Some asgs \<and>
      length asgs = length (values' sql_test_expected) \<and>
      (\<forall>i < length asgs.
         asgs ! i = (sql_column sql_test_jsToSql (object_keys sql_test_payload ! i), Suc i) \<and>
         map_of sql_test_payload (object_keys sql_test_payload ! i)
           = Some (values' sql_test_expected ! i)))"
proof -
  have wf: "js_obj_wf sql_test_payload"
    by (simp add: js_obj_wf_def sql_test_payload_def)
  have run: "sqlForPartialUpdate sql_test_payload sql_test_jsToSql = Inr sql_test_expected"
    by (rule sql_test_fixture_eval)
  have nq: "list_all (\<lambda>k. dq \<notin> set (sql_column sql_test_jsToSql k)) (object_keys sql_test_payload)"
    by (simp add: sql_eval_simps sql_test_payload_def sql_test_jsToSql_def)
  show ?thesis
    using sqlForPartialUpdate_binds_values [OF wf run nq] wf run nq by blast
qed

text \<open>
  C4: \<open>jsToSql[colName] || colName\<close> outside \<open>Object.prototype\<close>: a key the translation
  table maps to a non-empty string is written as that column name, a key mapped to the
  empty string falls back to the key itself, and a key absent from the table (and not a
  member of \<open>Object.prototype\<close>) is used verbatim.
\<close>

theorem sql_column_table_or_key:
  "(map_of jsToSql c = Some (JStr s) \<longrightarrow> sql_column jsToSql c = (if s = [] then c else s)) \<and>
   (map_of jsToSql k = None \<and> object_prototype_get k = JUndefined \<longrightarrow> sql_column jsToSql k = k)"
  by (simp add: sql_column_def js_get_def js_or_def)

theorem sql_column_table_or_key_witness:
  "map_of [(''jobTitle'', JStr ''job_title'')] ''jobTitle'' = Some (JStr ''job_title'') \<and>
   sql_column [(''jobTitle'', JStr ''job_title'')] ''jobTitle'' = ''job_title'' \<and>
   map_of [(''jobTitle'', JStr ''job_title'')] ''age'' = None \<and> object_prototype_get ''age'' = JUndefined \<and>
   sql_column [(''jobTitle'', JStr ''job_title'')] ''age'' = ''age''"
proof -
  have h1: "map_of [(''jobTitle'', JStr ''job_title'')] ''jobTitle'' = Some (JStr ''job_title'')" by simp
  have h2: "map_of [(''jobTitle'', JStr ''job_title'')] ''age'' = None" by simp
  have h3: "object_prototype_get ''age'' = JUndefined"
    by (simp add: object_prototype_get_def object_prototype_methods_def)
  show ?thesis
    using sql_column_table_or_key [of "[(''jobTitle'', JStr ''job_title'')]" "''jobTitle''" "''job_title''" "''age''"]
          h1 h2 h3 by simp
qed

text \<open>
  C5: a key absent from the table but named like a method of \<open>Object.prototype\<close>
  (\<open>toString\<close>, \<open>valueOf\<close>, \<dots>) is not used verbatim: \<open>jsToSql[colName]\<close> finds the
  inherited function, which is truthy, and its source text becomes the column name.
\<close>

theorem sql_column_inherited:
  assumes "map_of jsToSql colName = None" and "colName \<in> set object_prototype_methods"
  shows "sql_column jsToSql colName = ''function '' @ colName @ ''() { [native code] }''"
proof -
  have "colName \<noteq> ''constructor''"
    using assms(2) by (auto simp: object_prototype_methods_def)
  with assms show ?thesis
    by (simp add: sql_column_def js_get_def js_or_def object_prototype_get_def)
qed

theorem sql_column_inherited_witness:
  "map_of sql_test_jsToSql ''toString'' = None \<and> ''toString'' \<in> set object_prototype_methods \<and>
   sql_column sql_test_jsToSql ''toString'' = ''function toString() { [native code] }''"
proof -
  have h1: "map_of sql_test_jsToSql ''toString'' = None"
    by (simp add: sql_test_jsToSql_def)
  have h2: "''toString'' \<in> set object_prototype_methods"
    by (simp add: object_prototype_methods_def)
  show ?thesis using h1 h2 sql_column_inherited [OF h1 h2] by simp
qed

text \<open>
  C6: \<open>Object.keys\<close> lists array-index keys first, in numeric order, and the
  placeholders follow that order, not the payload's insertion order. For two keys
  \<open>a\<close> and \<open>b\<close> of a well-formed payload, where \<open>a\<close> is an array index and \<open>b\<close> is
  not, or both are and \<open>a\<close> is the smaller number, \<open>a\<close>'s column takes a lower
  placeholder than \<open>b\<close>'s wherever they stand in the payload, and each placeholder's
  bound value is its key's value.
\<close>

theorem sqlForPartialUpdate_index_keys_first:
  assumes wf: "js_obj_wf dataToUpdate" and run: "sqlForPartialUpdate dataToUpdate jsToSql = Inr r"
    and nq: "list_all (\<lambda>k. dq \<notin> set (sql_column jsToSql k)) (object_keys dataToUpdate)"
    and a: "a \<in> fst ` set dataToUpdate" and b: "b \<in> fst ` set dataToUpdate"
    and ia: "is_array_index a" and ord: "\<not> is_array_index b \<or> nat_of_digits a < nat_of_digits b"
  shows "\<exists>asgs i j. parse_set_clause (setCols r) = Some asgs \<and> i < j \<and> j < length asgs \<and>
           asgs ! i = (sql_column jsToSql a, Suc i) \<and> asgs ! j = (sql_column jsToSql b, Suc j) \<and>
           map_of dataToUpdate a = Some (values' r ! i) \<and> map_of dataToUpdate b = Some (values' r ! j)"
proof -
  let ?ks = "object_keys dataToUpdate"
  obtain i j where ij: "i < j" "j < length dataToUpdate" "?ks ! i = a" "?ks ! j = b"
    using object_keys_index_first [OF a b ia ord] by blast
  have vals: "values' r = object_values dataToUpdate"
    using run by (simp add: sqlForPartialUpdate_Inr_iff)
  have al: "map_of dataToUpdate (?ks ! n) = Some (values' r ! n)" if "n < length dataToUpdate" for n
    using arg_cong [OF object_values_aligned [OF wf], of "\<lambda>xs. xs ! n"] that by (simp add: vals)
  have parse: "parse_set_clause (setCols r) = Some (zip (map (sql_column jsToSql) ?ks) [1..<Suc (length dataToUpdate)])"
    using sqlForPartialUpdate_set_clause [OF run nq] by (simp add: vals)
  show ?thesis
    using ij al [of i] al [of j] parse
    by (intro exI [of _ "zip (map (sql_column jsToSql) ?ks) [1..<Suc (length dataToUpdate)]"] exI [of _ i] exI [of _ j])
       (simp del: upt_Suc)
qed

theorem sqlForPartialUpdate_index_keys_first_witness:
  "js_obj_wf [(''b'', JNum 1), (''2'', JNum 2)] \<and>
   sqlForPartialUpdate [(''b'', JNum 1), (''2'', JNum 2)] []
     = Inr \<lparr>setCols = ''\"2\"=$1, \"b\"=$2'', values' = [JNum 2, JNum 1]\<rparr> \<and>
   list_all (\<lambda>k. dq \<notin> set (sql_column [] k)) (object_keys [(''b'', JNum 1), (''2'', JNum 2)]) \<and>
   is_array_index ''2'' \<and> \<not> is_array_index ''b'' \<and>
   (\<exists>asgs i j. parse_set_clause ''\"2\"=$1, \"b\"=$2'' = Some asgs \<and> i < j \<and> j < length asgs \<and>
      asgs ! i = (''2'', Suc i) \<and> asgs ! j = (''b'', Suc j) \<and>
      map_of [(''b'', JNum 1), (''2'', JNum 2)] ''2'' = Some ([JNum 2, JNum 1] ! i) \<and>
      map_of [(''b'', JNum 1), (''2'', JNum 2)] ''b'' = Some ([JNum 2, JNum 1] ! j))"
proof -
  have wf: "js_obj_wf [(''b'', JNum 1), (''2'', JNum 2)]"
    by (simp add: js_obj_wf_def)
  have run: "sqlForPartialUpdate [(''b'', JNum 1), (''2'', JNum 2)] []
     = Inr \<lparr>setCols = ''\"2\"=$1, \"b\"=$2'', values' = [JNum 2, JNum 1]\<rparr>"
    by (simp add: sql_eval_simps nat_of_digits_def digit_value_def)
  have nq: "list_all (\<lambda>k. dq \<notin> set (sql_column [] k)) (object_keys [(''b'', JNum 1), (''2'', JNum 2)])"
    by (simp add: sql_eval_simps nat_of_digits_def digit_value_def)
  have ia: "is_array_index ''2''" and nb: "\<not> is_array_index ''b''"
    by (simp_all add: is_array_index_def is_digit_def nat_of_digits_def digit_value_def)
  have col: "sql_column [] ''2'' = ''2''" "sql_column [] ''b'' = ''b''"
    by (simp_all add: sql_eval_simps)
  have a: "''2'' \<in> fst ` set [(''b'', JNum 1), (''2'', JNum 2)]"
    and b: "''b'' \<in> fst ` set [(''b'', JNum 1), (''2'', JNum 2)]" by simp_all
  have ord: "\<not> is_array_index ''b'' \<or> nat_of_digits ''2'' < nat_of_digits ''b''"
    using nb by simp
  note C = sqlForPartialUpdate_index_keys_first [OF wf run nq a b ia ord]
  show ?thesis
    using wf run nq ia nb C unfolding col sql_update.select_convs by blast
qed

text \<open>
  C7: the column name is placed between double quotes without escaping. A payload key
  that contains a double quote is therefore read back by the database as more than one
  assignment: for any quote-free \<open>x\<close> and \<open>y\<close>, the one-key payload
  \<open>{'x"=$1, "y': v}\<close> (a key the translation table lacks) binds the single value
  \<open>v\<close>, but its clause writes both columns \<open>x\<close> and \<open>y\<close> from \<open>$1\<close>. The quote-free
  hypothesis of the binding theorem (C1) is needed.
\<close>

theorem sqlForPartialUpdate_quote_injection:
  assumes "dq \<notin> set x" and "dq \<notin> set y" and "map_of jsToSql (x @ ''\"=$1, \"'' @ y) = None"
  shows "\<exists>r. sqlForPartialUpdate [(x @ ''\"=$1, \"'' @ y, v)] jsToSql = Inr r \<and>
             values' r = [v] \<and> parse_set_clause (setCols r) = Some [(x, 1), (y, 1)]"
proof -
  let ?k = "x @ ''\"=$1, \"'' @ y"
  have one: "string_of_nat 1 = ''1''" "string_of_nat (Suc 0) = ''1''"
    by (subst string_of_nat.simps, simp add: digit_char_def)+
  have col: "sql_column jsToSql ?k = ?k"
    using assms(3) object_prototype_get_dq [of ?k]
    by (simp add: sql_column_def js_get_def js_or_def)
  have clause: "js_join '', '' (map JStr (map (\<lambda>(idx, colName).
                 sql_set_fragment jsToSql colName idx) (enumerate 0 (object_keys [(?k, v)]))))
        = dq # x @ ''\"=$1, \"'' @ y @ ''\"=$1''"
    by (simp add: object_keys_def sql_set_fragment_def col [simplified] join_elem_def one)
  have p2: "parse_assignment (dq # y @ ''\"=$1'') = Some ((y, 1), [])"
    using parse_assignment_fragment [OF assms(2), of "[]" 1] by (simp add: one)
  have p1: "parse_assignment (dq # x @ ''\"=$1, \"'' @ y @ ''\"=$1'')
              = Some ((x, 1), '', \"'' @ y @ ''\"=$1'')"
    using parse_assignment_fragment [OF assms(1), of "'', \"'' @ y @ ''\"=$1''" 1]
    by (simp add: one is_digit_def)
  have "parse_set_clause (dq # y @ ''\"=$1'') = Some [(y, 1)]"
    by (subst parse_set_clause.simps) (simp add: p2 [simplified])
  then have "parse_set_clause (dq # x @ ''\"=$1, \"'' @ y @ ''\"=$1'') = Some [(x, 1), (y, 1)]"
    by (subst parse_set_clause.simps) (simp add: p1 [simplified])
  then show ?thesis
    using clause by (simp add: sqlForPartialUpdate_Inr_iff object_values_def)
qed

theorem sqlForPartialUpdate_quote_injection_witness:
  "\<exists>r. sqlForPartialUpdate [(''x\"=$1, \"y'', JNum 1)] [] = Inr r \<and>
       values' r = [JNum 1] \<and> parse_set_clause (setCols r) = Some [(''x'', 1), (''y'', 1)]"
  using sqlForPartialUpdate_quote_injection [of "''x''" "''y''" "[]" "JNum 1"] by simp

end
