(* ===== verification/Store.thy ===== *)
theory Store
  imports Complex_Main Sql
begin

text \<open>
  The PostgreSQL store the models talk to through \<open>db.query\<close>: not code of the
  repository, but the meaning of the statements the code sends. The schema file is not
  among the sources; the tables are those the queries name:
  \<open>companies(handle, name, description, num_employees, logo_url)\<close> keyed by
  \<open>handle\<close>, and \<open>jobs(id, title, salary, equity, company_handle)\<close> keyed by the
  serial \<open>id\<close>. \<open>name\<close>, \<open>description\<close>, \<open>title\<close> and \<open>company_handle\<close> are taken
  as NOT NULL text, \<open>num_employees\<close> and \<open>salary\<close> as nullable integers, \<open>equity\<close> as
  a nullable numeric, \<open>logo_url\<close> as nullable text; CHECK and foreign-key constraints are
  not modelled.

  A bound parameter is what node-postgres sends: the text of the JavaScript value, or
  NULL for \<open>null\<close> and \<open>undefined\<close> (\<open>pg_prepare\<close>). The server converts the text to
  the column's type (\<open>pg_int4_in\<close>, \<open>pg_numeric_in\<close>) and reports a failure as an
  error, modelled as \<open>DbError\<close>. A statement is modelled by a function per statement
  shape; its interpolated parts (a SET clause, a placeholder \<open>$n\<close>) are passed as the
  strings the code builds and read here as PostgreSQL reads them.
\<close>

record company =
  handle :: string
  name :: string
  description :: string
  num_employees :: "int option"
  logo_url :: "string option"

record job =
  id' :: int
  title :: string
  salary :: "int option"
  equity :: "rat option"
  company_handle :: string

record db =
  companies :: "company list"
  jobs :: "job list"
  jobs_id_seq :: int

text \<open>
  The primary keys: handles and ids are unique; the serial's sequence holds a value of
  its type \<open>integer\<close>, at least its start value less one.
\<close>

definition db_wf :: "db \<Rightarrow> bool" where
  "db_wf d \<longleftrightarrow> distinct (map handle (companies d)) \<and> distinct (map id' (jobs d))
     \<and> 0 \<le> jobs_id_seq d \<and> jobs_id_seq d \<le> 2147483647"

text \<open>
  A store shaped like the test database of the model and route tests: companies
  \<open>c1\<close>, \<open>c2\<close>, \<open>c3\<close> and the jobs \<open>j1\<close>, \<open>j2\<close>, \<open>j3\<close> that
  \<open>src/models/job.test.js\<close> lists (salaries 1, 2, 3; equity null, 0.2, 0.3). Used by
  the witnesses.
\<close>

definition test_db :: db where
  "test_db =
     \<lparr>companies =
        [\<lparr>handle = ''c1'', name = ''C1'', description = ''Desc1'', num_employees = Some 1,
           logo_url = Some ''http://c1.img''\<rparr>,
         \<lparr>handle = ''c2'', name = ''C2'', description = ''Desc2'', num_employees = Some 2,
           logo_url = Some ''http://c2.img''\<rparr>,
         \<lparr>handle = ''c3'', name = ''C3'', description = ''Desc3'', num_employees = Some 3,
           logo_url = Some ''http://c3.img''\<rparr>],
      jobs =
        [\<lparr>id' = 1, title = ''j1'', salary = Some 1, equity = None, company_handle = ''c1''\<rparr>,
         \<lparr>id' = 2, title = ''j2'', salary = Some 2, equity = Some (2 / 10), company_handle = ''c2''\<rparr>,
         \<lparr>id' = 3, title = ''j3'', salary = Some 3, equity = Some (3 / 10), company_handle = ''c3''\<rparr>],
      jobs_id_seq = 3\<rparr>"

subsection \<open>Parameters and input conversion\<close>

fun pg_prepare :: "jsval \<Rightarrow> string option" where
  "pg_prepare JUndefined = None"
| "pg_prepare JNull = None"
| "pg_prepare (JBool b) = Some (if b then ''true'' else ''false'')"
| "pg_prepare (JNum n) = Some (string_of_int n)"
| "pg_prepare (JStr s) = Some s"
| "pg_prepare (JFunction f) = Some (js_to_string (JFunction f))"
| "pg_prepare JObject = Some ''{}''"

definition is_pg_space :: "char \<Rightarrow> bool" where
  "is_pg_space c \<longleftrightarrow> of_char c \<in> {9, 10, 11, 12, 13, 32 :: nat}"

definition pg_strip :: "string \<Rightarrow> string" where
  "pg_strip s = rev (dropWhile is_pg_space (rev (dropWhile is_pg_space s)))"

definition pg_sign :: "string \<Rightarrow> int \<times> string" where
  "pg_sign s =
     (case s of
        c # r \<Rightarrow> if c = CHR ''-'' then (-1, r) else if c = CHR ''+'' then (1, r) else (1, s)
      | [] \<Rightarrow> (1, s))"

text \<open>\<open>int4in\<close>: an optionally signed decimal integer within 32 bits.\<close>

definition pg_int4_in :: "string \<Rightarrow> int option" where
  "pg_int4_in s =
     (let (sign, ds) = pg_sign (pg_strip s);
          n = sign * int (nat_of_digits ds)
      in if ds \<noteq> [] \<and> list_all is_digit ds \<and> - 2147483648 \<le> n \<and> n \<le> 2147483647
         then Some n else None)"

text \<open>\<open>numeric_in\<close>: an optionally signed decimal with an optional fraction.\<close>

definition pg_numeric_in :: "string \<Rightarrow> rat option" where
  "pg_numeric_in s =
     (let (sign, t) = pg_sign (pg_strip s);
          ip = takeWhile is_digit t;
          r = dropWhile is_digit t;
          fp = (case r of c # f \<Rightarrow> if c = CHR ''.'' then f else r | [] \<Rightarrow> [])
      in if (ip \<noteq> [] \<or> fp \<noteq> []) \<and> list_all is_digit fp
            \<and> (r = [] \<or> (hd r = CHR ''.''))
         then Some (of_int (sign * int (nat_of_digits (ip @ fp))) / of_nat (10 ^ length fp))
         else None)"

text \<open>
  The errors of the input functions, with PostgreSQL's messages: a decimal integer
  outside 32 bits is out of range, any other text is not an integer.
\<close>

definition pg_int4_error :: "string \<Rightarrow> error" where
  "pg_int4_error s =
     (let (sign, ds) = pg_sign (pg_strip s)
      in if ds \<noteq> [] \<and> list_all is_digit ds
         then DbError (''value '' @ dq # s @ dq # '' is out of range for type integer'')
         else DbError (''invalid input syntax for type integer: '' @ dq # s @ [dq]))"

definition pg_numeric_error :: "string \<Rightarrow> error" where
  "pg_numeric_error s = DbError (''invalid input syntax for type numeric: '' @ dq # s @ [dq])"

definition pg_text_not_null :: "string \<Rightarrow> string option \<Rightarrow> error + string" where
  "pg_text_not_null col v =
     (case v of
        None \<Rightarrow> Inl (DbError (''null value in column '' @ col @ '' violates not-null constraint''))
      | Some s \<Rightarrow> Inr s)"

definition pg_int :: "string option \<Rightarrow> error + int option" where
  "pg_int v =
     (case v of
        None \<Rightarrow> Inr None
      | Some s \<Rightarrow> (case pg_int4_in s of
                   Some n \<Rightarrow> Inr (Some n)
                 | None \<Rightarrow> Inl (pg_int4_error s)))"

definition pg_numeric :: "string option \<Rightarrow> error + rat option" where
  "pg_numeric v =
     (case v of
        None \<Rightarrow> Inr None
      | Some s \<Rightarrow> (case pg_numeric_in s of
                   Some q \<Rightarrow> Inr (Some q)
                 | None \<Rightarrow> Inl (pg_numeric_error s)))"

subsection \<open>Assigning a column\<close>

definition no_such_column :: "string \<Rightarrow> string \<Rightarrow> error" where
  "no_such_column col tbl =
     DbError (''column '' @ col @ '' of relation '' @ tbl @ '' does not exist'')"

definition set_company_col :: "company \<Rightarrow> string \<times> string option \<Rightarrow> error + company" where
  "set_company_col c a =
     (case a of (col, v) \<Rightarrow>
        if col = ''handle'' then sbind (pg_text_not_null col v) (\<lambda>s. Inr (c\<lparr>handle := s\<rparr>))
        else if col = ''name'' then sbind (pg_text_not_null col v) (\<lambda>s. Inr (c\<lparr>name := s\<rparr>))
        else if col = ''description'' then
          sbind (pg_text_not_null col v) (\<lambda>s. Inr (c\<lparr>description := s\<rparr>))
        else if col = ''num_employees'' then sbind (pg_int v) (\<lambda>n. Inr (c\<lparr>num_employees := n\<rparr>))
        else if col = ''logo_url'' then Inr (c\<lparr>logo_url := v\<rparr>)
        else Inl (no_such_column col ''companies''))"

definition set_job_col :: "job \<Rightarrow> string \<times> string option \<Rightarrow> error + job" where
  "set_job_col j a =
     (case a of (col, v) \<Rightarrow>
        if col = ''id'' then
          sbind (pg_int v) (\<lambda>n. case n of
             Some i \<Rightarrow> Inr (j\<lparr>id' := i\<rparr>)
           | None \<Rightarrow> Inl (DbError (''null value in column id violates not-null constraint'')))
        else if col = ''title'' then sbind (pg_text_not_null col v) (\<lambda>s. Inr (j\<lparr>title := s\<rparr>))
        else if col = ''salary'' then sbind (pg_int v) (\<lambda>n. Inr (j\<lparr>salary := n\<rparr>))
        else if col = ''equity'' then sbind (pg_numeric v) (\<lambda>q. Inr (j\<lparr>equity := q\<rparr>))
        else if col = ''company_handle'' then
          sbind (pg_text_not_null col v) (\<lambda>s. Inr (j\<lparr>company_handle := s\<rparr>))
        else Inl (no_such_column col ''jobs''))"

text \<open>
  What PostgreSQL knows of a SET target before it reads a row: whether the table has the
  column (parse analysis), and the input function that converts a parameter to the
  column's type (bind). NOT NULL is checked only when a row is written.
\<close>

definition company_col_in :: "string \<Rightarrow> error + (string option \<Rightarrow> error + unit)" where
  "company_col_in col =
     (if col \<in> set [''handle'', ''name'', ''description'', ''logo_url''] then Inr (\<lambda>v. Inr ())
      else if col = ''num_employees'' then Inr (\<lambda>v. sbind (pg_int v) (\<lambda>_. Inr ()))
      else Inl (no_such_column col ''companies''))"

definition job_col_in :: "string \<Rightarrow> error + (string option \<Rightarrow> error + unit)" where
  "job_col_in col =
     (if col \<in> set [''title'', ''company_handle''] then Inr (\<lambda>v. Inr ())
      else if col \<in> set [''id'', ''salary''] then Inr (\<lambda>v. sbind (pg_int v) (\<lambda>_. Inr ()))
      else if col = ''equity'' then Inr (\<lambda>v. sbind (pg_numeric v) (\<lambda>_. Inr ()))
      else Inl (no_such_column col ''jobs''))"

subsection \<open>Statements\<close>

text \<open>A placeholder \<open>$n\<close> as the code writes it into a statement.\<close>

definition parse_param_ref :: "string \<Rightarrow> nat option" where
  "parse_param_ref s =
     (case s of
        c # ds \<Rightarrow> if c = CHR ''$'' \<and> ds \<noteq> [] \<and> list_all is_digit ds then Some (nat_of_digits ds) else None
      | [] \<Rightarrow> None)"

definition pg_bind :: "string option list \<Rightarrow> nat \<Rightarrow> error + string option" where
  "pg_bind params n =
     (if 1 \<le> n \<and> n \<le> length params then Inr (params ! (n - 1))
      else Inl (DbError (''there is no parameter $'' @ string_of_nat n)))"

text \<open>
  The assignments of a SET clause, applied to a row in order; PostgreSQL refuses two
  assignments to one column and a parameter count other than the highest placeholder.
\<close>

fun apply_set ::
  "('r \<Rightarrow> string \<times> string option \<Rightarrow> error + 'r) \<Rightarrow> string option list \<Rightarrow> (string \<times> nat) list
     \<Rightarrow> 'r \<Rightarrow> error + 'r" where
  "apply_set setc params [] r = Inr r"
| "apply_set setc params ((col, n) # asgs) r =
     sbind (pg_bind params n) (\<lambda>v. sbind (setc r (col, v)) (apply_set setc params asgs))"

text \<open>
  The abstract meaning of a partial update of one row: the (column, value) pairs applied
  in order. \<open>apply_set\<close> refines it when the placeholders are bound in sequence
  (\<open>apply_set_zip_upt\<close>).
\<close>

fun patch_row ::
  "('r \<Rightarrow> string \<times> string option \<Rightarrow> error + 'r) \<Rightarrow> (string \<times> string option) list \<Rightarrow> 'r \<Rightarrow> error + 'r" where
  "patch_row setc [] r = Inr r"
| "patch_row setc (a # as) r = sbind (setc r a) (patch_row setc as)"

text \<open>The column assignments a payload requests, through a translation table.\<close>

definition update_entries :: "jsval jsobj \<Rightarrow> jsval jsobj \<Rightarrow> (string \<times> string option) list" where
  "update_entries jsToSql data =
     map (\<lambda>(k, v). (sql_column jsToSql k, pg_prepare v)) (own_entries data)"

definition pg_check_params :: "(string \<times> nat) list \<Rightarrow> nat \<Rightarrow> string option list \<Rightarrow> error + unit" where
  "pg_check_params asgs k params =
     (let required = fold max (map snd asgs) k in
      if \<not> distinct (map fst asgs) then Inl (DbError ''multiple assignments to same column'')
      else if length params \<noteq> required then
        Inl (DbError (''bind message supplies '' @ string_of_nat (length params)
                      @ '' parameters, but prepared statement requires '' @ string_of_nat required))
      else Inr ())"

definition unique_violation :: error where
  "unique_violation = DbError ''duplicate key value violates unique constraint''"

text \<open>
  The checks of a statement's SET assignments, before any row is read: every target
  column is resolved (an unknown column is an error of parse analysis), then every bound
  parameter is converted to its column's type (an error of bind).
\<close>

definition pg_check_assignments ::
  "(string \<Rightarrow> error + (string option \<Rightarrow> error + unit)) \<Rightarrow> (string \<times> string option) list \<Rightarrow> error + unit" where
  "pg_check_assignments colin es =
     sbind (map_sum (\<lambda>(col, v). colin col) es) (\<lambda>ins.
     sbind (map_sum (\<lambda>(f, v). f v) (zip ins (map snd es))) (\<lambda>_. Inr ()))"

text \<open>
  \<open>UPDATE t SET setClause WHERE key = keyRef RETURNING ...\<close> on table \<open>tbl\<close>: the
  returned rows and the new table. \<open>colin\<close> gives the columns of the table and their input
  functions, \<open>keyf\<close> reads a row's key and \<open>key_in\<close> converts the bound key parameter
  to the key's type. The statement is checked and its parameters converted before the
  rows are read, so an error of the SET clause does not depend on which rows match.
\<close>

definition pg_update ::
  "('r \<Rightarrow> string \<times> string option \<Rightarrow> error + 'r) \<Rightarrow> (string \<Rightarrow> error + (string option \<Rightarrow> error + unit))
     \<Rightarrow> ('r \<Rightarrow> 'k)
     \<Rightarrow> (string option \<Rightarrow> error + 'k option) \<Rightarrow> string \<Rightarrow> string \<Rightarrow> string option list
     \<Rightarrow> 'r list \<Rightarrow> error + ('r list \<times> 'r list)" where
  "pg_update setc colin keyf key_in setClause keyRef params tbl =
     (case (parse_set_clause setClause, parse_param_ref keyRef) of
        (Some asgs, Some k) \<Rightarrow>
          sbind (pg_check_params asgs k params) (\<lambda>_.
          sbind (map_sum (\<lambda>(col, n). sbind (pg_bind params n) (\<lambda>v. Inr (col, v))) asgs) (\<lambda>es.
          sbind (pg_check_assignments colin es) (\<lambda>_.
          sbind (pg_bind params k) (\<lambda>v. sbind (key_in v) (\<lambda>key.
          sbind (map_sum (\<lambda>r. if key = Some (keyf r)
                               then sbind (apply_set setc params asgs r) (\<lambda>r'. Inr (True, r'))
                               else Inr (False, r)) tbl) (\<lambda>rows.
            if distinct (map (keyf \<circ> snd) rows)
            then Inr (map snd (filter fst rows), map snd rows)
            else Inl unique_violation))))))
      | _ \<Rightarrow> Inl (DbError ''syntax error''))"

text \<open>\<open>SELECT ... WHERE key = $1\<close> and \<open>DELETE ... WHERE key = $1 RETURNING ...\<close>.\<close>

definition pg_select_key ::
  "('r \<Rightarrow> 'k) \<Rightarrow> (string option \<Rightarrow> error + 'k option) \<Rightarrow> string option \<Rightarrow> 'r list
     \<Rightarrow> error + 'r list" where
  "pg_select_key keyf key_in v tbl =
     sbind (key_in v) (\<lambda>key. Inr (filter (\<lambda>r. key = Some (keyf r)) tbl))"

definition pg_delete_key ::
  "('r \<Rightarrow> 'k) \<Rightarrow> (string option \<Rightarrow> error + 'k option) \<Rightarrow> string option \<Rightarrow> 'r list
     \<Rightarrow> error + ('r list \<times> 'r list)" where
  "pg_delete_key keyf key_in v tbl =
     sbind (key_in v) (\<lambda>key.
       Inr (filter (\<lambda>r. key = Some (keyf r)) tbl, filter (\<lambda>r. key \<noteq> Some (keyf r)) tbl))"

definition pg_text_key :: "string option \<Rightarrow> error + string option" where
  "pg_text_key v = Inr v"

text \<open>\<open>INSERT INTO companies ... VALUES ($1, ..., $5) RETURNING ...\<close>.\<close>

definition pg_insert_company ::
  "string option \<Rightarrow> string option \<Rightarrow> string option \<Rightarrow> string option \<Rightarrow> string option
     \<Rightarrow> db \<Rightarrow> error + (company \<times> db)" where
  "pg_insert_company h n d ne lu st =
     sbind (pg_int ne) (\<lambda>ne'.
     sbind (pg_text_not_null ''handle'' h) (\<lambda>h'.
     sbind (pg_text_not_null ''name'' n) (\<lambda>n'.
     sbind (pg_text_not_null ''description'' d) (\<lambda>d'.
       let row = \<lparr>handle = h', name = n', description = d', num_employees = ne', logo_url = lu\<rparr>
       in if h' \<in> set (map handle (companies st)) then Inl unique_violation
          else Inr (row, st\<lparr>companies := companies st @ [row]\<rparr>)))))"

text \<open>
  \<open>INSERT INTO jobs ... VALUES ($1, ..., $4) RETURNING ...\<close>: the serial \<open>id\<close> is
  the next value of the sequence, which fails past the largest \<open>integer\<close>.
\<close>

definition pg_insert_job ::
  "string option \<Rightarrow> string option \<Rightarrow> string option \<Rightarrow> string option
     \<Rightarrow> db \<Rightarrow> error + (job \<times> db)" where
  "pg_insert_job t s e ch st =
     sbind (pg_int s) (\<lambda>s'.
     sbind (pg_numeric e) (\<lambda>e'.
     sbind (pg_text_not_null ''title'' t) (\<lambda>t'.
     sbind (pg_text_not_null ''company_handle'' ch) (\<lambda>ch'.
       let i = jobs_id_seq st + 1;
           row = \<lparr>id' = i, title = t', salary = s', equity = e', company_handle = ch'\<rparr>
       in if 2147483647 < i
          then Inl (DbError ''nextval: reached maximum value of sequence jobs_id_seq'')
          else if i \<in> set (map id' (jobs st)) then Inl unique_violation
          else Inr (row, st\<lparr>jobs := jobs st @ [row], jobs_id_seq := i\<rparr>)))))"

subsection \<open>Lemmas on the statements\<close>

lemma parse_param_ref_placeholder [sql_simps]:
  "parse_param_ref (CHR ''$'' # string_of_nat n) = Some n"
  by (simp add: parse_param_ref_def list_all_iff string_of_nat_digits)

lemma pg_strip_no_space:
  "s = [] \<or> (\<not> is_pg_space (hd s) \<and> \<not> is_pg_space (last s)) \<Longrightarrow> pg_strip s = s"
proof -
  assume a: "s = [] \<or> (\<not> is_pg_space (hd s) \<and> \<not> is_pg_space (last s))"
  then have "dropWhile is_pg_space s = s"
    by (auto simp: dropWhile_eq_self_iff)
  moreover have "dropWhile is_pg_space (rev s) = rev s"
    using a by (auto simp: dropWhile_eq_self_iff hd_rev)
  ultimately show ?thesis
    by (simp add: pg_strip_def)
qed

lemma is_digit_not_pg_space: "is_digit c \<Longrightarrow> \<not> is_pg_space c"
  by (auto simp: is_digit_def is_pg_space_def)

text \<open>\<open>int4in\<close> reads back the decimal text node-postgres sends for an integer in range.\<close>

lemma pg_int4_in_string_of_int:
  assumes "- 2147483648 \<le> n" and "n \<le> 2147483647"
  shows "pg_int4_in (string_of_int n) = Some n"
proof -
  let ?ds = "string_of_nat (nat \<bar>n\<bar>)"
  have ds: "?ds \<noteq> []" "list_all is_digit ?ds"
    by (simp_all add: list_all_iff string_of_nat_digits)
  have nsp: "\<not> is_pg_space (hd ?ds)" "\<not> is_pg_space (last ?ds)"
    using ds by (auto intro!: is_digit_not_pg_space simp: list_all_iff)
  have minus: "\<not> is_pg_space (CHR ''-'')"
    by (simp add: is_pg_space_def)
  have hd_digit: "hd ?ds \<noteq> CHR ''-'' \<and> hd ?ds \<noteq> CHR ''+''"
    using ds by (cases ?ds) (auto simp: is_digit_def)
  show ?thesis
  proof (cases "n < 0")
    case True
    then have "string_of_int n = CHR ''-'' # ?ds"
      by (simp add: string_of_int_def)
    moreover have "pg_strip (CHR ''-'' # ?ds) = CHR ''-'' # ?ds"
      using nsp minus ds(1) by (intro pg_strip_no_space) simp
    ultimately show ?thesis
      using True assms ds by (simp add: pg_int4_in_def pg_sign_def string_of_int_def)
  next
    case False
    then have "string_of_int n = ?ds"
      by (simp add: string_of_int_def)
    moreover have "pg_strip ?ds = ?ds"
      using nsp by (intro pg_strip_no_space) simp
    moreover have "pg_sign ?ds = (1, ?ds)"
      using hd_digit by (cases ?ds) (auto simp: pg_sign_def)
    ultimately show ?thesis
      using False assms ds by (simp add: pg_int4_in_def)
  qed
qed

lemma fold_max_bound: "list_all (\<lambda>x. x \<le> k) xs \<Longrightarrow> fold max xs k = (k::nat)"
  by (induction xs) (simp_all add: max_absorb2)

lemma apply_set_zip_upt:
  assumes "m + length cols \<le> length params"
  shows "apply_set setc params (zip cols [Suc m..<Suc m + length cols]) r
           = patch_row setc (zip cols (take (length cols) (drop m params))) r"
  using assms
proof (induction cols arbitrary: m r)
  case Nil
  then show ?case by simp
next
  case (Cons c cs)
  have m: "m < length params"
    using Cons.prems by simp
  have upt: "[Suc m..<Suc m + length (c # cs)] = Suc m # [Suc (Suc m)..<Suc (Suc m) + length cs]"
    by (simp add: upt_conv_Cons del: upt_Suc)
  have tk: "take (length (c # cs)) (drop m params) = params ! m # take (length cs) (drop (Suc m) params)"
    using m by (simp add: Cons_nth_drop_Suc [symmetric])
  have bind: "pg_bind params (Suc m) = Inr (params ! m)"
    using m by (simp add: pg_bind_def)
  have IH: "apply_set setc params (zip cs [Suc (Suc m)..<Suc (Suc m) + length cs])
              = patch_row setc (zip cs (take (length cs) (drop (Suc m) params)))"
    using Cons.IH [of "Suc m"] Cons.prems by (intro ext) simp
  show ?case
    by (simp only: upt tk zip_Cons_Cons apply_set.simps bind sbind_Inr patch_row.simps IH)
qed

lemma bind_zip_upt:
  assumes "m + length cols \<le> length params"
  shows "map_sum (\<lambda>(col, n). sbind (pg_bind params n) (\<lambda>v. Inr (col, v))) (zip cols [Suc m..<Suc m + length cols])
           = Inr (zip cols (take (length cols) (drop m params)))"
  using assms
proof (induction cols arbitrary: m)
  case Nil
  then show ?case by simp
next
  case (Cons c cs)
  have m: "m < length params"
    using Cons.prems by simp
  have upt: "[Suc m..<Suc m + length (c # cs)] = Suc m # [Suc (Suc m)..<Suc (Suc m) + length cs]"
    by (simp add: upt_conv_Cons del: upt_Suc)
  have tk: "take (length (c # cs)) (drop m params) = params ! m # take (length cs) (drop (Suc m) params)"
    using m by (simp add: Cons_nth_drop_Suc [symmetric])
  have bind: "pg_bind params (Suc m) = Inr (params ! m)"
    using m by (simp add: pg_bind_def)
  have IH: "map_sum (\<lambda>(col, n). sbind (pg_bind params n) (\<lambda>v. Inr (col, v))) (zip cs [Suc (Suc m)..<Suc (Suc m) + length cs])
              = Inr (zip cs (take (length cs) (drop (Suc m) params)))"
    using Cons.IH [of "Suc m"] Cons.prems by simp
  show ?case
    by (simp only: upt tk zip_Cons_Cons map_sum.simps bind sbind_Inr IH case_prod_conv)
qed

text \<open>Mapping a raising update over a table in which exactly the rows satisfying \<open>P\<close> are \<open>c\<close>.\<close>

lemma map_sum_update_one:
  assumes "\<And>x. x \<in> set xs \<Longrightarrow> P x \<Longrightarrow> x = c"
  shows "map_sum (\<lambda>x. if P x then sbind (g x) (\<lambda>y. Inr (True, y)) else Inr (False, x)) xs
           = (if \<exists>x \<in> set xs. P x
              then sbind (g c) (\<lambda>c'. Inr (map (\<lambda>x. if P x then (True, c') else (False, x)) xs))
              else Inr (map (\<lambda>x. (False, x)) xs))"
proof (cases "g c")
  case (Inl e)
  show ?thesis
    using assms
  proof (induction xs)
    case (Cons x xs)
    have "x = c" if "P x"
      using Cons.prems that by simp
    with Cons show ?case
      by (cases "P x") (simp_all add: Inl)
  qed simp
next
  case (Inr c')
  show ?thesis
    using assms
  proof (induction xs)
    case (Cons x xs)
    have "x = c" if "P x"
      using Cons.prems that by simp
    with Cons show ?case
      by (cases "P x") (simp_all add: Inr)
  qed simp
qed

lemma pg_update_distinct_keys:
  assumes "pg_update setc colin keyf key_in sc kr params tbl = Inr (rows, tbl')"
  shows "distinct (map keyf tbl')"
proof -
  obtain asgs k where "parse_set_clause sc = Some asgs" and "parse_param_ref kr = Some k"
    using assms by (simp add: pg_update_def split: option.splits)
  with assms show ?thesis
    by (auto simp: pg_update_def split: if_splits)
qed

lemma pg_delete_key_result:
  "pg_delete_key keyf key_in v tbl = Inr (rows, tbl') \<Longrightarrow>
     \<exists>key. key_in v = Inr key \<and> rows = filter (\<lambda>r. key = Some (keyf r)) tbl
          \<and> tbl' = filter (\<lambda>r. key \<noteq> Some (keyf r)) tbl"
  by (auto simp: pg_delete_key_def)

lemma pg_insert_company_result:
  "pg_insert_company h n d ne lu st = Inr (row, st') \<Longrightarrow>
     handle row \<notin> set (map handle (companies st))
     \<and> st' = st\<lparr>companies := companies st @ [row]\<rparr>"
  by (auto simp: pg_insert_company_def Let_def split: if_splits)

lemma pg_insert_job_result:
  "pg_insert_job t s e ch st = Inr (row, st') \<Longrightarrow>
     id' row \<notin> set (map id' (jobs st)) \<and> id' row = jobs_id_seq st + 1 \<and> id' row \<le> 2147483647
     \<and> st' = st\<lparr>jobs := jobs st @ [row], jobs_id_seq := id' row\<rparr>"
  by (auto simp: pg_insert_job_def Let_def split: if_splits)

lemma pg_int_int4:
  "pg_int v = Inr (Some n) \<Longrightarrow> - 2147483648 \<le> n \<and> n \<le> 2147483647"
  by (auto simp: pg_int_def pg_int4_in_def Let_def split: option.splits if_splits prod.splits)

lemma apply_set_preserves:
  assumes "\<And>r a r'. P r \<Longrightarrow> setc r a = Inr r' \<Longrightarrow> P r'"
  shows "apply_set setc params asgs r = Inr r' \<Longrightarrow> P r \<Longrightarrow> P r'"
proof (induction asgs arbitrary: r)
  case (Cons a asgs)
  obtain col n where a: "a = (col, n)" by (cases a)
  from Cons.prems obtain v r1 where "setc r (col, v) = Inr r1" and "apply_set setc params asgs r1 = Inr r'"
    by (auto simp: a split: sum.splits)
  then show ?case
    using Cons.IH assms Cons.prems(2) by blast
qed simp

lemma pg_update_preserves:
  assumes run: "pg_update setc colin keyf key_in sc kr params tbl = Inr (rows, tbl')"
    and pres: "\<And>r a r'. P r \<Longrightarrow> setc r a = Inr r' \<Longrightarrow> P r'"
    and all: "list_all P tbl"
  shows "list_all P tbl'"
proof -
  obtain asgs k key ms where
    ms: "map_sum (\<lambda>r. if key = Some (keyf r)
                        then sbind (apply_set setc params asgs r) (\<lambda>r'. Inr (True, r'))
                        else Inr (False, r)) tbl = Inr ms" and tbl': "tbl' = map snd ms"
    using run by (auto simp: pg_update_def split: option.splits sum.splits if_splits)
  show ?thesis
    unfolding list_all_iff tbl'
  proof
    fix y
    assume "y \<in> set (map snd ms)"
    then obtain b where "(b, y) \<in> set ms" by auto
    from map_sum_Inr_set [OF ms this] obtain r where r: "r \<in> set tbl"
      and step: "(if key = Some (keyf r) then sbind (apply_set setc params asgs r) (\<lambda>r'. Inr (True, r'))
                  else Inr (False, r)) = Inr (b, y)"
      by blast
    have "P r" using all r by (simp add: list_all_iff)
    then show "P y"
      using step apply_set_preserves [of P setc params asgs r y, OF pres]
      by (auto split: if_splits sum.splits)
  qed
qed

lemma set_job_col_id:
  "set_job_col j a = Inr j' \<Longrightarrow> id' j' = id' j \<or> (\<exists>v. pg_int v = Inr (Some (id' j')))"
  by (auto simp: set_job_col_def split: prod.splits if_splits sum.splits option.splits)

subsection \<open>A partial update through \<open>sqlForPartialUpdate\<close>\<close>

text \<open>
  The interface between \<open>sqlForPartialUpdate\<close> and the UPDATE statement that both
  \<open>Company.update\<close> and \<open>Job.update\<close> issue: the SET clause built from the payload,
  the key placeholder \<open>$(n+1)\<close> and the parameters \<open>[...values, key]\<close> make PostgreSQL
  apply exactly the payload's column assignments (\<open>update_entries\<close>) to the rows whose
  key is the bound key, when the columns are distinct and free of double quotes.
\<close>

lemma pg_update_partial:
  assumes run: "sqlForPartialUpdate data jsToSql = Inr r"
    and nq: "list_all (\<lambda>k. dq \<notin> set (sql_column jsToSql k)) (object_keys data)"
    and dc: "distinct (map (sql_column jsToSql) (object_keys data))"
    and key: "key_in (pg_prepare kv) = Inr key"
  shows "pg_update setc colin keyf key_in (setCols r) (''$'' @ string_of_nat (length (values' r) + 1))
           (map pg_prepare (values' r @ [kv])) tbl
         = sbind (pg_check_assignments colin (update_entries jsToSql data)) (\<lambda>_.
           sbind (map_sum (\<lambda>x. if key = Some (keyf x)
                                 then sbind (patch_row setc (update_entries jsToSql data) x)
                                        (\<lambda>x'. Inr (True, x'))
                                 else Inr (False, x)) tbl) (\<lambda>rows.
             if distinct (map (keyf \<circ> snd) rows)
             then Inr (map snd (filter fst rows), map snd rows) else Inl unique_violation))"
proof -
  let ?ks = "object_keys data"
  let ?cols = "map (sql_column jsToSql) ?ks"
  let ?n = "length data"
  let ?params = "map pg_prepare (values' r) @ [pg_prepare kv]"
  let ?asgs = "zip ?cols [Suc 0..<Suc ?n]"
  have ne: "?ks \<noteq> []" and r: "r = \<lparr>setCols = js_join '', '' (map JStr (map (\<lambda>(idx, colName).
                 sql_set_fragment jsToSql colName idx) (enumerate 0 ?ks))), values' = object_values data\<rparr>"
    using run by (auto simp: sqlForPartialUpdate_Inr_iff)
  have nv: "length (values' r) = ?n"
    using r by simp
  have parse: "parse_set_clause (setCols r) = Some ?asgs"
    using parse_set_clause_join [OF ne nq, of 0] r by (simp del: upt_Suc)
  have check: "pg_check_params ?asgs (Suc ?n) ?params = Inr ()"
  proof -
    have "map snd ?asgs = [Suc 0..<Suc ?n]"
      by (simp del: upt_Suc)
    then have "list_all (\<lambda>x. x \<le> Suc ?n) (map snd ?asgs)"
      by (simp add: list_all_iff del: upt_Suc)
    then show ?thesis
      using dc nv by (simp add: pg_check_params_def fold_max_bound del: upt_Suc)
  qed
  have bind: "pg_bind ?params (Suc ?n) = Inr (pg_prepare kv)"
    using nv by (simp add: pg_bind_def nth_append)
  have entries: "zip ?cols (take (length ?cols) ?params) = update_entries jsToSql data"
    using r by (simp add: update_entries_def object_keys_def object_values_def zip_map_map
                          zip_same_conv_map split_def)
  have rows: "apply_set setc ?params ?asgs x = patch_row setc (update_entries jsToSql data) x" for x
  proof -
    have "apply_set setc ?params (zip ?cols [Suc 0..<Suc 0 + length ?cols]) x
            = patch_row setc (zip ?cols (take (length ?cols) (drop 0 ?params))) x"
      using nv by (intro apply_set_zip_upt) simp
    then show ?thesis
      using entries by simp
  qed
  have es: "map_sum (\<lambda>(col, n). sbind (pg_bind ?params n) (\<lambda>v. Inr (col, v))) ?asgs
              = Inr (update_entries jsToSql data)"
  proof -
    have "map_sum (\<lambda>(col, n). sbind (pg_bind ?params n) (\<lambda>v. Inr (col, v))) (zip ?cols [Suc 0..<Suc 0 + length ?cols])
            = Inr (zip ?cols (take (length ?cols) (drop 0 ?params)))"
      using nv by (intro bind_zip_upt) simp
    then show ?thesis
      using entries by simp
  qed
  show ?thesis
    using parse check es bind key nv
    apply (simp add: pg_update_def parse_param_ref_placeholder del: upt_Suc)
    apply (simp only: rows)
    done
qed

lemma snd_filter_fst_update:
  "map snd (filter fst (map (\<lambda>x. if P x then (True, y) else (False, x)) xs))
     = map (\<lambda>_. y) (filter P xs)"
  by (induction xs) auto

lemma map_snd_update:
  "map snd (map (\<lambda>x. if P x then (True, y) else (False, x)) xs) = map (\<lambda>x. if P x then y else x) xs"
  by (induction xs) auto

lemma distinct_map_unique:
  "distinct (map f xs) \<Longrightarrow> x \<in> set xs \<Longrightarrow> y \<in> set xs \<Longrightarrow> f x = f y \<Longrightarrow> x = y"
  by (metis distinct_map inj_onD)

lemma map_comp_snd_update:
  "map (f \<circ> snd) (map (\<lambda>x. if P x then (True, y) else (False, x)) xs)
     = map f (map (\<lambda>x. if P x then y else x) xs)"
  by (induction xs) auto

text \<open>
  The same statement on a table whose keys are unique: at most the one row with the bound
  key is patched and returned, and the statement fails only if the patch fails or the new
  key collides.
\<close>

lemma filter_key_unique:
  assumes "distinct (map keyf tbl)" and "c \<in> set tbl" and "keyf c = k"
  shows "filter (\<lambda>x. keyf x = k) tbl = [c]"
  using assms
proof (induction tbl)
  case (Cons x xs)
  show ?case
  proof (cases "x = c")
    case True
    with Cons.prems have "\<forall>y \<in> set xs. keyf y \<noteq> k" by (force simp: image_iff)
    with True Cons.prems show ?thesis by (simp add: filter_empty_conv)
  next
    case False
    with Cons.prems have "keyf x \<noteq> k" by auto
    with False Cons show ?thesis by simp
  qed
qed simp

text \<open>Two payload keys that name the same column make the database refuse the statement.\<close>

lemma pg_update_duplicate:
  assumes run: "sqlForPartialUpdate data jsToSql = Inr r"
    and nq: "list_all (\<lambda>k. dq \<notin> set (sql_column jsToSql k)) (object_keys data)"
    and dup: "\<not> distinct (map (sql_column jsToSql) (object_keys data))"
  shows "pg_update setc colin keyf key_in (setCols r) (CHR ''$'' # string_of_nat n) params tbl
           = Inl (DbError ''multiple assignments to same column'')"
proof -
  have ne: "object_keys data \<noteq> []"
    using dup by (cases "object_keys data") auto
  have "parse_set_clause (setCols r)
          = Some (zip (map (sql_column jsToSql) (object_keys data)) [Suc 0..<Suc 0 + length (object_keys data)])"
    using parse_set_clause_join [OF ne nq, of 0] run by (simp add: sqlForPartialUpdate_Inr_iff del: upt_Suc)
  then show ?thesis
    using dup by (simp add: pg_update_def pg_check_params_def parse_param_ref_placeholder del: upt_Suc)
qed

lemma pg_update_rows_keyed:
  assumes wf: "distinct (map keyf tbl)"
  shows "sbind (map_sum (\<lambda>x. if Some k = Some (keyf x)
                                 then sbind (patch_row setc es x) (\<lambda>x'. Inr (True, x'))
                                 else Inr (False, x)) tbl) (\<lambda>rows.
             if distinct (map (keyf \<circ> snd) rows)
             then Inr (map snd (filter fst rows), map snd rows) else Inl unique_violation)
         = (case filter (\<lambda>x. keyf x = k) tbl of
              [] \<Rightarrow> Inr ([], tbl)
            | c # _ \<Rightarrow> sbind (patch_row setc es c) (\<lambda>c'.
                 let tbl' = map (\<lambda>x. if keyf x = k then c' else x) tbl
                 in if distinct (map keyf tbl') then Inr ([c'], tbl') else Inl unique_violation))"
proof -
  let ?g = "patch_row setc es"
  let ?P = "\<lambda>x. Some k = Some (keyf x)"
  have flip: "?P = (\<lambda>x. keyf x = k)"
    by auto
  show ?thesis
  proof (cases "filter (\<lambda>x. keyf x = k) tbl")
    case Nil
    then have "\<forall>x \<in> set tbl. \<not> ?P x"
      by (auto simp: filter_empty_conv)
    then have ms0: "map_sum (\<lambda>x. if ?P x then sbind (?g x) (\<lambda>x'. Inr (True, x')) else Inr (False, x)) tbl
                 = Inr (map (\<lambda>x. (False, x)) tbl)"
      using map_sum_update_one [of tbl ?P undefined ?g] by auto
    have k1: "map (keyf \<circ> snd) (map (\<lambda>x. (False, x)) tbl) = map keyf tbl"
      by (induction tbl) simp_all
    have k2: "map snd (map (\<lambda>x. (False, x)) tbl) = tbl"
      by (induction tbl) simp_all
    have k3: "filter fst (map (\<lambda>x. (False, x)) tbl) = []"
      by (induction tbl) simp_all
    show ?thesis
      unfolding ms0 sbind_Inr k1 k2 k3 Nil list.case(1) list.map(1) using wf by (simp only: if_True)
  next
    case (Cons c rest)
    then have "c \<in> set (filter (\<lambda>x. keyf x = k) tbl)"
      by simp
    then have c: "c \<in> set tbl" "keyf c = k"
      by auto
    have one: "filter (\<lambda>x. keyf x = k) tbl = [c]"
      using filter_key_unique [OF wf c] .
    have uniq: "x = c" if "x \<in> set tbl" and "?P x" for x
      using distinct_map_unique [OF wf that(1) c(1)] that c by simp
    have ms: "map_sum (\<lambda>x. if ?P x then sbind (?g x) (\<lambda>x'. Inr (True, x')) else Inr (False, x)) tbl
                = sbind (?g c) (\<lambda>c'. Inr (map (\<lambda>x. if ?P x then (True, c') else (False, x)) tbl))"
    proof -
      have "\<exists>x \<in> set tbl. ?P x"
        using c by auto
      then show ?thesis
        using map_sum_update_one [of tbl ?P c ?g, OF uniq] by (simp only: if_True)
    qed
    have flip': "(Some k = Some (keyf x)) = (keyf x = k)" for x
      by auto
    show ?thesis
    proof (cases "?g c")
      case (Inl e)
      then show ?thesis unfolding ms by (simp add: one)
    next
      case (Inr c')
      have sel: "map snd (filter fst (map (\<lambda>x. if keyf x = k then (True, c') else (False, x)) tbl)) = [c']"
        unfolding snd_filter_fst_update one by simp
      show ?thesis
        apply (unfold ms Inr sbind_Inr)
        apply (unfold flip' map_comp_snd_update map_snd_update sel one list.case Let_def)
        apply (unfold Inr sbind_Inr)
        apply (rule refl)
        done
    qed
  qed
qed


lemma pg_update_keyed:
  assumes run: "sqlForPartialUpdate data jsToSql = Inr r"
    and nq: "list_all (\<lambda>k. dq \<notin> set (sql_column jsToSql k)) (object_keys data)"
    and dc: "distinct (map (sql_column jsToSql) (object_keys data))"
    and key: "key_in (pg_prepare kv) = Inr (Some k)"
    and wf: "distinct (map keyf tbl)"
  shows "pg_update setc colin keyf key_in (setCols r) (''$'' @ string_of_nat (length (values' r) + 1))
           (map pg_prepare (values' r @ [kv])) tbl
         = sbind (pg_check_assignments colin (update_entries jsToSql data)) (\<lambda>_.
             case filter (\<lambda>x. keyf x = k) tbl of
               [] \<Rightarrow> Inr ([], tbl)
             | c # _ \<Rightarrow> sbind (patch_row setc (update_entries jsToSql data) c) (\<lambda>c'.
                  let tbl' = map (\<lambda>x. if keyf x = k then c' else x) tbl
                  in if distinct (map keyf tbl') then Inr ([c'], tbl') else Inl unique_violation))"
  unfolding pg_update_partial [where key_in = key_in and kv = kv and key = "Some k", OF run nq dc key]
            pg_update_rows_keyed [OF wf]
  by (rule refl)

end
