(* ===== verification/Company.thy ===== *)
theory Company
  imports Store
begin

text \<open>
  \<open>src/models/company.js\<close>, class \<open>Company\<close>: each static method is a function of
  its arguments and the store, returning the method's result and the new store, or the
  error it raises. A method's argument object (\<open>{handle, name, ...}\<close>, \<open>data\<close>) is a
  \<open>jsval jsobj\<close>, destructured by property lookup (\<open>js_get\<close>); a route parameter is a
  \<open>jsval\<close>. Each \<open>db.query\<close> is the statement function of \<open>Store\<close> for its shape,
  given the strings and parameters the code builds. \<open>filterCompany\<close> is in
  \<open>CompanyFilter\<close>.
\<close>

definition company_create :: "jsval jsobj \<Rightarrow> db \<Rightarrow> error + (company \<times> db)" where
  "company_create data st =
     (let h = js_get data ''handle''; n = js_get data ''name'';
          d = js_get data ''description''; ne = js_get data ''numEmployees'';
          lu = js_get data ''logoUrl''
      in sbind (pg_select_key handle pg_text_key (pg_prepare h) (companies st)) (\<lambda>duplicateCheck.
           if duplicateCheck \<noteq> [] then Inl (BadRequestError (''Duplicate company: '' @ js_to_string h))
           else pg_insert_company (pg_prepare h) (pg_prepare n) (pg_prepare d) (pg_prepare ne)
                  (pg_prepare lu) st))"

definition company_findAll :: "db \<Rightarrow> company list" where
  "company_findAll st = sort_key name (companies st)"

definition company_get :: "jsval \<Rightarrow> db \<Rightarrow> error + company" where
  "company_get h st =
     sbind (pg_select_key handle pg_text_key (pg_prepare h) (companies st)) (\<lambda>rows.
       case rows of
         [] \<Rightarrow> Inl (NotFoundError (''No company: '' @ js_to_string h))
       | company # _ \<Rightarrow> Inr company)"

definition company_jsToSql :: "jsval jsobj" where
  "company_jsToSql = [(''numEmployees'', JStr ''num_employees''), (''logoUrl'', JStr ''logo_url'')]"

definition company_update :: "jsval \<Rightarrow> jsval jsobj \<Rightarrow> db \<Rightarrow> error + (company \<times> db)" where
  "company_update h data st =
     sbind (sqlForPartialUpdate data company_jsToSql) (\<lambda>r.
       let handleVarIdx = ''$'' @ string_of_nat (length (values' r) + 1)
       in sbind (pg_update set_company_col company_col_in handle pg_text_key (setCols r) handleVarIdx
                   (map pg_prepare (values' r @ [h])) (companies st)) (\<lambda>(rows, tbl).
            case rows of
              [] \<Rightarrow> Inl (NotFoundError (''No company: '' @ js_to_string h))
            | company # _ \<Rightarrow> Inr (company, st\<lparr>companies := tbl\<rparr>)))"

definition company_remove :: "jsval \<Rightarrow> db \<Rightarrow> error + db" where
  "company_remove h st =
     sbind (pg_delete_key handle pg_text_key (pg_prepare h) (companies st)) (\<lambda>(rows, tbl).
       case rows of
         [] \<Rightarrow> Inl (NotFoundError (''No company: '' @ js_to_string h))
       | _ \<Rightarrow> Inr (st\<lparr>companies := tbl\<rparr>))"

subsection \<open>The abstract update\<close>

text \<open>
  What \<open>Company.update\<close> promises: the payload's assignments, translated through
  \<open>company_jsToSql\<close>, applied to the company's row.
\<close>

definition company_patch :: "jsval jsobj \<Rightarrow> company \<Rightarrow> error + company" where
  "company_patch data c = patch_row set_company_col (update_entries company_jsToSql data) c"

text \<open>
  The update through the SQL pipeline, on a store with unique handles: the implementation
  side of the refinement below.
\<close>

lemma company_update_keyed:
  assumes "db_wf st" and "data \<noteq> []"
    and nq: "list_all (\<lambda>k. dq \<notin> set (sql_column company_jsToSql k)) (object_keys data)"
    and dc: "distinct (map (sql_column company_jsToSql) (object_keys data))"
  shows "company_update (JStr h) data st =
           sbind (pg_check_assignments company_col_in (update_entries company_jsToSql data)) (\<lambda>_.
           case filter (\<lambda>x. handle x = h) (companies st) of
              [] \<Rightarrow> Inl (NotFoundError (''No company: '' @ h))
            | c # _ \<Rightarrow>
                sbind (patch_row set_company_col (update_entries company_jsToSql data) c) (\<lambda>c'.
                  let tbl = map (\<lambda>x. if handle x = h then c' else x) (companies st)
                  in if distinct (map handle tbl) then Inr (c', st\<lparr>companies := tbl\<rparr>)
                     else Inl unique_violation))" (is "_ = ?rhs")
proof -
  obtain r where run: "sqlForPartialUpdate data company_jsToSql = Inr r"
    using assms(2) sqlForPartialUpdate_no_data_iff [of data company_jsToSql]
    by (cases "sqlForPartialUpdate data company_jsToSql") auto
  have key: "pg_text_key (pg_prepare (JStr h)) = Inr (Some h)"
    by (simp add: pg_text_key_def)
  have wf: "distinct (map handle (companies st))"
    using assms(1) by (simp add: db_wf_def)
  have "company_update (JStr h) data st =
          sbind (pg_update set_company_col company_col_in handle pg_text_key (setCols r)
                   (''$'' @ string_of_nat (length (values' r) + 1))
                   (map pg_prepare (values' r @ [JStr h])) (companies st)) (\<lambda>(rows, tbl).
            case rows of
              [] \<Rightarrow> Inl (NotFoundError (''No company: '' @ h))
            | company # _ \<Rightarrow> Inr (company, st\<lparr>companies := tbl\<rparr>))"
    by (simp add: company_update_def run Let_def cong: list.case_cong)
  also have "\<dots> = ?rhs"
    unfolding pg_update_keyed [where key_in = pg_text_key and kv = "JStr h", OF run nq dc key wf]
    by (simp add: Let_def sbind_assoc sbind_if cong: if_cong split: list.split)
  finally show ?thesis .
qed

subsection \<open>Properties of the company model\<close>

lemmas company_eval_simps = sql_eval_simps company_update_def company_get_def company_create_def
  company_remove_def company_jsToSql_def pg_update_def pg_select_key_def pg_delete_key_def
  pg_text_key_def pg_check_params_def pg_bind_def set_company_col_def pg_insert_company_def
  parse_set_clause.simps parse_assignment_def parse_placeholder_def parse_param_ref_def
  nat_of_digits_def digit_value_def pg_int_def pg_int4_in_def pg_int4_error_def pg_numeric_error_def pg_sign_def pg_strip_def
  is_pg_space_def pg_text_not_null_def test_db_def db_wf_def Let_def
  pg_check_assignments_def company_col_in_def

text \<open>
  C8: \<open>Company.update\<close> refines the abstract update. For a store with unique handles and
  a non-empty payload whose columns are distinct and free of double quotes, updating the
  company \<open>h\<close> first has the statement checked, whatever the rows: a column that
  \<open>companies\<close> lacks or a value its column's type refuses is a database error. Then it
  fails with \<open>NotFoundError\<close> when no row has that handle, or applies the payload's
  assignments (\<open>company_patch\<close>) to that row and replaces it, returning the new row,
  unless the new handle collides with another company's.
\<close>

theorem company_update_refines:
  assumes "db_wf st" and "data \<noteq> []"
    and "list_all (\<lambda>k. dq \<notin> set (sql_column company_jsToSql k)) (object_keys data)"
    and "distinct (map (sql_column company_jsToSql) (object_keys data))"
  shows "company_update (JStr h) data st =
           sbind (pg_check_assignments company_col_in (update_entries company_jsToSql data)) (\<lambda>_.
           case filter (\<lambda>x. handle x = h) (companies st) of
              [] \<Rightarrow> Inl (NotFoundError (''No company: '' @ h))
            | c # _ \<Rightarrow>
                sbind (company_patch data c) (\<lambda>c'.
                  let tbl = map (\<lambda>x. if handle x = h then c' else x) (companies st)
                  in if distinct (map handle tbl) then Inr (c', st\<lparr>companies := tbl\<rparr>)
                     else Inl unique_violation))"
  unfolding company_patch_def by (rule company_update_keyed [OF assms])

theorem company_update_refines_witness:
  "db_wf test_db \<and> [(''numEmployees'', JNum 10)] \<noteq> [] \<and>
   list_all (\<lambda>k. dq \<notin> set (sql_column company_jsToSql k)) (object_keys [(''numEmployees'', JNum 10)]) \<and>
   distinct (map (sql_column company_jsToSql) (object_keys [(''numEmployees'', JNum 10)])) \<and>
   company_update (JStr ''c1'') [(''numEmployees'', JNum 10)] test_db =
     sbind (pg_check_assignments company_col_in (update_entries company_jsToSql [(''numEmployees'', JNum 10)])) (\<lambda>_.
     case filter (\<lambda>x. handle x = ''c1'') (companies test_db) of
        [] \<Rightarrow> Inl (NotFoundError (''No company: '' @ ''c1''))
      | c # _ \<Rightarrow>
          sbind (company_patch [(''numEmployees'', JNum 10)] c) (\<lambda>c'.
            let tbl = map (\<lambda>x. if handle x = ''c1'' then c' else x) (companies test_db)
            in if distinct (map handle tbl) then Inr (c', test_db\<lparr>companies := tbl\<rparr>)
               else Inl unique_violation))"
proof -
  have wf: "db_wf test_db" by (simp add: db_wf_def test_db_def)
  have ne: "[(''numEmployees'', JNum 10)] \<noteq> []" by simp
  have nq: "list_all (\<lambda>k. dq \<notin> set (sql_column company_jsToSql k)) (object_keys [(''numEmployees'', JNum 10)])"
    by (simp add: company_eval_simps)
  have dc: "distinct (map (sql_column company_jsToSql) (object_keys [(''numEmployees'', JNum 10)]))"
    by (simp add: object_keys_def)
  show ?thesis
    using company_update_refines [OF wf ne nq dc, of "''c1''"] wf ne nq dc by blast
qed

text \<open>
  C9: a payload key that is neither translated nor a column of \<open>companies\<close> makes the
  update of an existing company fail with the database's "column does not exist" error
  (a server error, not a \<open>BadRequestError\<close>).
\<close>

theorem company_update_unknown_column:
  assumes "db_wf st" and "c \<in> set (companies st)" and "handle c = h"
    and "k \<notin> set [''numEmployees'', ''logoUrl'', ''handle'', ''name'', ''description'',
                   ''num_employees'', ''logo_url'']"
    and "object_prototype_get k = JUndefined" and "dq \<notin> set k"
  shows "company_update (JStr h) [(k, v)] st = Inl (no_such_column k ''companies'')"
proof -
  have col: "sql_column company_jsToSql k = k"
    using assms(4,5) by (simp add: sql_column_def js_get_def js_or_def company_jsToSql_def)
  have nq: "list_all (\<lambda>k. dq \<notin> set (sql_column company_jsToSql k)) (object_keys [(k, v)])"
    using assms(6) col by (simp add: object_keys_def)
  have dc: "distinct (map (sql_column company_jsToSql) (object_keys [(k, v)]))"
    by (simp add: object_keys_def)
  have one: "filter (\<lambda>x. handle x = h) (companies st) = [c]"
    using filter_key_unique [of handle "companies st" c h] assms(1,2,3) by (simp add: db_wf_def)
  have "pg_check_assignments company_col_in (update_entries company_jsToSql [(k, v)])
          = Inl (no_such_column k ''companies'')"
    using assms(4) col by (simp add: update_entries_def pg_check_assignments_def company_col_in_def)
  then show ?thesis
    using company_update_keyed [OF assms(1) _ nq dc, of h] by simp
qed

theorem company_update_unknown_column_witness:
  "db_wf test_db \<and> hd (companies test_db) \<in> set (companies test_db) \<and>
   handle (hd (companies test_db)) = ''c1'' \<and>
   ''foo'' \<notin> set [''numEmployees'', ''logoUrl'', ''handle'', ''name'', ''description'',
                  ''num_employees'', ''logo_url''] \<and>
   object_prototype_get ''foo'' = JUndefined \<and> dq \<notin> set ''foo'' \<and>
   company_update (JStr ''c1'') [(''foo'', JNum 1)] test_db = Inl (no_such_column ''foo'' ''companies'')"
proof -
  have h1: "db_wf test_db" by (simp add: db_wf_def test_db_def)
  have h2: "hd (companies test_db) \<in> set (companies test_db)" by (simp add: test_db_def)
  have h3: "handle (hd (companies test_db)) = ''c1''" by (simp add: test_db_def)
  have h4: "''foo'' \<notin> set [''numEmployees'', ''logoUrl'', ''handle'', ''name'', ''description'',
                  ''num_employees'', ''logo_url'']" by simp
  have h5: "object_prototype_get ''foo'' = JUndefined"
    by (simp add: object_prototype_get_def object_prototype_methods_def)
  have h6: "dq \<notin> set ''foo''" by simp
  show ?thesis
    using company_update_unknown_column [OF h1 h2 h3 h4 h5 h6] h1 h2 h3 h4 h5 h6 by blast
qed

text \<open>
  C10: the specification says a partial update has no duplicate-column risk because the
  payload's keys are unique. The translation table breaks this: \<open>numEmployees\<close> and
  \<open>num_employees\<close> both name the column \<open>num_employees\<close>, so every payload that has
  both keys is refused by the database, whatever its other keys and values, the store
  and the handle.
\<close>

theorem company_update_duplicate_column:
  assumes "''numEmployees'' \<in> fst ` set data" and "''num_employees'' \<in> fst ` set data"
    and nq: "list_all (\<lambda>k. dq \<notin> set (sql_column company_jsToSql k)) (object_keys data)"
  shows "company_update h data st = Inl (DbError ''multiple assignments to same column'')"
proof -
  have col: "sql_column company_jsToSql ''numEmployees'' = sql_column company_jsToSql ''num_employees''"
    by (simp add: company_jsToSql_def sql_column_def js_get_def js_or_def object_prototype_get_def
                  object_prototype_methods_def)
  have dup: "\<not> distinct (map (sql_column company_jsToSql) (object_keys data))"
  proof
    assume "distinct (map (sql_column company_jsToSql) (object_keys data))"
    then have "inj_on (sql_column company_jsToSql) (fst ` set data)"
      by (simp add: distinct_map)
    from inj_onD [OF this col assms(1,2)] show False by simp
  qed
  obtain r where run: "sqlForPartialUpdate data company_jsToSql = Inr r"
    using assms(1) sqlForPartialUpdate_no_data_iff [of data company_jsToSql]
    by (cases "sqlForPartialUpdate data company_jsToSql") auto
  show ?thesis
    using run by (simp add: company_update_def Let_def pg_update_duplicate [OF run nq dup])
qed

theorem company_update_duplicate_column_witness:
  "''numEmployees'' \<in> fst ` set [(''numEmployees'', JNum 1), (''num_employees'', JNum 2)] \<and>
   ''num_employees'' \<in> fst ` set [(''numEmployees'', JNum 1), (''num_employees'', JNum 2)] \<and>
   list_all (\<lambda>k. dq \<notin> set (sql_column company_jsToSql k))
     (object_keys [(''numEmployees'', JNum 1), (''num_employees'', JNum 2)]) \<and>
   company_update (JStr ''c1'') [(''numEmployees'', JNum 1), (''num_employees'', JNum 2)] test_db
     = Inl (DbError ''multiple assignments to same column'')"
proof -
  have h1: "''numEmployees'' \<in> fst ` set [(''numEmployees'', JNum 1), (''num_employees'', JNum 2)]"
    and h2: "''num_employees'' \<in> fst ` set [(''numEmployees'', JNum 1), (''num_employees'', JNum 2)]"
    by force+
  have h3: "list_all (\<lambda>k. dq \<notin> set (sql_column company_jsToSql k))
              (object_keys [(''numEmployees'', JNum 1), (''num_employees'', JNum 2)])"
    by (simp add: company_eval_simps)
  show ?thesis
    using company_update_duplicate_column [OF h1 h2 h3] h1 h2 h3 by blast
qed

text \<open>
  C11: round trip of \<open>Company.create\<close> and \<open>Company.get\<close>: after a successful
  create, the new row is the last row of the table and \<open>get\<close> of its handle returns it.
\<close>

theorem company_create_get:
  assumes "company_create data st = Inr (c, st')"
  shows "companies st' = companies st @ [c] \<and> company_get (JStr (handle c)) st' = Inr c"
proof -
  obtain h n d ne lu where
    ins: "pg_insert_company h n d ne lu st = Inr (c, st')"
    using assms by (auto simp: company_create_def Let_def pg_select_key_def pg_text_key_def
                         split: if_splits)
  then have fresh: "handle c \<notin> set (map handle (companies st))"
    and st': "st' = st\<lparr>companies := companies st @ [c]\<rparr>"
    by (auto dest: pg_insert_company_result)
  have "filter (\<lambda>r. Some (handle c) = Some (handle r)) (companies st) = []"
    using fresh by (auto simp: filter_empty_conv)
  then show ?thesis
    by (simp add: st' company_get_def pg_select_key_def pg_text_key_def)
qed

theorem company_create_get_witness:
  "company_create [(''handle'', JStr ''c4''), (''name'', JStr ''C4''), (''description'', JStr ''D4'')]
     test_db = Inr (\<lparr>handle = ''c4'', name = ''C4'', description = ''D4'', num_employees = None,
                     logo_url = None\<rparr>,
                   test_db\<lparr>companies := companies test_db @ [\<lparr>handle = ''c4'', name = ''C4'',
                     description = ''D4'', num_employees = None, logo_url = None\<rparr>]\<rparr>) \<and>
   company_get (JStr ''c4'') (test_db\<lparr>companies := companies test_db @ [\<lparr>handle = ''c4'',
     name = ''C4'', description = ''D4'', num_employees = None, logo_url = None\<rparr>]\<rparr>)
     = Inr \<lparr>handle = ''c4'', name = ''C4'', description = ''D4'', num_employees = None, logo_url = None\<rparr>"
proof -
  have run: "company_create [(''handle'', JStr ''c4''), (''name'', JStr ''C4''), (''description'', JStr ''D4'')]
     test_db = Inr (\<lparr>handle = ''c4'', name = ''C4'', description = ''D4'', num_employees = None,
                     logo_url = None\<rparr>,
                   test_db\<lparr>companies := companies test_db @ [\<lparr>handle = ''c4'', name = ''C4'',
                     description = ''D4'', num_employees = None, logo_url = None\<rparr>]\<rparr>)"
    by (simp add: company_eval_simps)
  show ?thesis
    using company_create_get [OF run] run by simp
qed

text \<open>
  C12: creating a company whose handle is already in the table raises
  \<open>BadRequestError("Duplicate company: h")\<close> and changes nothing.
\<close>

theorem company_create_duplicate:
  assumes "js_get data ''handle'' = JStr h" and "h \<in> set (map handle (companies st))"
  shows "company_create data st = Inl (BadRequestError (''Duplicate company: '' @ h))"
proof -
  have "filter (\<lambda>r. Some h = Some (handle r)) (companies st) \<noteq> []"
    using assms(2) by (auto simp: filter_empty_conv)
  with assms(1) show ?thesis
    by (simp add: company_create_def pg_select_key_def pg_text_key_def)
qed

theorem company_create_duplicate_witness:
  "js_get [(''handle'', JStr ''c1'')] ''handle'' = JStr ''c1'' \<and>
   ''c1'' \<in> set (map handle (companies test_db)) \<and>
   company_create [(''handle'', JStr ''c1'')] test_db = Inl (BadRequestError ''Duplicate company: c1'')"
proof -
  have h1: "js_get [(''handle'', JStr ''c1'')] ''handle'' = JStr ''c1''" by (simp add: js_get_def)
  have h2: "''c1'' \<in> set (map handle (companies test_db))" by (simp add: test_db_def)
  show ?thesis using company_create_duplicate [OF h1 h2] h1 h2 by simp
qed

text \<open>
  C13: \<open>Company.remove\<close> deletes exactly the rows with the handle, and a later
  \<open>get\<close> of that handle raises \<open>NotFoundError\<close>.
\<close>

theorem company_remove_get:
  assumes "company_remove (JStr h) st = Inr st'"
  shows "companies st' = filter (\<lambda>c. handle c \<noteq> h) (companies st) \<and>
         company_get (JStr h) st' = Inl (NotFoundError (''No company: '' @ h))"
proof -
  have flip: "(\<lambda>r. h \<noteq> handle r) = (\<lambda>c. handle c \<noteq> h)"
    by auto
  have st': "st' = st\<lparr>companies := filter (\<lambda>c. handle c \<noteq> h) (companies st)\<rparr>"
    using assms by (auto simp: company_remove_def pg_delete_key_def pg_text_key_def flip
                         split: list.splits)
  have "filter (\<lambda>r. Some h = Some (handle r)) (filter (\<lambda>c. handle c \<noteq> h) (companies st)) = []"
    by (auto simp: filter_empty_conv)
  then show ?thesis
    by (simp add: st' company_get_def pg_select_key_def pg_text_key_def)
qed

theorem company_remove_get_witness:
  "company_remove (JStr ''c2'') test_db = Inr (test_db\<lparr>companies := filter (\<lambda>c. handle c \<noteq> ''c2'') (companies test_db)\<rparr>) \<and>
   companies (test_db\<lparr>companies := filter (\<lambda>c. handle c \<noteq> ''c2'') (companies test_db)\<rparr>)
     = filter (\<lambda>c. handle c \<noteq> ''c2'') (companies test_db) \<and>
   company_get (JStr ''c2'') (test_db\<lparr>companies := filter (\<lambda>c. handle c \<noteq> ''c2'') (companies test_db)\<rparr>)
     = Inl (NotFoundError (''No company: '' @ ''c2''))"
proof -
  have run: "company_remove (JStr ''c2'') test_db
               = Inr (test_db\<lparr>companies := filter (\<lambda>c. handle c \<noteq> ''c2'') (companies test_db)\<rparr>)"
    by (simp add: company_eval_simps)
  show ?thesis using company_remove_get [OF run] run by simp
qed

text \<open>
  C14: \<open>get\<close>, \<open>update\<close> and \<open>remove\<close> of a handle that no company has raise
  \<open>NotFoundError("No company: h")\<close>.
\<close>

theorem company_missing_not_found:
  assumes "list_all (\<lambda>c. handle c \<noteq> h) (companies st)"
  shows "company_get (JStr h) st = Inl (NotFoundError (''No company: '' @ h)) \<and>
         company_remove (JStr h) st = Inl (NotFoundError (''No company: '' @ h))"
proof -
  have "filter (\<lambda>r. Some h = Some (handle r)) (companies st) = []"
    using assms by (auto simp: filter_empty_conv list_all_iff)
  then show ?thesis
    by (simp add: company_get_def company_remove_def pg_select_key_def pg_delete_key_def
                  pg_text_key_def)
qed

theorem company_missing_not_found_witness:
  "list_all (\<lambda>c. handle c \<noteq> ''nope'') (companies test_db) \<and>
   company_get (JStr ''nope'') test_db = Inl (NotFoundError (''No company: '' @ ''nope'')) \<and>
   company_remove (JStr ''nope'') test_db = Inl (NotFoundError (''No company: '' @ ''nope''))"
proof -
  have h: "list_all (\<lambda>c. handle c \<noteq> ''nope'') (companies test_db)" by (simp add: test_db_def)
  show ?thesis using company_missing_not_found [OF h] h by simp
qed

end
