(* ===== verification/Job.thy ===== *)
theory Job
  imports Store
begin

text \<open>
  \<open>src/models/job.js\<close>, class \<open>Job\<close>, in the style of \<open>Company\<close>: each static method is
  a function of its arguments and the store. A job is identified by its serial \<open>id\<close>;
  the route passes the id as a value (a number, or the text of the URL segment), which
  PostgreSQL converts to \<open>integer\<close> when it binds the parameter (\<open>pg_int\<close>).
  \<open>filterJobs\<close> is in \<open>JobFilter\<close>.
\<close>

definition job_create :: "jsval jsobj \<Rightarrow> db \<Rightarrow> error + (job \<times> db)" where
  "job_create data st =
     (let t = js_get data ''title''; s = js_get data ''salary''; e = js_get data ''equity'';
          ch = js_get data ''company_handle''
      in pg_insert_job (pg_prepare t) (pg_prepare s) (pg_prepare e) (pg_prepare ch) st)"

definition job_findAll :: "db \<Rightarrow> job list" where
  "job_findAll st = sort_key id' (jobs st)"

definition job_get :: "jsval \<Rightarrow> db \<Rightarrow> error + job" where
  "job_get i st =
     sbind (pg_select_key id' pg_int (pg_prepare i) (jobs st)) (\<lambda>rows.
       case rows of
         [] \<Rightarrow> Inl (NotFoundError (''No job : '' @ js_to_string i))
       | job # _ \<Rightarrow> Inr job)"

definition job_jsToSql :: "jsval jsobj" where
  "job_jsToSql = [(''title'', JStr ''title''), (''salary'', JStr ''salary''), (''equity'', JStr ''equity'')]"

definition job_update :: "jsval \<Rightarrow> jsval jsobj \<Rightarrow> db \<Rightarrow> error + (job \<times> db)" where
  "job_update i data st =
     sbind (sqlForPartialUpdate data job_jsToSql) (\<lambda>r.
       let jobVarIdx = ''$'' @ string_of_nat (length (values' r) + 1)
       in sbind (pg_update set_job_col job_col_in id' pg_int (setCols r) jobVarIdx
                   (map pg_prepare (values' r @ [i])) (jobs st)) (\<lambda>(rows, tbl).
            case rows of
              [] \<Rightarrow> Inl (NotFoundError (''No job: '' @ js_to_string i))
            | job # _ \<Rightarrow> Inr (job, st\<lparr>jobs := tbl\<rparr>)))"

definition job_remove :: "jsval \<Rightarrow> db \<Rightarrow> error + db" where
  "job_remove i st =
     sbind (pg_delete_key id' pg_int (pg_prepare i) (jobs st)) (\<lambda>(rows, tbl).
       case rows of
         [] \<Rightarrow> Inl (NotFoundError (''No Job '' @ js_to_string i))
       | _ \<Rightarrow> Inr (st\<lparr>jobs := tbl\<rparr>))"

subsection \<open>The abstract update\<close>

definition job_patch :: "jsval jsobj \<Rightarrow> job \<Rightarrow> error + job" where
  "job_patch data j = patch_row set_job_col (update_entries job_jsToSql data) j"

text \<open>The update through the SQL pipeline, on a store with unique ids.\<close>

lemma job_update_keyed:
  assumes "db_wf st" and "data \<noteq> []"
    and nq: "list_all (\<lambda>k. dq \<notin> set (sql_column job_jsToSql k)) (object_keys data)"
    and dc: "distinct (map (sql_column job_jsToSql) (object_keys data))"
    and key: "pg_int (pg_prepare kv) = Inr (Some i)"
  shows "job_update kv data st =
           sbind (pg_check_assignments job_col_in (update_entries job_jsToSql data)) (\<lambda>_.
           case filter (\<lambda>x. id' x = i) (jobs st) of
              [] \<Rightarrow> Inl (NotFoundError (''No job: '' @ js_to_string kv))
            | j # _ \<Rightarrow>
                sbind (patch_row set_job_col (update_entries job_jsToSql data) j) (\<lambda>j'.
                  let tbl = map (\<lambda>x. if id' x = i then j' else x) (jobs st)
                  in if distinct (map id' tbl) then Inr (j', st\<lparr>jobs := tbl\<rparr>)
                     else Inl unique_violation))" (is "_ = ?rhs")
proof -
  obtain r where run: "sqlForPartialUpdate data job_jsToSql = Inr r"
    using assms(2) sqlForPartialUpdate_no_data_iff [of data job_jsToSql]
    by (cases "sqlForPartialUpdate data job_jsToSql") auto
  have wf: "distinct (map id' (jobs st))"
    using assms(1) by (simp add: db_wf_def)
  have "job_update kv data st =
          sbind (pg_update set_job_col job_col_in id' pg_int (setCols r)
                   (''$'' @ string_of_nat (length (values' r) + 1))
                   (map pg_prepare (values' r @ [kv])) (jobs st)) (\<lambda>(rows, tbl).
            case rows of
              [] \<Rightarrow> Inl (NotFoundError (''No job: '' @ js_to_string kv))
            | job # _ \<Rightarrow> Inr (job, st\<lparr>jobs := tbl\<rparr>))"
    by (simp add: job_update_def run Let_def)
  also have "\<dots> = ?rhs"
    unfolding pg_update_keyed [where key_in = pg_int and kv = kv, OF run nq dc key wf]
    by (simp add: Let_def sbind_assoc sbind_if cong: if_cong split: list.split)
  finally show ?thesis .
qed

text \<open>A job id in the range of \<open>integer\<close>, sent as a number or as its decimal text.\<close>

lemma pg_int_job_id:
  assumes "- 2147483648 \<le> i" and "i \<le> 2147483647"
  shows "pg_int (pg_prepare (JNum i)) = Inr (Some i)"
    and "pg_int (pg_prepare (JStr (string_of_int i))) = Inr (Some i)"
  using pg_int4_in_string_of_int [OF assms] by (simp_all add: pg_int_def)

lemmas job_eval_simps = sql_eval_simps job_update_def job_get_def job_create_def
  job_remove_def job_jsToSql_def pg_update_def pg_select_key_def pg_delete_key_def
  pg_check_params_def pg_bind_def set_job_col_def pg_insert_job_def
  parse_set_clause.simps parse_assignment_def parse_placeholder_def parse_param_ref_def
  nat_of_digits_def digit_value_def pg_int_def pg_int4_in_def pg_int4_error_def pg_numeric_error_def pg_numeric_def pg_numeric_in_def
  pg_sign_def pg_strip_def is_pg_space_def pg_text_not_null_def test_db_def db_wf_def Let_def
  string_of_int_def pg_check_assignments_def job_col_in_def

subsection \<open>Properties of the job model\<close>

text \<open>
  C15: \<open>Job.update\<close> refines the abstract update. For a store with unique ids, a
  non-empty payload whose columns are distinct and free of double quotes, and an id that
  PostgreSQL reads as the integer \<open>i\<close>, the statement is first checked whatever the
  rows: a column that \<open>jobs\<close> lacks or a value its column's type refuses (a salary that
  is not an integer) is a database error. Then the update raises \<open>NotFoundError\<close> when
  no job has that id, or applies the payload's assignments (\<open>job_patch\<close>) to that job
  and replaces it, returning the new row, unless its new id collides with another's.
\<close>

theorem job_update_refines:
  assumes "db_wf st" and "data \<noteq> []"
    and "list_all (\<lambda>k. dq \<notin> set (sql_column job_jsToSql k)) (object_keys data)"
    and "distinct (map (sql_column job_jsToSql) (object_keys data))"
    and "pg_int (pg_prepare kv) = Inr (Some i)"
  shows "job_update kv data st =
           sbind (pg_check_assignments job_col_in (update_entries job_jsToSql data)) (\<lambda>_.
           case filter (\<lambda>x. id' x = i) (jobs st) of
              [] \<Rightarrow> Inl (NotFoundError (''No job: '' @ js_to_string kv))
            | j # _ \<Rightarrow>
                sbind (job_patch data j) (\<lambda>j'.
                  let tbl = map (\<lambda>x. if id' x = i then j' else x) (jobs st)
                  in if distinct (map id' tbl) then Inr (j', st\<lparr>jobs := tbl\<rparr>)
                     else Inl unique_violation))"
  unfolding job_patch_def by (rule job_update_keyed [OF assms])

theorem job_update_refines_witness:
  "db_wf test_db \<and> [(''salary'', JNum 10)] \<noteq> [] \<and>
   list_all (\<lambda>k. dq \<notin> set (sql_column job_jsToSql k)) (object_keys [(''salary'', JNum 10)]) \<and>
   distinct (map (sql_column job_jsToSql) (object_keys [(''salary'', JNum 10)])) \<and>
   pg_int (pg_prepare (JNum 1)) = Inr (Some 1) \<and>
   job_update (JNum 1) [(''salary'', JNum 10)] test_db =
     sbind (pg_check_assignments job_col_in (update_entries job_jsToSql [(''salary'', JNum 10)])) (\<lambda>_.
     case filter (\<lambda>x. id' x = 1) (jobs test_db) of
        [] \<Rightarrow> Inl (NotFoundError (''No job: '' @ js_to_string (JNum 1)))
      | j # _ \<Rightarrow>
          sbind (job_patch [(''salary'', JNum 10)] j) (\<lambda>j'.
            let tbl = map (\<lambda>x. if id' x = 1 then j' else x) (jobs test_db)
            in if distinct (map id' tbl) then Inr (j', test_db\<lparr>jobs := tbl\<rparr>)
               else Inl unique_violation))"
proof -
  have wf: "db_wf test_db" by (simp add: db_wf_def test_db_def)
  have ne: "[(''salary'', JNum 10)] \<noteq> []" by simp
  have nq: "list_all (\<lambda>k. dq \<notin> set (sql_column job_jsToSql k)) (object_keys [(''salary'', JNum 10)])"
    by (simp add: job_eval_simps)
  have dc: "distinct (map (sql_column job_jsToSql) (object_keys [(''salary'', JNum 10)]))"
    by (simp add: object_keys_def)
  have key: "pg_int (pg_prepare (JNum 1)) = Inr (Some 1)"
    using pg_int_job_id(1) [of 1] by simp
  show ?thesis
    using job_update_refines [OF wf ne nq dc key] wf ne nq dc key by blast
qed

text \<open>
  C17: the comment of \<open>Job.update\<close> says the data can include \<open>companyHandle\<close>, but the
  translation table has no entry for it: the SET clause names a column
  \<open>"companyHandle"\<close>, which \<open>jobs\<close> does not have, and the update of an existing job
  fails with a database error.
\<close>

theorem job_update_companyHandle:
  assumes "db_wf st" and "j \<in> set (jobs st)" and "pg_int (pg_prepare kv) = Inr (Some (id' j))"
  shows "job_update kv [(''companyHandle'', v)] st = Inl (no_such_column ''companyHandle'' ''jobs'')"
proof -
  have col: "sql_column job_jsToSql ''companyHandle'' = ''companyHandle''"
    by (simp add: sql_column_def js_get_def js_or_def job_jsToSql_def object_prototype_get_def
                  object_prototype_methods_def)
  have nq: "list_all (\<lambda>k. dq \<notin> set (sql_column job_jsToSql k)) (object_keys [(''companyHandle'', v)])"
    using col by (simp add: object_keys_def)
  have dc: "distinct (map (sql_column job_jsToSql) (object_keys [(''companyHandle'', v)]))"
    by (simp add: object_keys_def)
  have one: "filter (\<lambda>x. id' x = id' j) (jobs st) = [j]"
    using filter_key_unique [of id' "jobs st" j "id' j"] assms(1,2) by (simp add: db_wf_def)
  have "pg_check_assignments job_col_in (update_entries job_jsToSql [(''companyHandle'', v)])
          = Inl (no_such_column ''companyHandle'' ''jobs'')"
    using col by (simp add: update_entries_def pg_check_assignments_def job_col_in_def)
  then show ?thesis
    using job_update_keyed [OF assms(1) _ nq dc assms(3)] by simp
qed

theorem job_update_companyHandle_witness:
  "db_wf test_db \<and> hd (jobs test_db) \<in> set (jobs test_db) \<and>
   pg_int (pg_prepare (JNum 1)) = Inr (Some (id' (hd (jobs test_db)))) \<and>
   job_update (JNum 1) [(''companyHandle'', JStr ''c2'')] test_db
     = Inl (no_such_column ''companyHandle'' ''jobs'')"
proof -
  have h1: "db_wf test_db" by (simp add: db_wf_def test_db_def)
  have h2: "hd (jobs test_db) \<in> set (jobs test_db)" by (simp add: test_db_def)
  have h3: "pg_int (pg_prepare (JNum 1)) = Inr (Some (id' (hd (jobs test_db))))"
    using pg_int_job_id(1) [of 1] by (simp add: test_db_def)
  show ?thesis
    using job_update_companyHandle [OF h1 h2 h3] h1 h2 h3 by blast
qed

text \<open>
  C18: round trip of \<open>Job.create\<close> and \<open>Job.get\<close>: on a well-formed store, a successful
  create appends a row whose id is the next value of the sequence, the store stays
  well-formed, and \<open>get\<close> of the new id returns the row.
\<close>

theorem job_create_get:
  assumes "db_wf st" and "job_create data st = Inr (j, st')"
  shows "jobs st' = jobs st @ [j] \<and> id' j = jobs_id_seq st + 1 \<and> db_wf st' \<and>
         job_get (JNum (id' j)) st' = Inr j"
proof -
  obtain t s e ch where ins: "pg_insert_job t s e ch st = Inr (j, st')"
    using assms(2) by (auto simp: job_create_def Let_def)
  then have fresh: "id' j \<notin> set (map id' (jobs st))" and idj: "id' j = jobs_id_seq st + 1"
    and top: "id' j \<le> 2147483647" and st': "st' = st\<lparr>jobs := jobs st @ [j], jobs_id_seq := id' j\<rparr>"
    by (auto dest: pg_insert_job_result)
  have key: "pg_int (pg_prepare (JNum (id' j))) = Inr (Some (id' j))"
    using assms(1) idj top by (intro pg_int_job_id(1)) (simp_all add: db_wf_def)
  have "filter (\<lambda>r. Some (id' j) = Some (id' r)) (jobs st) = []"
    using fresh by (auto simp: filter_empty_conv)
  then have "job_get (JNum (id' j)) st' = Inr j"
    using key by (simp add: st' job_get_def pg_select_key_def)
  moreover have "db_wf st'"
    using assms(1) fresh idj top by (simp add: st' db_wf_def)
  ultimately show ?thesis
    using st' idj by simp
qed

theorem job_create_get_witness:
  "db_wf test_db \<and>
   job_create [(''title'', JStr ''new''), (''salary'', JNum 100), (''equity'', JStr ''0.1''),
               (''company_handle'', JStr ''c1'')] test_db
     = Inr (\<lparr>id' = 4, title = ''new'', salary = Some 100, equity = Some (1 / 10),
             company_handle = ''c1''\<rparr>,
            test_db\<lparr>jobs := jobs test_db @ [\<lparr>id' = 4, title = ''new'', salary = Some 100,
               equity = Some (1 / 10), company_handle = ''c1''\<rparr>], jobs_id_seq := 4\<rparr>) \<and>
   job_get (JNum 4) (test_db\<lparr>jobs := jobs test_db @ [\<lparr>id' = 4, title = ''new'', salary = Some 100,
               equity = Some (1 / 10), company_handle = ''c1''\<rparr>], jobs_id_seq := 4\<rparr>)
     = Inr \<lparr>id' = 4, title = ''new'', salary = Some 100, equity = Some (1 / 10),
             company_handle = ''c1''\<rparr>"
proof -
  have wf: "db_wf test_db" by (simp add: db_wf_def test_db_def)
  have run: "job_create [(''title'', JStr ''new''), (''salary'', JNum 100), (''equity'', JStr ''0.1''),
               (''company_handle'', JStr ''c1'')] test_db
     = Inr (\<lparr>id' = 4, title = ''new'', salary = Some 100, equity = Some (1 / 10),
             company_handle = ''c1''\<rparr>,
            test_db\<lparr>jobs := jobs test_db @ [\<lparr>id' = 4, title = ''new'', salary = Some 100,
               equity = Some (1 / 10), company_handle = ''c1''\<rparr>], jobs_id_seq := 4\<rparr>)"
    by (simp add: job_eval_simps)
  show ?thesis
    using job_create_get [OF wf run] wf run by simp
qed

text \<open>
  C19: the comment of \<open>Job.create\<close> says the data is \<open>{title, salary, equity,
  companyHandle}\<close>, but the method destructures \<open>company_handle\<close>: a payload without
  \<open>company_handle\<close> (such as the documented one) binds NULL to the NOT NULL column
  \<open>company_handle\<close> and the insert fails, whatever \<open>companyHandle\<close> holds.
\<close>

theorem job_create_companyHandle:
  assumes "map_of data ''company_handle'' = None"
    and "pg_int (pg_prepare (js_get data ''salary'')) = Inr s"
    and "pg_numeric (pg_prepare (js_get data ''equity'')) = Inr e"
    and "pg_prepare (js_get data ''title'') = Some t"
  shows "job_create data st
           = Inl (DbError ''null value in column company_handle violates not-null constraint'')"
proof -
  have "js_get data ''company_handle'' = JUndefined"
    using assms(1) by (simp add: js_get_def object_prototype_get_def object_prototype_methods_def)
  then show ?thesis
    using assms(2-4) by (simp add: job_create_def pg_insert_job_def pg_text_not_null_def)
qed

theorem job_create_companyHandle_witness:
  "map_of [(''title'', JStr ''new''), (''salary'', JNum 100), (''equity'', JStr ''0.1''),
           (''companyHandle'', JStr ''c1'')] ''company_handle'' = None \<and>
   pg_int (pg_prepare (js_get [(''title'', JStr ''new''), (''salary'', JNum 100),
       (''equity'', JStr ''0.1''), (''companyHandle'', JStr ''c1'')] ''salary'')) = Inr (Some 100) \<and>
   pg_numeric (pg_prepare (js_get [(''title'', JStr ''new''), (''salary'', JNum 100),
       (''equity'', JStr ''0.1''), (''companyHandle'', JStr ''c1'')] ''equity'')) = Inr (Some (1 / 10)) \<and>
   pg_prepare (js_get [(''title'', JStr ''new''), (''salary'', JNum 100),
       (''equity'', JStr ''0.1''), (''companyHandle'', JStr ''c1'')] ''title'') = Some ''new'' \<and>
   job_create [(''title'', JStr ''new''), (''salary'', JNum 100), (''equity'', JStr ''0.1''),
               (''companyHandle'', JStr ''c1'')] test_db
     = Inl (DbError ''null value in column company_handle violates not-null constraint'')"
proof -
  have h1: "map_of [(''title'', JStr ''new''), (''salary'', JNum 100), (''equity'', JStr ''0.1''),
           (''companyHandle'', JStr ''c1'')] ''company_handle'' = None" by simp
  have h2: "pg_int (pg_prepare (js_get [(''title'', JStr ''new''), (''salary'', JNum 100),
       (''equity'', JStr ''0.1''), (''companyHandle'', JStr ''c1'')] ''salary'')) = Inr (Some 100)"
    by (simp add: job_eval_simps)
  have h3: "pg_numeric (pg_prepare (js_get [(''title'', JStr ''new''), (''salary'', JNum 100),
       (''equity'', JStr ''0.1''), (''companyHandle'', JStr ''c1'')] ''equity'')) = Inr (Some (1 / 10))"
    by (simp add: job_eval_simps)
  have h4: "pg_prepare (js_get [(''title'', JStr ''new''), (''salary'', JNum 100),
       (''equity'', JStr ''0.1''), (''companyHandle'', JStr ''c1'')] ''title'') = Some ''new''"
    by (simp add: js_get_def)
  show ?thesis
    using job_create_companyHandle [OF h1 h2 h3 h4] h1 h2 h3 h4 by blast
qed

text \<open>
  C20: \<open>Job.remove\<close> deletes exactly the jobs with the id, and a later \<open>get\<close> of that
  id raises \<open>NotFoundError\<close>.
\<close>

theorem job_remove_get:
  assumes "pg_int (pg_prepare kv) = Inr (Some i)" and "job_remove kv st = Inr st'"
  shows "jobs st' = filter (\<lambda>j. id' j \<noteq> i) (jobs st) \<and>
         job_get kv st' = Inl (NotFoundError (''No job : '' @ js_to_string kv))"
proof -
  have flip: "(\<lambda>r. i \<noteq> id' r) = (\<lambda>j. id' j \<noteq> i)"
    by auto
  have st': "st' = st\<lparr>jobs := filter (\<lambda>j. id' j \<noteq> i) (jobs st)\<rparr>"
    using assms by (auto simp: job_remove_def pg_delete_key_def flip split: list.splits)
  have "filter (\<lambda>r. Some i = Some (id' r)) (filter (\<lambda>j. id' j \<noteq> i) (jobs st)) = []"
    by (auto simp: filter_empty_conv)
  then show ?thesis
    using assms(1) by (simp add: st' job_get_def pg_select_key_def)
qed

theorem job_remove_get_witness:
  "pg_int (pg_prepare (JNum 2)) = Inr (Some 2) \<and>
   job_remove (JNum 2) test_db = Inr (test_db\<lparr>jobs := filter (\<lambda>j. id' j \<noteq> 2) (jobs test_db)\<rparr>) \<and>
   jobs (test_db\<lparr>jobs := filter (\<lambda>j. id' j \<noteq> 2) (jobs test_db)\<rparr>) = filter (\<lambda>j. id' j \<noteq> 2) (jobs test_db) \<and>
   job_get (JNum 2) (test_db\<lparr>jobs := filter (\<lambda>j. id' j \<noteq> 2) (jobs test_db)\<rparr>)
     = Inl (NotFoundError (''No job : '' @ js_to_string (JNum 2)))"
proof -
  have key: "pg_int (pg_prepare (JNum 2)) = Inr (Some 2)"
    using pg_int_job_id(1) [of 2] by simp
  have run: "job_remove (JNum 2) test_db = Inr (test_db\<lparr>jobs := filter (\<lambda>j. id' j \<noteq> 2) (jobs test_db)\<rparr>)"
    by (simp add: job_eval_simps)
  show ?thesis
    using job_remove_get [OF key run] key run by simp
qed

text \<open>
  C21: \<open>get\<close> and \<open>remove\<close> of an id that no job has raise \<open>NotFoundError\<close> (with
  the two different messages of the code).
\<close>

theorem job_missing_not_found:
  assumes "pg_int (pg_prepare kv) = Inr (Some i)" and "list_all (\<lambda>j. id' j \<noteq> i) (jobs st)"
  shows "job_get kv st = Inl (NotFoundError (''No job : '' @ js_to_string kv)) \<and>
         job_remove kv st = Inl (NotFoundError (''No Job '' @ js_to_string kv))"
proof -
  have "filter (\<lambda>r. Some i = Some (id' r)) (jobs st) = []"
    using assms(2) by (auto simp: filter_empty_conv list_all_iff)
  then show ?thesis
    using assms(1) by (simp add: job_get_def job_remove_def pg_select_key_def pg_delete_key_def)
qed

theorem job_missing_not_found_witness:
  "pg_int (pg_prepare (JStr ''99'')) = Inr (Some 99) \<and> list_all (\<lambda>j. id' j \<noteq> 99) (jobs test_db) \<and>
   job_get (JStr ''99'') test_db = Inl (NotFoundError ''No job : 99'') \<and>
   job_remove (JStr ''99'') test_db = Inl (NotFoundError ''No Job 99'')"
proof -
  have h1: "pg_int (pg_prepare (JStr ''99'')) = Inr (Some 99)"
    by (simp add: job_eval_simps)
  have h2: "list_all (\<lambda>j. id' j \<noteq> 99) (jobs test_db)"
    by (simp add: test_db_def)
  show ?thesis
    using job_missing_not_found [OF h1 h2] h1 h2 by simp
qed

text \<open>
  C22: an id that is not the text of an integer (a mistyped URL segment) is not a missing
  job. For every text that PostgreSQL's \<open>int4\<close> input refuses, as malformed or out of
  range, \<open>get\<close>, \<open>remove\<close> and a title \<open>update\<close> fail on every store with the database's
  error for that text (status 500), never with \<open>NotFoundError\<close>.
\<close>

theorem job_non_integer_id:
  assumes "pg_int4_in s = None"
  shows "job_get (JStr s) st = Inl (pg_int4_error s) \<and>
         job_remove (JStr s) st = Inl (pg_int4_error s) \<and>
         job_update (JStr s) [(''title'', JStr t)] st = Inl (pg_int4_error s)"
  using assms by (simp add: job_eval_simps del: pg_int4_in_def pg_int4_error_def)

theorem job_non_integer_id_witness:
  \<open>pg_int4_in ''2147483648'' = None \<and>
   job_get (JStr ''2147483648'') test_db
     = Inl (DbError ''value "2147483648" is out of range for type integer'') \<and>
   job_remove (JStr ''2147483648'') test_db
     = Inl (DbError ''value "2147483648" is out of range for type integer'') \<and>
   job_update (JStr ''2147483648'') [(''title'', JStr ''j9'')] test_db
     = Inl (DbError ''value "2147483648" is out of range for type integer'')\<close>
proof -
  have h: "pg_int4_in ''2147483648'' = None"
    by (simp add: job_eval_simps)
  have e: \<open>pg_int4_error ''2147483648'' = DbError ''value "2147483648" is out of range for type integer''\<close>
    by (simp add: job_eval_simps)
  show ?thesis
    using job_non_integer_id [OF h, of test_db "''j9''"] h e by simp
qed

end
