(* ===== verification/SqlWhere.thy ===== *)
theory SqlWhere
  imports Store "HOL-Library.Sublist"
begin

text \<open>
  How PostgreSQL reads the WHERE clause that \<open>filterCompany\<close> and \<open>filterJobs\<close> build
  by string concatenation: not code of the repository but the meaning of the text the code
  sends. The fragment modelled is the one the code generates and the one an injected
  value can reach within it: unquoted identifiers (matched to columns without regard to
  case), unsigned decimal numbers with an optional fraction and a unary minus, string
  literals in single quotes (\<open>''\<close> inside one stands for a quote; backslash is ordinary),
  the comparison operators, \<open>LIKE\<close>, \<open>AND\<close>, \<open>OR\<close> and \<open>--\<close> comments. A clause is a
  disjunction of conjunctions of comparisons (\<open>AND\<close> binds tighter than \<open>OR\<close>); text
  outside the fragment (parentheses, \<open>NOT\<close>, other keywords, a \<open>;\<close> and what follows it)
  is reported as a syntax error. Columns are typed by the table's schema; a string literal
  compared with a number column is converted to the column's type, and a mismatch is an
  error, as in PostgreSQL. Comparisons with NULL are unknown and a row is returned only when
  the clause is true (three-valued logic). Text is compared in code-point order (the C
  collation).
\<close>

subsection \<open>Tokens\<close>

datatype sql_tok =
    TkIdent string
  | TkNum rat
  | TkStr string
  | TkOp string
  | TkMinus
  | TkAnd
  | TkOr
  | TkLike

definition is_sql_space :: "char \<Rightarrow> bool" where
  "is_sql_space c \<longleftrightarrow> of_char c \<in> {9, 10, 11, 12, 13, 32 :: nat}"

definition is_letter :: "char \<Rightarrow> bool" where
  "is_letter c \<longleftrightarrow> (let n = of_char c :: nat in (65 \<le> n \<and> n \<le> 90) \<or> (97 \<le> n \<and> n \<le> 122))"

definition is_ident_start :: "char \<Rightarrow> bool" where
  "is_ident_start c \<longleftrightarrow> is_letter c \<or> c = CHR ''_''"

definition is_ident_char :: "char \<Rightarrow> bool" where
  "is_ident_char c \<longleftrightarrow> is_ident_start c \<or> is_digit c \<or> c = CHR ''$''"

text \<open>Equality of identifiers and keywords without regard to ASCII case.\<close>

definition ci_char :: "char \<Rightarrow> char \<Rightarrow> bool" where
  "ci_char a b \<longleftrightarrow>
     (let x = of_char a :: nat; y = of_char b in
      x = y \<or> (65 \<le> x \<and> x \<le> 90 \<and> y = x + 32) \<or> (65 \<le> y \<and> y \<le> 90 \<and> x = y + 32))"

definition ci_eq :: "string \<Rightarrow> string \<Rightarrow> bool" where
  "ci_eq s t \<longleftrightarrow> list_all2 ci_char s t"

definition word_token :: "string \<Rightarrow> sql_tok" where
  "word_token w =
     (if ci_eq w ''and'' then TkAnd else if ci_eq w ''or'' then TkOr
      else if ci_eq w ''like'' then TkLike else TkIdent w)"

text \<open>The body of a string literal after its opening quote: the text and what follows it.\<close>

fun lex_string :: "string \<Rightarrow> (string \<times> string) option" where
  "lex_string [] = None"
| "lex_string (c # cs) =
     (if c = sq then
        (case cs of
           d # ds \<Rightarrow> if d = sq then map_option (\<lambda>(s, r). (sq # s, r)) (lex_string ds) else Some ([], cs)
         | [] \<Rightarrow> Some ([], []))
      else map_option (\<lambda>(s, r). (c # s, r)) (lex_string cs))"

text \<open>A numeric literal: digits, optionally a point and more digits; a letter right after it is an error.\<close>

definition lex_number :: "string \<Rightarrow> (rat \<times> string) option" where
  "lex_number s =
     (let ip = takeWhile is_digit s; r = dropWhile is_digit s in
      if r \<noteq> [] \<and> hd r = CHR ''.'' then
        (let fp = takeWhile is_digit (tl r); r2 = dropWhile is_digit (tl r) in
         if r2 \<noteq> [] \<and> is_ident_char (hd r2) then None
         else Some (of_nat (nat_of_digits (ip @ fp)) / of_nat (10 ^ length fp), r2))
      else if r \<noteq> [] \<and> is_ident_char (hd r) then None
      else Some (of_nat (nat_of_digits ip), r))"

definition lex_op :: "string \<Rightarrow> (string \<times> string) option" where
  "lex_op s =
     (case s of
        c # d # r \<Rightarrow>
          if [c, d] \<in> set [''>='', ''<='', ''<>'', ''!=''] then Some ([c, d], r)
          else if c \<in> set ''<>='' then Some ([c], d # r) else None
      | [c] \<Rightarrow> if c \<in> set ''<>='' then Some ([c], []) else None
      | [] \<Rightarrow> None)"

lemma lex_string_shorter: "lex_string s = Some (t, r) \<Longrightarrow> length r < length s"
proof (induction s arbitrary: t rule: lex_string.induct)
  case 1
  then show ?case by simp
next
  case (2 c cs)
  show ?case
  proof (cases "c = sq")
    case True
    show ?thesis
    proof (cases cs)
      case Nil
      with True "2.prems" show ?thesis by simp
    next
      case (Cons d ds)
      show ?thesis
      proof (cases "d = sq")
        case True': True
        with \<open>c = sq\<close> Cons "2.prems" obtain t' where "lex_string ds = Some (t', r)"
          by auto
        with "2.IH"(1) [OF \<open>c = sq\<close> Cons True'] Cons show ?thesis
          by fastforce
      next
        case False
        with True Cons "2.prems" show ?thesis by simp
      qed
    qed
  next
    case False
    with "2.prems" obtain t' where "lex_string cs = Some (t', r)"
      by auto
    with "2.IH"(2) [OF False] show ?thesis
      by fastforce
  qed
qed

lemma lex_number_rest:
  "lex_number s = Some (q, r) \<Longrightarrow>
     r = dropWhile is_digit s \<or> r = dropWhile is_digit (tl (dropWhile is_digit s))"
  unfolding lex_number_def Let_def by (simp split: if_split_asm)

lemma lex_number_shorter: "lex_number (c # cs) = Some (q, r) \<Longrightarrow> is_digit c \<Longrightarrow> length r < Suc (length cs)"
proof -
  assume a: "lex_number (c # cs) = Some (q, r)" and d: "is_digit c"
  let ?r0 = "dropWhile is_digit (c # cs)"
  have r0: "length ?r0 \<le> length cs"
    using d by (simp add: length_dropWhile_le)
  have "length (dropWhile is_digit (tl ?r0)) \<le> length ?r0"
    by (metis le_trans length_dropWhile_le length_tl diff_le_self)
  then show ?thesis
    using lex_number_rest [OF a] r0 by auto
qed

lemma lex_op_shorter: "lex_op s = Some (o', r) \<Longrightarrow> length r < length s"
  by (auto simp: lex_op_def split: list.splits if_splits)

text \<open>
  One step of the lexer: white space and comments are skipped (\<open>None\<close> as the token),
  otherwise one token is read; the text that follows is returned with it.
\<close>

definition lex_token :: "string \<Rightarrow> (sql_tok option \<times> string) option" where
  "lex_token s =
     (case s of
        [] \<Rightarrow> None
      | c # cs \<Rightarrow>
          if is_sql_space c then Some (None, cs)
          else if c = CHR ''-'' \<and> cs \<noteq> [] \<and> hd cs = CHR ''-'' then
            Some (None, dropWhile (\<lambda>x. x \<noteq> CHR 0x0A) cs)
          else if is_ident_start c then
            Some (Some (word_token (c # takeWhile is_ident_char cs)), dropWhile is_ident_char cs)
          else if is_digit c then map_option (\<lambda>(q, r). (Some (TkNum q), r)) (lex_number s)
          else if c = sq then map_option (\<lambda>(t, r). (Some (TkStr t), r)) (lex_string cs)
          else if c = CHR ''-'' then Some (Some TkMinus, cs)
          else map_option (\<lambda>(o', r). (Some (TkOp o'), r)) (lex_op s))"

lemma lex_token_shorter: "lex_token s = Some (t, r) \<Longrightarrow> length r < length s"
proof (cases s)
  case (Cons c cs)
  assume a: "lex_token s = Some (t, r)"
  have dw: "length (dropWhile P cs) < Suc (length cs)" for P
    by (simp add: le_imp_less_Suc length_dropWhile_le)
  show ?thesis
  proof (cases "is_sql_space c \<or> (c = CHR ''-'' \<and> cs \<noteq> [] \<and> hd cs = CHR ''-'') \<or> is_ident_start c")
    case True
    then show ?thesis
      using a dw Cons by (auto simp: lex_token_def split: if_splits)
  next
    case False
    then consider "is_digit c" | "\<not> is_digit c" "c = sq" | "\<not> is_digit c" "c \<noteq> sq"
      by blast
    then show ?thesis
    proof cases
      case 1
      then obtain q where "lex_number (c # cs) = Some (q, r)"
        using a False Cons by (auto simp: lex_token_def)
      from lex_number_shorter [OF this 1] show ?thesis
        by (simp add: Cons)
    next
      case 2
      then obtain u where "lex_string cs = Some (u, r)"
        using a False Cons by (auto simp: lex_token_def)
      from lex_string_shorter [OF this] show ?thesis
        by (simp add: Cons)
    next
      case 3
      then obtain o' where "lex_op s = Some (o', r) \<or> (c = CHR ''-'' \<and> r = cs)"
        using a False Cons by (auto simp: lex_token_def split: if_splits)
      then show ?thesis
      proof
        assume "lex_op s = Some (o', r)"
        from lex_op_shorter [OF this] show ?thesis .
      next
        assume "c = CHR ''-'' \<and> r = cs"
        then show ?thesis by (simp add: Cons)
      qed
    qed
  qed
qed (simp add: lex_token_def)

function sql_lex :: "string \<Rightarrow> sql_tok list option" where
  "sql_lex s =
     (if s = [] then Some []
      else case lex_token s of
             None \<Rightarrow> None
           | Some (None, r) \<Rightarrow> sql_lex r
           | Some (Some t, r) \<Rightarrow> map_option (Cons t) (sql_lex r))"
  by pat_completeness auto
termination
  by (relation "measure length") (auto dest: lex_token_shorter)


subsection \<open>Parsing\<close>

fun split_on :: "'a \<Rightarrow> 'a list \<Rightarrow> 'a list list" where
  "split_on x [] = [[]]"
| "split_on x (y # ys) = (let gs = split_on x ys in if y = x then [] # gs else (y # hd gs) # tl gs)"

datatype sql_operand = OCol string | ONum rat | OStr string

fun parse_operand :: "sql_tok list \<Rightarrow> sql_operand option" where
  "parse_operand [TkIdent w] = Some (OCol w)"
| "parse_operand [TkNum q] = Some (ONum q)"
| "parse_operand [TkMinus, TkNum q] = Some (ONum (- q))"
| "parse_operand [TkStr s] = Some (OStr s)"
| "parse_operand _ = None"

datatype sql_pred = PCmp string sql_operand sql_operand | PLike sql_operand sql_operand

definition is_cmp_tok :: "sql_tok \<Rightarrow> bool" where
  "is_cmp_tok t = (case t of TkOp _ \<Rightarrow> True | TkLike \<Rightarrow> True | _ \<Rightarrow> False)"

text \<open>A comparison: an operand, one comparison operator or \<open>LIKE\<close>, an operand.\<close>

definition parse_pred :: "sql_tok list \<Rightarrow> sql_pred option" where
  "parse_pred ts =
     (let l = takeWhile (\<lambda>t. \<not> is_cmp_tok t) ts; r = dropWhile (\<lambda>t. \<not> is_cmp_tok t) ts in
      case r of
        TkOp o' # rest \<Rightarrow>
          (case (parse_operand l, parse_operand rest) of
             (Some a, Some b) \<Rightarrow> Some (PCmp o' a b)
           | _ \<Rightarrow> None)
      | TkLike # rest \<Rightarrow>
          (case (parse_operand l, parse_operand rest) of
             (Some a, Some b) \<Rightarrow> Some (PLike a b)
           | _ \<Rightarrow> None)
      | _ \<Rightarrow> None)"

text \<open>\<open>OR\<close> of \<open>AND\<close>s of comparisons; an empty conjunct (as in \<open>a AND AND b\<close>) is an error.\<close>

definition parse_where :: "sql_tok list \<Rightarrow> sql_pred list list option" where
  "parse_where ts = those (map (\<lambda>conj. those (map parse_pred (split_on TkAnd conj))) (split_on TkOr ts))"

subsection \<open>Typing against the schema\<close>

datatype sql_ty = TyInt | TyNumeric | TyText

datatype sql_val = VNum rat | VText string

datatype sql_arg = ACol string | AConst sql_val

datatype sql_cond = CNum string sql_arg sql_arg | CText string sql_arg sql_arg | CLike sql_arg sql_arg

definition sql_syntax_error :: error where
  "sql_syntax_error = DbError ''syntax error''"

definition sql_operator_error :: error where
  "sql_operator_error = DbError ''operator does not exist''"

definition col_lookup :: "(string \<times> sql_ty) list \<Rightarrow> string \<Rightarrow> (string \<times> sql_ty) option" where
  "col_lookup schema w = find (\<lambda>(c, _). ci_eq w c) schema"

text \<open>A typed operand: \<open>None\<close> is the type \<open>unknown\<close> of a string literal.\<close>

definition plan_operand :: "(string \<times> sql_ty) list \<Rightarrow> sql_operand \<Rightarrow> error + sql_ty option \<times> sql_arg" where
  "plan_operand schema a =
     (case a of
        OCol w \<Rightarrow> (case col_lookup schema w of
                     Some (c, ty) \<Rightarrow> Inr (Some ty, ACol c)
                   | None \<Rightarrow> Inl (DbError (''column '' @ w @ '' does not exist'')))
      | ONum q \<Rightarrow> Inr (Some TyNumeric, AConst (VNum q))
      | OStr s \<Rightarrow> Inr (None, AConst (VText s)))"

definition is_num_ty :: "sql_ty \<Rightarrow> bool" where
  "is_num_ty t \<longleftrightarrow> t = TyInt \<or> t = TyNumeric"

text \<open>A string literal compared with a number column is read by the column type's input function.\<close>

definition coerce :: "sql_ty \<Rightarrow> sql_arg \<Rightarrow> error + sql_arg" where
  "coerce ty a =
     (case (ty, a) of
        (TyInt, AConst (VText s)) \<Rightarrow>
          (case pg_int4_in s of
             Some n \<Rightarrow> Inr (AConst (VNum (of_int n)))
           | None \<Rightarrow> Inl (pg_int4_error s))
      | (TyNumeric, AConst (VText s)) \<Rightarrow>
          (case pg_numeric_in s of
             Some q \<Rightarrow> Inr (AConst (VNum q))
           | None \<Rightarrow> Inl (pg_numeric_error s))
      | _ \<Rightarrow> Inr a)"

text \<open>A LIKE pattern must not end with the escape character (backslash).\<close>

fun escape_ok :: "string \<Rightarrow> bool" where
  "escape_ok [] = True"
| "escape_ok [c] = (c \<noteq> CHR 0x5C)"
| "escape_ok (c # d # cs) = (if c = CHR 0x5C then escape_ok cs else escape_ok (d # cs))"

definition plan_cmp ::
  "string \<Rightarrow> sql_ty option \<times> sql_arg \<Rightarrow> sql_ty option \<times> sql_arg \<Rightarrow> error + sql_cond" where
  "plan_cmp o' a b =
     (case (a, b) of
        ((Some t1, x), (Some t2, y)) \<Rightarrow>
          if is_num_ty t1 \<and> is_num_ty t2 then Inr (CNum o' x y)
          else if t1 = TyText \<and> t2 = TyText then Inr (CText o' x y) else Inl sql_operator_error
      | ((Some t1, x), (None, y)) \<Rightarrow>
          if t1 = TyText then Inr (CText o' x y) else sbind (coerce t1 y) (\<lambda>y'. Inr (CNum o' x y'))
      | ((None, x), (Some t2, y)) \<Rightarrow>
          if t2 = TyText then Inr (CText o' x y) else sbind (coerce t2 x) (\<lambda>x'. Inr (CNum o' x' y))
      | ((None, x), (None, y)) \<Rightarrow> Inr (CText o' x y))"

definition plan_like :: "sql_ty option \<times> sql_arg \<Rightarrow> sql_ty option \<times> sql_arg \<Rightarrow> error + sql_cond" where
  "plan_like a b =
     (case (a, b) of
        ((ta, x), (tb, y)) \<Rightarrow>
          if ta \<in> {None, Some TyText} \<and> tb \<in> {None, Some TyText} then
            (case y of
               AConst (VText p) \<Rightarrow>
                 if escape_ok p then Inr (CLike x y)
                 else Inl (DbError ''LIKE pattern must not end with escape character'')
             | _ \<Rightarrow> Inr (CLike x y))
          else Inl sql_operator_error)"

definition plan_pred :: "(string \<times> sql_ty) list \<Rightarrow> sql_pred \<Rightarrow> error + sql_cond" where
  "plan_pred schema p =
     (case p of
        PCmp o' a b \<Rightarrow> sbind (plan_operand schema a) (\<lambda>a'. sbind (plan_operand schema b) (plan_cmp o' a'))
      | PLike a b \<Rightarrow> sbind (plan_operand schema a) (\<lambda>a'. sbind (plan_operand schema b) (plan_like a')))"

subsection \<open>Evaluation on a row\<close>

text \<open>
  \<open>LIKE\<close>: \<open>%\<close> matches any text, \<open>_\<close> one character, a backslash makes the next
  character literal.
\<close>

fun like_match :: "string \<Rightarrow> string \<Rightarrow> bool" where
  "like_match [] t = (t = [])"
| "like_match (p # ps) t =
     (if p = CHR ''%'' then like_match ps t \<or> (case t of [] \<Rightarrow> False | _ # xs \<Rightarrow> like_match (p # ps) xs)
      else
        (case t of
           [] \<Rightarrow> False
         | x # xs \<Rightarrow>
             if p = CHR ''_'' then like_match ps xs
             else if p = CHR 0x5C then (case ps of [] \<Rightarrow> False | e # ps' \<Rightarrow> e = x \<and> like_match ps' xs)
             else p = x \<and> like_match ps xs))"

definition cmp_op :: "string \<Rightarrow> 'a::linorder \<Rightarrow> 'a \<Rightarrow> bool" where
  "cmp_op o' x y =
     (if o' = ''='' then x = y else if o' = ''<>'' \<or> o' = ''!='' then x \<noteq> y
      else if o' = ''<'' then x < y else if o' = ''>'' then x > y
      else if o' = ''<='' then x \<le> y else x \<ge> y)"

fun num_of :: "sql_val \<Rightarrow> rat" where
  "num_of (VNum q) = q"
| "num_of (VText s) = 0"

fun text_of :: "sql_val \<Rightarrow> string" where
  "text_of (VText s) = s"
| "text_of (VNum q) = []"

definition arg_val :: "('r \<Rightarrow> string \<Rightarrow> sql_val option) \<Rightarrow> 'r \<Rightarrow> sql_arg \<Rightarrow> sql_val option" where
  "arg_val rowv r a = (case a of ACol c \<Rightarrow> rowv r c | AConst v \<Rightarrow> Some v)"

text \<open>The value of a condition: \<open>None\<close> is unknown (an operand is NULL).\<close>

definition eval_cond :: "('r \<Rightarrow> string \<Rightarrow> sql_val option) \<Rightarrow> 'r \<Rightarrow> sql_cond \<Rightarrow> bool option" where
  "eval_cond rowv r c =
     (case c of
        CNum o' a b \<Rightarrow> (case (arg_val rowv r a, arg_val rowv r b) of
                          (Some x, Some y) \<Rightarrow> Some (cmp_op o' (num_of x) (num_of y)) | _ \<Rightarrow> None)
      | CText o' a b \<Rightarrow> (case (arg_val rowv r a, arg_val rowv r b) of
                          (Some x, Some y) \<Rightarrow> Some (cmp_op o' (text_of x) (text_of y)) | _ \<Rightarrow> None)
      | CLike a b \<Rightarrow> (case (arg_val rowv r a, arg_val rowv r b) of
                          (Some x, Some y) \<Rightarrow> Some (like_match (text_of y) (text_of x)) | _ \<Rightarrow> None))"

definition sql_and :: "bool option list \<Rightarrow> bool option" where
  "sql_and xs =
     (if Some False \<in> set xs then Some False else if list_all (\<lambda>x. x = Some True) xs then Some True else None)"

definition sql_or :: "bool option list \<Rightarrow> bool option" where
  "sql_or xs =
     (if Some True \<in> set xs then Some True else if list_all (\<lambda>x. x = Some False) xs then Some False else None)"

definition eval_where :: "('r \<Rightarrow> string \<Rightarrow> sql_val option) \<Rightarrow> 'r \<Rightarrow> sql_cond list list \<Rightarrow> bool option" where
  "eval_where rowv r qss = sql_or (map (\<lambda>qs. sql_and (map (eval_cond rowv r) qs)) qss)"

text \<open>\<open>SELECT ... FROM t WHERE clause\<close>: the rows for which the clause is true, in table order.\<close>

definition pg_select_where ::
  "(string \<times> sql_ty) list \<Rightarrow> ('r \<Rightarrow> string \<Rightarrow> sql_val option) \<Rightarrow> string \<Rightarrow> 'r list \<Rightarrow> error + 'r list" where
  "pg_select_where schema rowv clause tbl =
     (case sql_lex clause of
        None \<Rightarrow> Inl sql_syntax_error
      | Some ts \<Rightarrow>
          (case parse_where ts of
             None \<Rightarrow> Inl sql_syntax_error
           | Some ps \<Rightarrow>
               sbind (map_sum (map_sum (plan_pred schema)) ps) (\<lambda>qss.
                 Inr (filter (\<lambda>r. eval_where rowv r qss = Some True) tbl))))"

subsection \<open>The two tables\<close>

definition company_schema :: "(string \<times> sql_ty) list" where
  "company_schema = [(''handle'', TyText), (''name'', TyText), (''description'', TyText),
                     (''num_employees'', TyInt), (''logo_url'', TyText)]"

definition company_row :: "company \<Rightarrow> string \<Rightarrow> sql_val option" where
  "company_row c col =
     (if col = ''handle'' then Some (VText (handle c))
      else if col = ''name'' then Some (VText (name c))
      else if col = ''description'' then Some (VText (description c))
      else if col = ''num_employees'' then map_option (\<lambda>n. VNum (of_int n)) (num_employees c)
      else map_option VText (logo_url c))"

definition job_schema :: "(string \<times> sql_ty) list" where
  "job_schema = [(''id'', TyInt), (''title'', TyText), (''salary'', TyInt), (''equity'', TyNumeric),
                 (''company_handle'', TyText)]"

definition job_row :: "job \<Rightarrow> string \<Rightarrow> sql_val option" where
  "job_row j col =
     (if col = ''id'' then Some (VNum (of_int (id' j)))
      else if col = ''title'' then Some (VText (title j))
      else if col = ''salary'' then map_option (\<lambda>n. VNum (of_int n)) (salary j)
      else if col = ''equity'' then map_option VNum (equity j)
      else Some (VText (company_handle j)))"


section \<open>Lemmas on the WHERE clause\<close>

declare sql_lex.simps [simp del]

lemma sql_lex_Nil [simp]: "sql_lex [] = Some []"
  by (simp add: sql_lex.simps)

lemma sql_lex_token:
  "lex_token s = Some (Some t, r) \<Longrightarrow> sql_lex s = map_option (Cons t) (sql_lex r)"
  by (subst sql_lex.simps) (auto simp: lex_token_def)

lemma sql_lex_skip: "lex_token s = Some (None, r) \<Longrightarrow> sql_lex s = sql_lex r"
  by (subst sql_lex.simps) (auto simp: lex_token_def)

text \<open>The text that may follow a token without joining it: nothing, or white space.\<close>

definition sep_ok :: "string \<Rightarrow> bool" where
  "sep_ok rest \<longleftrightarrow> rest = [] \<or> is_sql_space (hd rest)"

lemma lex_string_plain:
  assumes "sq \<notin> set u" and "rest = [] \<or> hd rest \<noteq> sq"
  shows "lex_string (u @ sq # rest) = Some (u, rest)"
  using assms by (induction u) (auto split: list.split)

lemma space_not_digit: "is_sql_space c \<Longrightarrow> \<not> is_digit c \<and> \<not> is_ident_char c \<and> c \<noteq> CHR ''.''"
  by (auto simp: is_sql_space_def is_digit_def is_ident_char_def is_ident_start_def is_letter_def)

lemma lex_number_nat:
  assumes "sep_ok rest"
  shows "lex_number (string_of_nat n @ rest) = Some (of_nat n, rest)"
proof (cases rest)
  case Nil
  then show ?thesis
    by (simp add: lex_number_def takeWhile_digits_all dropWhile_digits_all string_of_nat_digits)
next
  case (Cons c r)
  then have "is_sql_space c"
    using assms by (simp add: sep_ok_def)
  then show ?thesis
    using space_not_digit [of c] Cons
    by (simp add: lex_number_def takeWhile_digits_append dropWhile_digits_append)
qed

lemma sql_lex_Cons:
  "sql_lex (c # cs) =
     (case lex_token (c # cs) of
        None \<Rightarrow> None
      | Some (None, r) \<Rightarrow> sql_lex r
      | Some (Some t, r) \<Rightarrow> map_option (Cons t) (sql_lex r))"
  by (subst sql_lex.simps) simp

lemma lex_string_append:
  "sq \<notin> set s \<Longrightarrow> lex_string (s @ r) = map_option (\<lambda>(t, r'). (s @ t, r')) (lex_string r)"
  by (induction s) (auto simp: option.map_comp comp_def case_prod_unfold option.map_ident)

lemma space_facts:
  "is_sql_space c \<Longrightarrow> c \<noteq> sq \<and> \<not> is_ident_char c \<and> \<not> is_digit c \<and> c \<noteq> CHR ''.'' \<and> c \<noteq> CHR ''%''"
  by (auto simp: is_sql_space_def is_digit_def is_ident_char_def is_ident_start_def is_letter_def)

lemmas lex_eval_simps = sql_lex_Cons lex_token_def is_sql_space_def is_ident_start_def is_letter_def
  is_ident_char_def word_token_def ci_eq_def ci_char_def lex_op_def is_digit_def option.map_comp comp_def

lemma sql_lex_word:
  assumes "w \<noteq> []" and "is_ident_start (hd w)" and "list_all is_ident_char w" and "sep_ok rest"
  shows "sql_lex (w @ rest) = map_option (Cons (word_token w)) (sql_lex rest)"
proof -
  obtain c cs where w: "w = c # cs"
    using assms(1) by (cases w) auto
  have "takeWhile is_ident_char rest = [] \<and> dropWhile is_ident_char rest = rest"
    using assms(4) space_facts by (cases rest) (auto simp: sep_ok_def)
  then have "takeWhile is_ident_char (cs @ rest) = cs" and "dropWhile is_ident_char (cs @ rest) = rest"
    using assms(3) w by (simp_all add: list_all_iff takeWhile_append2 dropWhile_append2)
  moreover have "\<not> is_sql_space c" and "c \<noteq> CHR ''-''"
    using assms(2) w by (auto simp: is_sql_space_def is_ident_start_def is_letter_def)
  ultimately have "lex_token (w @ rest) = Some (Some (word_token w), rest)"
    using assms(2) w by (simp add: lex_token_def)
  then show ?thesis
    by (rule sql_lex_token)
qed

text \<open>A column name the lexer reads as one identifier.\<close>

definition plain_ident :: "string \<Rightarrow> bool" where
  "plain_ident w \<longleftrightarrow> w \<noteq> [] \<and> is_ident_start (hd w) \<and> list_all is_ident_char w
     \<and> word_token w = TkIdent w"

lemma lex_like_frag:
  assumes "plain_ident col" and "sq \<notin> set s" and "sep_ok rest"
  shows "sql_lex (col @ '' LIKE '' @ sq # CHR ''%'' # s @ CHR ''%'' # sq # rest)
           = map_option (\<lambda>ts. [TkIdent col, TkLike, TkStr (CHR ''%'' # s @ ''%'')] @ ts) (sql_lex rest)"
proof -
  have str: "lex_string (s @ CHR ''%'' # sq # rest) = Some (s @ ''%'', rest)"
  proof (cases rest)
    case Nil
    then show ?thesis using assms(2) by (simp add: lex_string_append)
  next
    case (Cons c r)
    then have "c \<noteq> sq" using assms(3) space_facts by (simp add: sep_ok_def)
    then show ?thesis using assms(2) Cons by (simp add: lex_string_append)
  qed
  have "sep_ok ('' LIKE '' @ sq # CHR ''%'' # s @ CHR ''%'' # sq # rest)"
    by (simp add: sep_ok_def is_sql_space_def)
  then show ?thesis
    using sql_lex_word [of col] assms(1) by (simp add: plain_ident_def lex_eval_simps str)
qed

lemma digit_facts:
  "is_digit d \<Longrightarrow> \<not> is_sql_space d \<and> d \<noteq> CHR ''-'' \<and> \<not> is_ident_start d \<and> d \<noteq> sq"
  by (auto simp: is_sql_space_def is_digit_def is_ident_start_def is_letter_def)

lemma lex_token_nat:
  assumes "sep_ok rest"
  shows "lex_token (string_of_nat n @ rest) = Some (Some (TkNum (of_nat n)), rest)"
proof -
  obtain d ds where ds: "string_of_nat n = d # ds"
    by (cases "string_of_nat n") auto
  then have "is_digit d"
    using string_of_nat_digits [of d n] by simp
  then show ?thesis
    using lex_number_nat [OF assms, of n] digit_facts [of d] ds by (simp add: lex_token_def)
qed

definition int_toks :: "int \<Rightarrow> sql_tok list" where
  "int_toks m = (if m < 0 then [TkMinus, TkNum (of_int (- m))] else [TkNum (of_int m)])"

lemma sql_lex_int:
  assumes "sep_ok rest"
  shows "sql_lex (string_of_int m @ rest) = map_option (\<lambda>ts. int_toks m @ ts) (sql_lex rest)"
proof -
  obtain d ds where ds: "string_of_nat (nat \<bar>m\<bar>) = d # ds"
    by (cases "string_of_nat (nat \<bar>m\<bar>)") auto
  then have d: "is_digit d"
    using string_of_nat_digits [of d "nat \<bar>m\<bar>"] by simp
  have nat: "sql_lex (string_of_nat (nat \<bar>m\<bar>) @ rest) = map_option (Cons (TkNum (of_int \<bar>m\<bar>))) (sql_lex rest)"
    using sql_lex_token [OF lex_token_nat [OF assms]] by simp
  show ?thesis
  proof (cases "m < 0")
    case True
    have minus: "\<not> is_sql_space CHR ''-'' \<and> \<not> is_ident_start CHR ''-'' \<and> \<not> is_digit CHR ''-''"
      by (simp add: is_sql_space_def is_ident_start_def is_letter_def is_digit_def)
    have "lex_token (string_of_int m @ rest) = Some (Some TkMinus, string_of_nat (nat \<bar>m\<bar>) @ rest)"
      using True ds d digit_facts [of d] minus by (simp add: string_of_int_def lex_token_def)
    then show ?thesis
      using sql_lex_token nat True by (simp add: int_toks_def option.map_comp comp_def)
  next
    case False
    then show ?thesis
      using nat by (simp add: string_of_int_def int_toks_def option.map_comp comp_def)
  qed
qed

lemma lex_cmp_frag:
  assumes "plain_ident col" and "o' \<in> {''>='', ''<='', ''>''}" and "sep_ok rest"
  shows "sql_lex (col @ CHR '' '' # o' @ CHR '' '' # string_of_int m @ rest)
           = map_option (\<lambda>ts. [TkIdent col, TkOp o'] @ int_toks m @ ts) (sql_lex rest)"
proof -
  have "sep_ok (CHR '' '' # o' @ CHR '' '' # string_of_int m @ rest)"
    by (simp add: sep_ok_def is_sql_space_def)
  then show ?thesis
    using sql_lex_word [of col] assms sql_lex_int [OF assms(3), of m]
    by (auto simp: plain_ident_def lex_eval_simps)
qed

text \<open>A comparison whose right side is a word, and the value \<open>parseInt\<close> gives a word.\<close>

lemma lex_cmp_word:
  assumes "plain_ident col" and "plain_ident w" and "o' \<in> {''>='', ''<='', ''>''}" and "sep_ok rest"
  shows "sql_lex (col @ CHR '' '' # o' @ CHR '' '' # w @ rest)
           = map_option (\<lambda>ts. [TkIdent col, TkOp o', TkIdent w] @ ts) (sql_lex rest)"
proof -
  have "sep_ok (CHR '' '' # o' @ CHR '' '' # w @ rest)"
    by (simp add: sep_ok_def is_sql_space_def)
  then show ?thesis
    using sql_lex_word [of col] sql_lex_word [of w] assms
    by (auto simp: plain_ident_def lex_eval_simps)
qed

lemma parseInt_ident:
  assumes "w \<noteq> []" and "is_ident_start (hd w)"
  shows "parseInt (JStr w) = None"
proof -
  obtain c cs where w: "w = c # cs"
    using assms(1) by (cases w) auto
  have c: "is_letter c \<or> c = CHR ''_''"
    using assms(2) w by (simp add: is_ident_start_def)
  have "\<not> is_js_space c" and "c \<noteq> CHR ''-''" and "c \<noteq> CHR ''+''" and "c \<noteq> CHR ''0''"
    using c by (auto simp: is_js_space_def is_letter_def)
  moreover have "radix_digit 10 c = None"
    using c by (auto simp: radix_digit_def is_letter_def Let_def)
  ultimately show ?thesis
    using w by (cases cs) (simp_all add: parseInt_def parse_sign_def parse_radix_prefix_def Let_def)
qed

fun sep_join :: "'a \<Rightarrow> 'a list list \<Rightarrow> 'a list" where
  "sep_join x [] = []"
| "sep_join x [g] = g"
| "sep_join x (g # g' # gs) = g @ x # sep_join x (g' # gs)"

lemma sql_lex_and: "sql_lex ('' AND '' @ r) = map_option (Cons TkAnd) (sql_lex r)"
  by (simp add: lex_eval_simps)

lemma sep_ok_and: "sep_ok ('' AND '' @ r)"
  by (simp add: sep_ok_def is_sql_space_def)

lemma sql_lex_join:
  assumes "fs \<noteq> []"
    and "list_all2 (\<lambda>f ts. \<forall>rest. sep_ok rest \<longrightarrow> sql_lex (f @ rest) = map_option (\<lambda>x. ts @ x) (sql_lex rest)) fs tss"
  shows "sql_lex (js_join '' AND '' (map JStr fs)) = Some (sep_join TkAnd tss)"
  using assms
proof (induction fs arbitrary: tss rule: induct_list012)
  case 1
  then show ?case by simp
next
  case (2 f)
  then obtain ts where "tss = [ts]" and "sql_lex (f @ []) = map_option (\<lambda>x. ts @ x) (sql_lex [])"
    by (auto simp: list_all2_Cons1 sep_ok_def)
  then show ?case
    by (simp add: join_elem_def)
next
  case (3 f f' fs)
  from "3.prems"(2) obtain ts tss' where tss: "tss = ts # tss'"
    and hf: "\<forall>rest. sep_ok rest \<longrightarrow> sql_lex (f @ rest) = map_option (\<lambda>x. ts @ x) (sql_lex rest)"
    and rest: "list_all2 (\<lambda>f ts. \<forall>rest. sep_ok rest \<longrightarrow> sql_lex (f @ rest) = map_option (\<lambda>x. ts @ x) (sql_lex rest)) (f' # fs) tss'"
    by (auto simp: list_all2_Cons1)
  obtain ts' tss'' where tss': "tss' = ts' # tss''"
    using rest by (cases tss') auto
  have f: "sql_lex (f @ '' AND '' @ js_join '' AND '' (map JStr (f' # fs)))
             = map_option (\<lambda>x. ts @ x) (sql_lex ('' AND '' @ js_join '' AND '' (map JStr (f' # fs))))"
    using hf sep_ok_and by blast
  have "js_join '' AND '' (map JStr (f # f' # fs)) = f @ '' AND '' @ js_join '' AND '' (map JStr (f' # fs))"
    by (simp add: join_elem_def)
  with "3.IH"(2) [OF _ rest] f tss tss' show ?case
    by (simp only: sql_lex_and) (simp add: option.map_comp comp_def)
qed

lemma split_on_absent: "x \<notin> set ts \<Longrightarrow> split_on x ts = [ts]"
  by (induction ts) auto

lemma split_on_intersperse:
  "gs \<noteq> [] \<Longrightarrow> list_all (\<lambda>g. x \<notin> set g) gs \<Longrightarrow> split_on x (sep_join x gs) = gs"
proof (induction gs rule: induct_list012)
  case (2 g)
  then show ?case by (simp add: split_on_absent)
next
  case (3 g g' gs)
  have "split_on x (g @ x # zs) = g # split_on x zs" if "x \<notin> set g" for zs
    using that by (induction g) auto
  with 3 show ?case
    by simp
qed simp

lemma those_map_Some: "list_all2 (\<lambda>x y. f x = Some y) xs ys \<Longrightarrow> those (map f xs) = Some ys"
  by (induction xs ys rule: list_all2_induct) auto

lemma map_sum_all2: "list_all2 (\<lambda>x y. f x = Inr y) xs ys \<Longrightarrow> map_sum f xs = Inr ys"
  by (induction xs ys rule: list_all2_induct) auto

lemma sql_and_True: "sql_and xs = Some True \<longleftrightarrow> list_all (\<lambda>x. x = Some True) xs"
  by (auto simp: sql_and_def list_all_iff)

lemma sql_or_single: "sql_or [x] = x"
  by (cases x) (auto simp: sql_or_def)

lemma pg_select_where_conj:
  assumes "fs \<noteq> []"
    and lex: "list_all2 (\<lambda>f ts. \<forall>rest. sep_ok rest \<longrightarrow> sql_lex (f @ rest) = map_option (\<lambda>x. ts @ x) (sql_lex rest)) fs tss"
    and sep: "list_all (\<lambda>ts. TkAnd \<notin> set ts \<and> TkOr \<notin> set ts) tss"
    and plan: "list_all2 (\<lambda>ts q. \<exists>p. parse_pred ts = Some p \<and> plan_pred schema p = Inr q) tss qs"
  shows "pg_select_where schema rowv (js_join '' AND '' (map JStr fs)) tbl
           = Inr (filter (\<lambda>r. list_all (\<lambda>q. eval_cond rowv r q = Some True) qs) tbl)"
proof -
  have ne: "tss \<noteq> []"
    using assms(1) lex by (cases tss) auto
  have nor: "TkOr \<notin> set (sep_join TkAnd tss)"
  proof -
    have "set (sep_join TkAnd gs) \<subseteq> insert TkAnd (\<Union>g \<in> set gs. set g)" for gs :: "sql_tok list list"
      by (induction gs rule: sep_join.induct) auto
    then show ?thesis
      using sep by (fastforce simp: list_all_iff)
  qed
  obtain ps where ps: "list_all2 (\<lambda>ts p. parse_pred ts = Some p) tss ps"
    and pq: "list_all2 (\<lambda>p q. plan_pred schema p = Inr q) ps qs"
  proof -
    have "\<exists>ps. list_all2 (\<lambda>ts p. parse_pred ts = Some p) tss ps \<and> list_all2 (\<lambda>p q. plan_pred schema p = Inr q) ps qs"
      using plan
    proof (induction tss qs rule: list_all2_induct)
      case (Cons ts tss q qs)
      then obtain p ps where "parse_pred ts = Some p" "plan_pred schema p = Inr q"
        "list_all2 (\<lambda>ts p. parse_pred ts = Some p) tss ps"
        "list_all2 (\<lambda>p q. plan_pred schema p = Inr q) ps qs"
        by blast
      then show ?case by (intro exI [of _ "p # ps"]) simp
    qed simp
    then show ?thesis using that by blast
  qed
  have parse: "parse_where (sep_join TkAnd tss) = Some [ps]"
    using split_on_absent [OF nor] split_on_intersperse [OF ne, of TkAnd] sep those_map_Some [OF ps]
    by (simp add: parse_where_def list_all_iff)
  have "map_sum (map_sum (plan_pred schema)) [ps] = Inr [qs]"
    using map_sum_all2 [OF pq] by simp
  then show ?thesis
    using sql_lex_join [OF assms(1) lex] parse
    by (simp add: pg_select_where_def eval_where_def sql_or_single sql_and_True list_all_length)
qed

text \<open>
  The interface the filter builders use: a clause made of one fragment per entry, joined
  with \<open>AND\<close>, selects the rows that satisfy every entry's predicate, when each fragment
  reads as one comparison whose value on a row is true exactly when the predicate holds.
\<close>

lemma list_all2_choice: "\<forall>x \<in> set xs. \<exists>y. P x y \<Longrightarrow> \<exists>ys. list_all2 P xs ys"
proof (induction xs)
  case (Cons x xs)
  then obtain y ys where "P x y" and "list_all2 P xs ys"
    by auto
  then show ?case
    by (intro exI [of _ "y # ys"]) simp
qed (auto intro: exI [of _ "[]"])

lemma pg_select_where_entries:
  assumes "xs \<noteq> []"
    and frag: "\<forall>x \<in> set xs. \<exists>ts q.
       (\<forall>rest. sep_ok rest \<longrightarrow> sql_lex (frag x @ rest) = map_option (\<lambda>y. ts @ y) (sql_lex rest))
       \<and> TkAnd \<notin> set ts \<and> TkOr \<notin> set ts
       \<and> (\<exists>p. parse_pred ts = Some p \<and> plan_pred schema p = Inr q)
       \<and> (\<forall>r. eval_cond rowv r q = Some True \<longleftrightarrow> P x r)"
  shows "pg_select_where schema rowv (js_join '' AND '' (map (\<lambda>x. JStr (frag x)) xs)) tbl
           = Inr (filter (\<lambda>r. list_all (\<lambda>x. P x r) xs) tbl)"
proof -
  define Q where "Q x tq \<longleftrightarrow>
       (\<forall>rest. sep_ok rest \<longrightarrow> sql_lex (frag x @ rest) = map_option (\<lambda>y. fst tq @ y) (sql_lex rest))
       \<and> TkAnd \<notin> set (fst tq) \<and> TkOr \<notin> set (fst tq)
       \<and> (\<exists>p. parse_pred (fst tq) = Some p \<and> plan_pred schema p = Inr (snd tq))
       \<and> (\<forall>r. eval_cond rowv r (snd tq) = Some True \<longleftrightarrow> P x r)" for x tq
  have "\<forall>x \<in> set xs. \<exists>tq. Q x tq"
  proof
    fix x
    assume "x \<in> set xs"
    with frag obtain ts q where
      "(\<forall>rest. sep_ok rest \<longrightarrow> sql_lex (frag x @ rest) = map_option (\<lambda>y. ts @ y) (sql_lex rest))
       \<and> TkAnd \<notin> set ts \<and> TkOr \<notin> set ts
       \<and> (\<exists>p. parse_pred ts = Some p \<and> plan_pred schema p = Inr q)
       \<and> (\<forall>r. eval_cond rowv r q = Some True \<longleftrightarrow> P x r)"
      by blast
    then have "Q x (ts, q)"
      by (simp add: Q_def)
    then show "\<exists>tq. Q x tq" ..
  qed
  then obtain tqs where tqs: "list_all2 Q xs tqs"
    using list_all2_choice by blast
  let ?tss = "map fst tqs" and ?qs = "map snd tqs"
  have len: "length tqs = length xs"
    using tqs by (simp add: list_all2_lengthD)
  have nth: "\<And>i. i < length xs \<Longrightarrow> Q (xs ! i) (tqs ! i)"
    using tqs by (simp add: list_all2_conv_all_nth)
  have sel: "pg_select_where schema rowv (js_join '' AND '' (map JStr (map frag xs))) tbl
               = Inr (filter (\<lambda>r. list_all (\<lambda>q. eval_cond rowv r q = Some True) ?qs) tbl)"
  proof (rule pg_select_where_conj)
    show "map frag xs \<noteq> []" using assms(1) by simp
    show "list_all2 (\<lambda>f ts. \<forall>rest. sep_ok rest \<longrightarrow> sql_lex (f @ rest) = map_option (\<lambda>x. ts @ x) (sql_lex rest))
            (map frag xs) ?tss"
      using nth len by (simp add: list_all2_conv_all_nth Q_def)
    show "list_all (\<lambda>ts. TkAnd \<notin> set ts \<and> TkOr \<notin> set ts) ?tss"
      using nth len by (simp add: list_all_length Q_def)
    show "list_all2 (\<lambda>ts q. \<exists>p. parse_pred ts = Some p \<and> plan_pred schema p = Inr q) ?tss ?qs"
      using nth len by (simp add: list_all2_conv_all_nth Q_def)
  qed
  have "list_all (\<lambda>q. eval_cond rowv r q = Some True) ?qs \<longleftrightarrow> list_all (\<lambda>x. P x r) xs" for r
    using nth len by (simp add: list_all_length Q_def)
  then show ?thesis
    using sel by (simp add: comp_def)
qed

subsection \<open>\<open>LIKE '%s%'\<close> is containment\<close>

definition like_plain :: "string \<Rightarrow> bool" where
  "like_plain s \<longleftrightarrow> list_all (\<lambda>c. c \<noteq> CHR ''%'' \<and> c \<noteq> CHR ''_'' \<and> c \<noteq> CHR 0x5C) s"

lemma like_match_pct_Nil: "like_match (CHR ''%'' # p) [] \<longleftrightarrow> like_match p []"
  by simp

lemma like_match_pct_Cons:
  "like_match (CHR ''%'' # p) (x # xs) \<longleftrightarrow> like_match p (x # xs) \<or> like_match (CHR ''%'' # p) xs"
  by simp

lemma like_match_percent:
  "like_match (CHR ''%'' # p) t \<longleftrightarrow> (\<exists>xs ys. t = xs @ ys \<and> like_match p ys)"
proof (induction t)
  case Nil
  show ?case by (simp only: like_match_pct_Nil) simp
next
  case (Cons x xs)
  have "(\<exists>us ys. x # xs = us @ ys \<and> like_match p ys)
          \<longleftrightarrow> like_match p (x # xs) \<or> (\<exists>us ys. xs = us @ ys \<and> like_match p ys)"
    by (auto simp: Cons_eq_append_conv intro: exI [of _ "[]"])
  then show ?case
    by (simp only: like_match_pct_Cons Cons.IH)
qed

lemma like_match_plain:
  "like_plain s \<Longrightarrow> like_match (s @ p) t \<longleftrightarrow> (\<exists>ys. t = s @ ys \<and> like_match p ys)"
proof (induction s arbitrary: t)
  case (Cons c s)
  then show ?case
    by (cases t) (auto simp: like_plain_def)
qed simp

lemma like_match_contains:
  assumes "like_plain s"
  shows "like_match (CHR ''%'' # s @ ''%'') t \<longleftrightarrow> sublist s t"
proof -
  have any: "like_match ''%'' u" for u
    using like_match_percent [of "[]" u] by simp
  show ?thesis
    unfolding like_match_percent like_match_plain [OF assms]
    using any by (auto simp: sublist_def)
qed



lemma like_match_any [simp]: "like_match ''%'' t"
  using like_match_percent [of "[]" t] by simp

declare like_match.simps(2) [simp del]

end
