(* ===== verification/FilterQuery.thy ===== *)
theory FilterQuery
  imports SqlWhere
begin

text \<open>
  The queries \<open>filterCompany\<close> and \<open>filterJobs\<close> build: one WHERE fragment per key
  of the query object, \<open>col LIKE '%s%'\<close> or \<open>col op n\<close>, joined by \<open>" AND "\<close>. The
  lemmas here lex, parse, plan and evaluate each kind of fragment once, for any column of
  any schema, and \<open>filter_query_entries\<close> lifts them to the whole clause, so that each
  filter's refinement proof only shows that every entry of its query has a fragment.
\<close>

subsection \<open>Fragments of a filter clause\<close>

lemma parse_operand_int_toks: "parse_operand (int_toks m) = Some (ONum (of_int m))"
  by (simp add: int_toks_def)

lemma escape_ok_plain: "list_all (\<lambda>c. c \<noteq> CHR 0x5C) p \<Longrightarrow> escape_ok p"
  by (induction p rule: escape_ok.induct) auto

lemma int_toks_no_sep: "TkAnd \<notin> set (int_toks m) \<and> TkOr \<notin> set (int_toks m)"
  by (simp add: int_toks_def)

lemma cmp_frag_cond:
  assumes "plain_ident col" and "o' \<in> {''>='', ''<='', ''>''}" and "col_lookup schema col = Some (col, ty)"
    and "is_num_ty ty"
  shows "parse_pred ([TkIdent col, TkOp o'] @ int_toks m) = Some (PCmp o' (OCol col) (ONum (of_int m)))
         \<and> plan_pred schema (PCmp o' (OCol col) (ONum (of_int m)))
             = Inr (CNum o' (ACol col) (AConst (VNum (of_int m))))"
  using assms by (simp add: parse_pred_def is_cmp_tok_def parse_operand_int_toks plan_pred_def
                            plan_operand_def plan_cmp_def is_num_ty_def)

lemma like_frag_cond:
  assumes "col_lookup schema col = Some (col, TyText)" and "like_plain s"
  shows "parse_pred [TkIdent col, TkLike, TkStr (CHR ''%'' # s @ ''%'')]
           = Some (PLike (OCol col) (OStr (CHR ''%'' # s @ ''%'')))
         \<and> plan_pred schema (PLike (OCol col) (OStr (CHR ''%'' # s @ ''%'')))
             = Inr (CLike (ACol col) (AConst (VText (CHR ''%'' # s @ ''%''))))"
proof -
  have "escape_ok (CHR ''%'' # s @ ''%'')"
    using assms(2) by (intro escape_ok_plain) (simp add: like_plain_def list_all_iff)
  then show ?thesis
    using assms(1) by (simp add: parse_pred_def is_cmp_tok_def plan_pred_def plan_operand_def plan_like_def)
qed

text \<open>
  The two kinds of fragment the filter builders write, each read as one condition whose
  value on a row is characterised by the row's value of the column.
\<close>

lemma like_entry:
  assumes "plain_ident col" and "col_lookup schema col = Some (col, TyText)"
    and "sq \<notin> set s" and "like_plain s"
  shows "\<exists>ts q.
       (\<forall>rest. sep_ok rest \<longrightarrow> sql_lex ((col @ '' LIKE '' @ sq # CHR ''%'' # s @ [CHR ''%'', sq]) @ rest)
                                = map_option (\<lambda>y. ts @ y) (sql_lex rest))
       \<and> TkAnd \<notin> set ts \<and> TkOr \<notin> set ts
       \<and> (\<exists>p. parse_pred ts = Some p \<and> plan_pred schema p = Inr q)
       \<and> (\<forall>r. eval_cond rowv r q = Some True \<longleftrightarrow>
              (case rowv r col of Some x \<Rightarrow> sublist s (text_of x) | None \<Rightarrow> False))"
proof (intro exI conjI allI impI)
  fix rest :: string
  assume "sep_ok rest"
  then show "sql_lex ((col @ '' LIKE '' @ sq # CHR ''%'' # s @ [CHR ''%'', sq]) @ rest)
               = map_option (\<lambda>y. [TkIdent col, TkLike, TkStr (CHR ''%'' # s @ ''%'')] @ y) (sql_lex rest)"
    using lex_like_frag [OF assms(1,3)] by simp
next
  show "parse_pred [TkIdent col, TkLike, TkStr (CHR ''%'' # s @ ''%'')]
          = Some (PLike (OCol col) (OStr (CHR ''%'' # s @ ''%'')))"
    using like_frag_cond [OF assms(2,4)] by simp
  show "plan_pred schema (PLike (OCol col) (OStr (CHR ''%'' # s @ ''%'')))
          = Inr (CLike (ACol col) (AConst (VText (CHR ''%'' # s @ ''%''))))"
    using like_frag_cond [OF assms(2,4)] by simp
next
  fix r
  show "eval_cond rowv r (CLike (ACol col) (AConst (VText (CHR ''%'' # s @ ''%'')))) = Some True
          \<longleftrightarrow> (case rowv r col of Some x \<Rightarrow> sublist s (text_of x) | None \<Rightarrow> False)"
    using like_match_contains [OF assms(4)]
    by (simp add: eval_cond_def arg_val_def split: option.split)
qed simp_all

lemma cmp_entry:
  assumes "plain_ident col" and "o' \<in> {''>='', ''<='', ''>''}" and "col_lookup schema col = Some (col, ty)"
    and "is_num_ty ty"
  shows "\<exists>ts q.
       (\<forall>rest. sep_ok rest \<longrightarrow> sql_lex ((col @ CHR '' '' # o' @ CHR '' '' # string_of_int m) @ rest)
                                = map_option (\<lambda>y. ts @ y) (sql_lex rest))
       \<and> TkAnd \<notin> set ts \<and> TkOr \<notin> set ts
       \<and> (\<exists>p. parse_pred ts = Some p \<and> plan_pred schema p = Inr q)
       \<and> (\<forall>r. eval_cond rowv r q = Some True \<longleftrightarrow>
              (case rowv r col of Some x \<Rightarrow> cmp_op o' (num_of x) (of_int m) | None \<Rightarrow> False))"
proof (intro exI conjI allI impI)
  fix rest :: string
  assume "sep_ok rest"
  then show "sql_lex ((col @ CHR '' '' # o' @ CHR '' '' # string_of_int m) @ rest)
               = map_option (\<lambda>y. ([TkIdent col, TkOp o'] @ int_toks m) @ y) (sql_lex rest)"
    using lex_cmp_frag [OF assms(1,2)] by simp
next
  show "parse_pred ([TkIdent col, TkOp o'] @ int_toks m) = Some (PCmp o' (OCol col) (ONum (of_int m)))"
    using cmp_frag_cond [OF assms] by simp
  show "plan_pred schema (PCmp o' (OCol col) (ONum (of_int m)))
          = Inr (CNum o' (ACol col) (AConst (VNum (of_int m))))"
    using cmp_frag_cond [OF assms] by simp
next
  fix r
  show "eval_cond rowv r (CNum o' (ACol col) (AConst (VNum (of_int m)))) = Some True
          \<longleftrightarrow> (case rowv r col of Some x \<Rightarrow> cmp_op o' (num_of x) (of_int m) | None \<Rightarrow> False)"
    by (simp add: eval_cond_def arg_val_def split: option.split)
qed (simp_all add: int_toks_no_sep)

lemma sql_or_True: "Some True \<in> set xs \<Longrightarrow> sql_or xs = Some True"
  by (simp add: sql_or_def)

lemma sql_and_single: "sql_and [x] = x"
  by (cases x) (auto simp: sql_and_def)

lemmas clause_eval_simps = lex_eval_simps pg_select_where_def parse_where_def parse_pred_def is_cmp_tok_def
  plan_pred_def plan_operand_def col_lookup_def plan_cmp_def plan_like_def is_num_ty_def
  lex_number_def nat_of_digits_def digit_value_def sql_syntax_error_def

lemmas filter_eval_simps = clause_eval_simps eval_where_def sql_or_def sql_and_def eval_cond_def arg_val_def
  cmp_op_def like_match.simps


text \<open>
  The clause of a filter method: the callback \<open>cl\<close> maps each key of the query to its
  fragment (\<open>None\<close> for \<open>undefined\<close>), reading the value by the key only. When every
  entry of a non-empty query has a fragment that lexes, parses and plans to a condition
  holding of exactly the rows that satisfy \<open>P\<close> for the entry, the SELECT returns the rows
  satisfying \<open>P\<close> for every entry, in table order.
\<close>

lemma filter_query_entries:
  assumes ne: "filters \<noteq> []" and wf: "js_obj_wf filters"
    and get: "\<And>k. cl filters k = cl [(k, js_get filters k)] k"
    and frag: "\<forall>(k, v) \<in> set filters. cl [(k, v)] k = Some (frag (k, v)) \<and> (\<exists>ts q.
       (\<forall>rest. sep_ok rest \<longrightarrow> sql_lex (frag (k, v) @ rest) = map_option (\<lambda>y. ts @ y) (sql_lex rest))
       \<and> TkAnd \<notin> set ts \<and> TkOr \<notin> set ts
       \<and> (\<exists>p. parse_pred ts = Some p \<and> plan_pred schema p = Inr q)
       \<and> (\<forall>r. eval_cond rowv r q = Some True \<longleftrightarrow> P (k, v) r))"
  shows "pg_select_where schema rowv
           (js_join '' AND '' (map (\<lambda>key. case cl filters key of Some s \<Rightarrow> JStr s | None \<Rightarrow> JUndefined)
                                  (object_keys filters))) tbl
         = Inr (filter (\<lambda>r. list_all (\<lambda>x. P x r) filters) tbl)"
proof -
  have "cl filters k = Some (frag (k, v))" if "(k, v) \<in> set filters" for k v
  proof -
    have "js_get filters k = v"
      using that wf by (simp add: js_get_def js_obj_wf_def)
    then show ?thesis
      using get [of k] frag that by auto
  qed
  then have "map (\<lambda>key. case cl filters key of Some s \<Rightarrow> JStr s | None \<Rightarrow> JUndefined) (object_keys filters)
               = map (\<lambda>x. JStr (frag x)) (own_entries filters)"
    by (auto simp: object_keys_def)
  moreover have "pg_select_where schema rowv (js_join '' AND '' (map (\<lambda>x. JStr (frag x)) (own_entries filters))) tbl
                   = Inr (filter (\<lambda>r. list_all (\<lambda>x. P x r) (own_entries filters)) tbl)"
  proof (rule pg_select_where_entries)
    show "own_entries filters \<noteq> []"
      using ne by (metis length_0_conv length_own_entries)
    show "\<forall>x \<in> set (own_entries filters). \<exists>ts q.
       (\<forall>rest. sep_ok rest \<longrightarrow> sql_lex (frag x @ rest) = map_option (\<lambda>y. ts @ y) (sql_lex rest))
       \<and> TkAnd \<notin> set ts \<and> TkOr \<notin> set ts
       \<and> (\<exists>p. parse_pred ts = Some p \<and> plan_pred schema p = Inr q)
       \<and> (\<forall>r. eval_cond rowv r q = Some True \<longleftrightarrow> P x r)"
      using frag by (simp only: set_own_entries) fast
  qed
  moreover have "list_all (\<lambda>x. P x r) (own_entries filters) = list_all (\<lambda>x. P x r) filters" for r
    by (simp add: list_all_iff)
  ultimately show ?thesis
    by simp
qed

text \<open>Evaluation of an object literal's keys and values, for the concrete queries.\<close>

lemmas object_eval_simps = Let_def object_keys_def own_entries_def is_array_index_def join_elem_def js_get_def

end
