(* ===== verification/CompanyFilter.thy ===== *)
theory CompanyFilter
  imports Company FilterQuery
begin

text \<open>
  \<open>Company.filterCompany\<close> (\<open>src/models/company.js\<close>): the range check on
  \<open>minEmployees\<close>/\<open>maxEmployees\<close> with \<open>parseInt\<close>, one WHERE fragment per key of the
  query object (the \<open>keys.map\<close> callback returns \<open>undefined\<close> for a key outside the
  allow-list: \<open>None\<close> here), the join with \<open>" AND "\<close>, and the SELECT, read by
  \<open>pg_select_where\<close>. \<open>company_matches\<close> is what the filter promises: the name contains
  the given text, the number of employees lies within the bounds.
\<close>

definition company_acceptedFilters :: "string list" where
  "company_acceptedFilters = [''name'', ''minEmployees'', ''maxEmployees'']"

definition company_filter_clause :: "jsval jsobj \<Rightarrow> string \<Rightarrow> string option" where
  "company_filter_clause filters key =
     (if key \<in> set company_acceptedFilters then
        Some (if key = ''name'' then ''name LIKE '' @ [sq, CHR ''%''] @ js_to_string (js_get filters key) @ [CHR ''%'', sq]
              else if key = ''minEmployees'' then ''num_employees >= '' @ js_to_string (js_get filters key)
              else ''num_employees <= '' @ js_to_string (js_get filters key))
      else None)"

definition filterCompany :: "jsval jsobj \<Rightarrow> db \<Rightarrow> error + company list" where
  "filterCompany filters st =
     (let keys = object_keys filters in
      if ''minEmployees'' \<in> set keys \<and> ''maxEmployees'' \<in> set keys
         \<and> js_num_gt (parseInt (js_get filters ''minEmployees'')) (parseInt (js_get filters ''maxEmployees''))
      then Inl (ExpressError ''minEmployees can't be greater than maxEmployees'' 400)
      else
        (let clauseList = map (\<lambda>key. case company_filter_clause filters key of
                                        Some s \<Rightarrow> JStr s | None \<Rightarrow> JUndefined) keys;
             clause = js_join '' AND '' clauseList
         in pg_select_where company_schema company_row clause (companies st)))"

subsection \<open>What the filter promises\<close>

fun company_match_entry :: "string \<times> jsval \<Rightarrow> company \<Rightarrow> bool" where
  "company_match_entry (k, v) c =
     (if k = ''name'' then sublist (js_to_string v) (name c)
      else if k = ''minEmployees'' then
        (case (num_employees c, parseInt v) of (Some n, Some m) \<Rightarrow> m \<le> n | _ \<Rightarrow> False)
      else if k = ''maxEmployees'' then
        (case (num_employees c, parseInt v) of (Some n, Some m) \<Rightarrow> n \<le> m | _ \<Rightarrow> False)
      else True)"

definition company_matches :: "jsval jsobj \<Rightarrow> company \<Rightarrow> bool" where
  "company_matches filters c = list_all (\<lambda>e. company_match_entry e c) filters"

text \<open>
  The queries for which the SQL text means what the code intends: every key is allowed,
  a name is free of quotes and of LIKE's special characters, a bound is the decimal text
  of the integer \<open>parseInt\<close> reads from it.
\<close>

fun company_entry_safe :: "string \<times> jsval \<Rightarrow> bool" where
  "company_entry_safe (k, v) =
     (if k = ''name'' then sq \<notin> set (js_to_string v) \<and> like_plain (js_to_string v)
      else if k = ''minEmployees'' \<or> k = ''maxEmployees'' then
        (case parseInt v of Some m \<Rightarrow> js_to_string v = string_of_int m | None \<Rightarrow> False)
      else False)"

definition company_filters_safe :: "jsval jsobj \<Rightarrow> bool" where
  "company_filters_safe filters \<longleftrightarrow>
     filters \<noteq> [] \<and> js_obj_wf filters \<and> list_all company_entry_safe filters"

subsection \<open>Lemmas on the filter clause\<close>

lemma company_cols:
  "plain_ident ''name'' \<and> plain_ident ''num_employees''
   \<and> col_lookup company_schema ''name'' = Some (''name'', TyText)
   \<and> col_lookup company_schema ''num_employees'' = Some (''num_employees'', TyInt)"
  by (simp add: plain_ident_def word_token_def ci_eq_def ci_char_def is_ident_start_def is_letter_def
                is_ident_char_def is_digit_def col_lookup_def company_schema_def)

text \<open>The fragment of one entry of the query, as the callback builds it.\<close>

definition company_fragment :: "string \<times> jsval \<Rightarrow> string" where
  "company_fragment e = (case company_filter_clause [e] (fst e) of Some s \<Rightarrow> s | None \<Rightarrow> [])"

lemma company_filter_clause_get:
  "company_filter_clause filters k = company_filter_clause [(k, js_get filters k)] k"
  by (cases "map_of filters k") (auto simp: company_filter_clause_def js_get_def)

lemma company_entry_frag:
  assumes "company_entry_safe (k, v)"
  shows "\<exists>ts q.
       (\<forall>rest. sep_ok rest \<longrightarrow> sql_lex (company_fragment (k, v) @ rest) = map_option (\<lambda>y. ts @ y) (sql_lex rest))
       \<and> TkAnd \<notin> set ts \<and> TkOr \<notin> set ts
       \<and> (\<exists>p. parse_pred ts = Some p \<and> plan_pred company_schema p = Inr q)
       \<and> (\<forall>c. eval_cond company_row c q = Some True \<longleftrightarrow> company_match_entry (k, v) c)"
proof -
  let ?s = "js_to_string v"
  consider (nm) "k = ''name''" | (mn) "k = ''minEmployees''" | (mx) "k = ''maxEmployees''"
    using assms by (auto split: if_splits)
  then show ?thesis
  proof cases
    case nm
    then have safe: "sq \<notin> set ?s" "like_plain ?s"
      using assms by auto
    have frag: "company_fragment (k, v) = ''name'' @ '' LIKE '' @ sq # CHR ''%'' # ?s @ [CHR ''%'', sq]"
      using nm by (simp add: company_fragment_def company_filter_clause_def company_acceptedFilters_def js_get_def)
    have row: "(case company_row c ''name'' of Some x \<Rightarrow> sublist ?s (text_of x) | None \<Rightarrow> False)
                 = company_match_entry (k, v) c" for c
      using nm by (simp add: company_row_def)
    show ?thesis
      using like_entry [of "''name''" company_schema ?s company_row] company_cols safe
      unfolding frag row by simp
  next
    case mn
    then obtain m where m: "parseInt v = Some m" and str: "?s = string_of_int m"
      using assms by (auto split: option.splits)
    have frag: "company_fragment (k, v) = ''num_employees'' @ CHR '' '' # ''>='' @ CHR '' '' # string_of_int m"
      using mn str by (simp add: company_fragment_def company_filter_clause_def company_acceptedFilters_def js_get_def)
    have row: "(case company_row c ''num_employees'' of Some x \<Rightarrow> cmp_op ''>='' (num_of x) (of_int m) | None \<Rightarrow> False)
                 = company_match_entry (k, v) c" for c
      using mn m by (cases "num_employees c") (simp_all add: company_row_def cmp_op_def)
    show ?thesis
      using cmp_entry [of "''num_employees''" "''>=''" company_schema TyInt m company_row] company_cols
      unfolding frag row by (simp add: is_num_ty_def)
  next
    case mx
    then obtain m where m: "parseInt v = Some m" and str: "?s = string_of_int m"
      using assms by (auto split: option.splits)
    have frag: "company_fragment (k, v) = ''num_employees'' @ CHR '' '' # ''<='' @ CHR '' '' # string_of_int m"
      using mx str by (simp add: company_fragment_def company_filter_clause_def company_acceptedFilters_def js_get_def)
    have row: "(case company_row c ''num_employees'' of Some x \<Rightarrow> cmp_op ''<='' (num_of x) (of_int m) | None \<Rightarrow> False)
                 = company_match_entry (k, v) c" for c
      using mx m by (cases "num_employees c") (simp_all add: company_row_def cmp_op_def)
    show ?thesis
      using cmp_entry [of "''num_employees''" "''<=''" company_schema TyInt m company_row] company_cols
      unfolding frag row by (simp add: is_num_ty_def)
  qed
qed

text \<open>
  The SELECT of a query of allowed keys with safe values returns the companies the
  abstract filter selects, in table order.
\<close>

lemma company_where_safe:
  assumes "company_filters_safe filters"
  shows "pg_select_where company_schema company_row
           (js_join '' AND '' (map (\<lambda>key. case company_filter_clause filters key of
                                          Some s \<Rightarrow> JStr s | None \<Rightarrow> JUndefined) (object_keys filters))) tbl
         = Inr (filter (company_matches filters) tbl)"
proof -
  have ne: "filters \<noteq> []" and wf: "js_obj_wf filters" and safe: "list_all company_entry_safe filters"
    using assms by (simp_all add: company_filters_safe_def)
  have "\<forall>(k, v) \<in> set filters. company_filter_clause [(k, v)] k = Some (company_fragment (k, v)) \<and> (\<exists>ts q.
       (\<forall>rest. sep_ok rest \<longrightarrow> sql_lex (company_fragment (k, v) @ rest) = map_option (\<lambda>y. ts @ y) (sql_lex rest))
       \<and> TkAnd \<notin> set ts \<and> TkOr \<notin> set ts
       \<and> (\<exists>p. parse_pred ts = Some p \<and> plan_pred company_schema p = Inr q)
       \<and> (\<forall>r. eval_cond company_row r q = Some True \<longleftrightarrow> company_match_entry (k, v) r))"
  proof (intro ballI, clarify)
    fix k v
    assume "(k, v) \<in> set filters"
    then have e: "company_entry_safe (k, v)"
      using safe by (simp add: list_all_iff del: company_entry_safe.simps)
    then have "k \<in> set company_acceptedFilters"
      by (auto simp: company_acceptedFilters_def split: if_splits)
    then show "company_filter_clause [(k, v)] k = Some (company_fragment (k, v)) \<and> (\<exists>ts q.
       (\<forall>rest. sep_ok rest \<longrightarrow> sql_lex (company_fragment (k, v) @ rest) = map_option (\<lambda>y. ts @ y) (sql_lex rest))
       \<and> TkAnd \<notin> set ts \<and> TkOr \<notin> set ts
       \<and> (\<exists>p. parse_pred ts = Some p \<and> plan_pred company_schema p = Inr q)
       \<and> (\<forall>r. eval_cond company_row r q = Some True \<longleftrightarrow> company_match_entry (k, v) r))"
      using company_entry_frag [OF e] by (auto simp: company_fragment_def company_filter_clause_def)
  qed
  from filter_query_entries [OF ne wf company_filter_clause_get this]
  show ?thesis
    by (simp add: company_matches_def [abs_def])
qed

text \<open>A permutation of a query keeps it safe and keeps what it asks for.\<close>

lemma company_filters_perm:
  assumes "company_filters_safe fs" and "mset fs' = mset fs"
  shows "company_filters_safe fs'" and "js_get fs' = js_get fs" and "set fs' = set fs"
    and "company_matches fs' = company_matches fs"
proof -
  have set: "set fs' = set fs"
    using assms(2) by (metis set_mset_mset)
  have "mset (map fst fs') = mset (map fst fs)"
    using assms(2) by simp
  then have "distinct (map fst fs') = distinct (map fst fs)"
    by (rule mset_eq_imp_distinct_iff)
  then have wf: "js_obj_wf fs'"
    using assms(1) by (simp add: company_filters_safe_def js_obj_wf_def)
  have "fs' \<noteq> []"
    using assms by (auto simp: company_filters_safe_def)
  then show "company_filters_safe fs'"
    using assms(1) wf set by (simp add: company_filters_safe_def list_all_iff)
  have "map_of fs' = map_of fs"
    using map_of_inject_set [of fs' fs] wf assms(1) set
    by (simp add: company_filters_safe_def js_obj_wf_def)
  then show "js_get fs' = js_get fs"
    by (simp add: js_get_def fun_eq_iff)
  show "set fs' = set fs" by (rule set)
  show "company_matches fs' = company_matches fs"
    using set by (simp add: company_matches_def list_all_iff fun_eq_iff)
qed

lemmas company_query_simps = filterCompany_def company_filter_clause_def company_acceptedFilters_def
  object_eval_simps

subsection \<open>Properties of \<open>filterCompany\<close>\<close>

text \<open>
  C23: \<open>filterCompany\<close> refines its promise. For a query whose keys are all allowed,
  whose name is free of quotes and LIKE wildcards and whose bounds are integers in decimal,
  the method raises the range error exactly when both bounds are given and the minimum
  exceeds the maximum, and otherwise returns the companies whose name contains the text
  and whose number of employees lies within the bounds, in table order. The comment
  above the check (\<open>company.js\<close>, "verify that minEmployees < maxEmployees otherwise
  return 400 BadRequestError") asks for more: equal bounds pass the code's \<open>>\<close> test and
  return the companies with exactly that many employees, and the error raised is an
  \<open>ExpressError\<close> with status 400, not a \<open>BadRequestError\<close>.
\<close>

theorem filterCompany_refines:
  assumes "company_filters_safe filters"
  shows "filterCompany filters st =
           (if ''minEmployees'' \<in> fst ` set filters \<and> ''maxEmployees'' \<in> fst ` set filters
               \<and> js_num_gt (parseInt (js_get filters ''minEmployees'')) (parseInt (js_get filters ''maxEmployees''))
            then Inl (ExpressError ''minEmployees can't be greater than maxEmployees'' 400)
            else Inr (filter (company_matches filters) (companies st)))"
  using company_where_safe [OF assms, of "companies st"] by (simp add: filterCompany_def Let_def)

theorem filterCompany_refines_witness:
  "company_filters_safe [(''name'', JStr ''C''), (''minEmployees'', JStr ''2'')] \<and>
   filterCompany [(''name'', JStr ''C''), (''minEmployees'', JStr ''2'')] test_db =
     (if ''minEmployees'' \<in> fst ` set [(''name'', JStr ''C''), (''minEmployees'', JStr ''2'')]
         \<and> ''maxEmployees'' \<in> fst ` set [(''name'', JStr ''C''), (''minEmployees'', JStr ''2'')]
         \<and> js_num_gt (parseInt (js_get [(''name'', JStr ''C''), (''minEmployees'', JStr ''2'')] ''minEmployees''))
             (parseInt (js_get [(''name'', JStr ''C''), (''minEmployees'', JStr ''2'')] ''maxEmployees''))
      then Inl (ExpressError ''minEmployees can't be greater than maxEmployees'' 400)
      else Inr (filter (company_matches [(''name'', JStr ''C''), (''minEmployees'', JStr ''2'')]) (companies test_db)))"
proof -
  have safe: "company_filters_safe [(''name'', JStr ''C''), (''minEmployees'', JStr ''2'')]"
    by (simp add: company_filters_safe_def js_obj_wf_def like_plain_def parseInt_def parse_sign_def
                  parse_radix_prefix_def is_js_space_def radix_digit_def radix_value_def string_of_int_def
                  string_of_nat.simps digit_char_def)
  show ?thesis
    using filterCompany_refines [OF safe, of test_db] safe by blast
qed

text \<open>
  C24: the range check. When the query has both bounds and \<open>parseInt\<close> reads the
  minimum as greater than the maximum, \<open>filterCompany\<close> raises
  \<open>ExpressError("minEmployees can't be greater than maxEmployees", 400)\<close> on every store,
  before any SQL is sent (the specification's \<open>InvalidRange\<close>).
\<close>

theorem filterCompany_range_error:
  assumes "''minEmployees'' \<in> fst ` set filters" and "''maxEmployees'' \<in> fst ` set filters"
    and "js_num_gt (parseInt (js_get filters ''minEmployees'')) (parseInt (js_get filters ''maxEmployees''))"
  shows "filterCompany filters st = Inl (ExpressError ''minEmployees can't be greater than maxEmployees'' 400)"
  using assms by (simp add: filterCompany_def Let_def)

theorem filterCompany_range_error_witness:
  "''minEmployees'' \<in> fst ` set [(''minEmployees'', JNum 10), (''maxEmployees'', JNum 5)] \<and>
   ''maxEmployees'' \<in> fst ` set [(''minEmployees'', JNum 10), (''maxEmployees'', JNum 5)] \<and>
   js_num_gt (parseInt (js_get [(''minEmployees'', JNum 10), (''maxEmployees'', JNum 5)] ''minEmployees''))
     (parseInt (js_get [(''minEmployees'', JNum 10), (''maxEmployees'', JNum 5)] ''maxEmployees'')) \<and>
   filterCompany [(''minEmployees'', JNum 10), (''maxEmployees'', JNum 5)] test_db
     = Inl (ExpressError ''minEmployees can't be greater than maxEmployees'' 400)"
proof -
  have h3: "js_num_gt (parseInt (js_get [(''minEmployees'', JNum 10), (''maxEmployees'', JNum 5)] ''minEmployees''))
     (parseInt (js_get [(''minEmployees'', JNum 10), (''maxEmployees'', JNum 5)] ''maxEmployees''))"
    by (simp add: js_get_def js_num_gt_def parseInt_def parse_sign_def parse_radix_prefix_def is_js_space_def
                  radix_digit_def radix_value_def string_of_int_def string_of_nat.simps digit_char_def)
  have h1: "''minEmployees'' \<in> fst ` set [(''minEmployees'', JNum 10), (''maxEmployees'', JNum 5)]" by simp
  have h2: "''maxEmployees'' \<in> fst ` set [(''minEmployees'', JNum 10), (''maxEmployees'', JNum 5)]" by simp
  show ?thesis
    using filterCompany_range_error [OF h1 h2 h3] h1 h2 h3 by blast
qed

text \<open>
  C25: the specification says keys outside the allow-list are silently dropped. The code
  maps them to \<open>undefined\<close>, which \<open>join\<close> renders as the empty string: a query whose
  only key is unknown sends \<open>WHERE \<close> with nothing after it, and one that adds an unknown
  key after a name sends a dangling \<open>AND\<close>; both are refused by the database.
  The empty query \<open>{}\<close> sends the same empty WHERE. The specification asks that a
  clause without fragments mean no filtering.
\<close>

theorem filterCompany_unknown_key:
  assumes "k \<notin> set company_acceptedFilters"
  shows "filterCompany [(k, v)] st = Inl sql_syntax_error \<and>
         filterCompany [(''name'', JStr ''C''), (k, v)] st = Inl sql_syntax_error \<and>
         filterCompany [] st = Inl sql_syntax_error"
proof -
  have k: "k \<noteq> ''name''" "k \<noteq> ''minEmployees''" "k \<noteq> ''maxEmployees''"
    "''name'' \<noteq> k" "''minEmployees'' \<noteq> k" "''maxEmployees'' \<noteq> k"
    using assms by (auto simp: company_acceptedFilters_def)
  have none: "company_filter_clause fs k = None" for fs
    using assms by (simp add: company_filter_clause_def)
  have name: "\<not> is_array_index ''name''"
    by (simp add: is_array_index_def is_digit_def)
  have "filterCompany [(k, v)] st = Inl sql_syntax_error"
    using k none by (simp add: filterCompany_def Let_def object_keys_def join_elem_def
                               pg_select_where_def parse_where_def parse_pred_def)
  moreover have "filterCompany [(''name'', JStr ''C''), (k, v)] st = Inl sql_syntax_error"
    using k none name
    by (cases "is_array_index k")
       (simp_all add: company_query_simps filter_eval_simps del: is_array_index_def)
  moreover have "filterCompany [] st = Inl sql_syntax_error"
    by (simp add: company_query_simps pg_select_where_def parse_where_def parse_pred_def)
  ultimately show ?thesis
    by blast
qed

theorem filterCompany_unknown_key_witness:
  "''foo'' \<notin> set company_acceptedFilters \<and>
   filterCompany [(''foo'', JStr ''x'')] test_db = Inl sql_syntax_error \<and>
   filterCompany [(''name'', JStr ''C''), (''foo'', JStr ''x'')] test_db = Inl sql_syntax_error \<and>
   filterCompany [] test_db = Inl sql_syntax_error"
proof -
  have h: "''foo'' \<notin> set company_acceptedFilters"
    by (simp add: company_acceptedFilters_def)
  show ?thesis
    using filterCompany_unknown_key [OF h, of "JStr ''x''" test_db] h by blast
qed

text \<open>
  C26: SQL injection through the name filter (the specification's \<open>UnsafeInterpolation\<close>).
  The value is pasted between quotes without escaping; the name
  \<open>x%' OR name LIKE '\<close> turns the clause into \<open>name LIKE '%x%' OR name LIKE '%'\<close>,
  and the filter returns every company of every store, whatever their names.
\<close>

theorem filterCompany_injection:
  "filterCompany [(''name'', JStr (''x%'' @ sq # '' OR name LIKE '' @ [sq]))] st = Inr (companies st)"
proof -
  let ?qss = "[[CLike (ACol ''name'') (AConst (VText ''%x%''))], [CLike (ACol ''name'') (AConst (VText ''%''))]]"
  have "filterCompany [(''name'', JStr (''x%'' @ sq # '' OR name LIKE '' @ [sq]))] st
          = Inr (filter (\<lambda>r. eval_where company_row r ?qss = Some True) (companies st))"
    by (simp add: company_query_simps clause_eval_simps company_schema_def escape_ok.simps)
  moreover have "eval_where company_row r ?qss = Some True" for r
    by (auto intro: sql_or_True simp: eval_where_def sql_and_single eval_cond_def arg_val_def company_row_def)
  ultimately show ?thesis
    by simp
qed



text \<open>
  C3: the result of \<open>filterCompany\<close> does not depend on the order of the query's keys.
  For a query of allowed keys with safe values, every permutation of its entries gives
  the same result, the range error included: the check reads the keys by name and the
  fragments, joined by \<open>AND\<close>, select the same rows in any order.
\<close>

theorem filterCompany_key_order:
  assumes "company_filters_safe fs" and "mset fs' = mset fs"
  shows "filterCompany fs' st = filterCompany fs st"
proof -
  note perm = company_filters_perm [OF assms]
  show ?thesis
    using company_where_safe [OF assms(1), of "companies st"] company_where_safe [OF perm(1), of "companies st"]
    by (simp add: filterCompany_def Let_def perm(2-4))
qed

theorem filterCompany_key_order_witness:
  "company_filters_safe [(''name'', JStr ''C''), (''maxEmployees'', JStr ''2'')] \<and>
   mset [(''maxEmployees'', JStr ''2''), (''name'', JStr ''C'')] = mset [(''name'', JStr ''C''), (''maxEmployees'', JStr ''2'')] \<and>
   filterCompany [(''maxEmployees'', JStr ''2''), (''name'', JStr ''C'')] test_db
     = filterCompany [(''name'', JStr ''C''), (''maxEmployees'', JStr ''2'')] test_db"
proof -
  have safe: "company_filters_safe [(''name'', JStr ''C''), (''maxEmployees'', JStr ''2'')]"
    by (simp add: company_filters_safe_def js_obj_wf_def like_plain_def parseInt_def parse_sign_def
                  parse_radix_prefix_def is_js_space_def radix_digit_def radix_value_def string_of_int_def
                  string_of_nat.simps digit_char_def)
  have perm: "mset [(''maxEmployees'', JStr ''2''), (''name'', JStr ''C'')] = mset [(''name'', JStr ''C''), (''maxEmployees'', JStr ''2'')]"
    by simp
  show ?thesis
    using filterCompany_key_order [OF safe perm, of test_db] safe perm by blast
qed

end
