(* ===== verification/JobFilter.thy ===== *)
theory JobFilter
  imports Job FilterQuery
begin

text \<open>
  \<open>Job.filterJobs\<close> (\<open>src/models/job.js\<close>): one WHERE fragment per key of the query
  object (\<open>title\<close> by LIKE, \<open>minSalary\<close> as a lower bound, \<open>hasEquity\<close> as
  \<open>equity > 0\<close> when its value is truthy; the callback returns \<open>undefined\<close>, here
  \<open>None\<close>, for a falsy \<open>hasEquity\<close> and for a key outside the allow-list), the join with
  \<open>" AND "\<close>, and the SELECT, read by \<open>pg_select_where\<close>. There is no range check.
\<close>

definition job_acceptedFilters :: "string list" where
  "job_acceptedFilters = [''title'', ''minSalary'', ''hasEquity'']"

definition job_filter_clause :: "jsval jsobj \<Rightarrow> string \<Rightarrow> string option" where
  "job_filter_clause filters key =
     (if key \<in> set job_acceptedFilters then
        (if key = ''title'' then
           Some (''title LIKE '' @ [sq, CHR ''%''] @ js_to_string (js_get filters key) @ [CHR ''%'', sq])
         else if key = ''minSalary'' then Some (''salary >= '' @ js_to_string (js_get filters key))
         else if js_truthy (js_get filters key) then Some ''equity > 0''
         else None)
      else None)"

definition filterJobs :: "jsval jsobj \<Rightarrow> db \<Rightarrow> error + job list" where
  "filterJobs filters st =
     (let keys = object_keys filters;
          clauseList = map (\<lambda>key. case job_filter_clause filters key of
                                   Some s \<Rightarrow> JStr s | None \<Rightarrow> JUndefined) keys;
          clause = js_join '' AND '' clauseList
      in pg_select_where job_schema job_row clause (jobs st))"

subsection \<open>What the filter promises\<close>

fun job_match_entry :: "string \<times> jsval \<Rightarrow> job \<Rightarrow> bool" where
  "job_match_entry (k, v) j =
     (if k = ''title'' then sublist (js_to_string v) (title j)
      else if k = ''minSalary'' then
        (case (salary j, parseInt v) of (Some n, Some m) \<Rightarrow> m \<le> n | _ \<Rightarrow> False)
      else if k = ''hasEquity'' then (case equity j of Some e \<Rightarrow> 0 < e | None \<Rightarrow> False)
      else True)"

definition job_matches :: "jsval jsobj \<Rightarrow> job \<Rightarrow> bool" where
  "job_matches filters j = list_all (\<lambda>e. job_match_entry e j) filters"

text \<open>
  The queries the clause means what the code intends for: every key allowed, a title free
  of quotes and LIKE wildcards, a minimum salary in decimal, a truthy \<open>hasEquity\<close>.
\<close>

fun job_entry_safe :: "string \<times> jsval \<Rightarrow> bool" where
  "job_entry_safe (k, v) =
     (if k = ''title'' then sq \<notin> set (js_to_string v) \<and> like_plain (js_to_string v)
      else if k = ''minSalary'' then
        (case parseInt v of Some m \<Rightarrow> js_to_string v = string_of_int m | None \<Rightarrow> False)
      else if k = ''hasEquity'' then js_truthy v
      else False)"

definition job_filters_safe :: "jsval jsobj \<Rightarrow> bool" where
  "job_filters_safe filters \<longleftrightarrow> filters \<noteq> [] \<and> js_obj_wf filters \<and> list_all job_entry_safe filters"

subsection \<open>Lemmas on the filter clause\<close>

lemma job_cols:
  "plain_ident ''title'' \<and> plain_ident ''salary'' \<and> plain_ident ''equity''
   \<and> col_lookup job_schema ''title'' = Some (''title'', TyText)
   \<and> col_lookup job_schema ''salary'' = Some (''salary'', TyInt)
   \<and> col_lookup job_schema ''equity'' = Some (''equity'', TyNumeric)"
  by (simp add: plain_ident_def word_token_def ci_eq_def ci_char_def is_ident_start_def is_letter_def
                is_ident_char_def is_digit_def col_lookup_def job_schema_def)

definition job_fragment :: "string \<times> jsval \<Rightarrow> string" where
  "job_fragment e = (case job_filter_clause [e] (fst e) of Some s \<Rightarrow> s | None \<Rightarrow> [])"

lemma job_filter_clause_get:
  "job_filter_clause filters k = job_filter_clause [(k, js_get filters k)] k"
  by (cases "map_of filters k") (auto simp: job_filter_clause_def js_get_def)

lemma job_entry_frag:
  assumes "job_entry_safe (k, v)"
  shows "\<exists>ts q.
       (\<forall>rest. sep_ok rest \<longrightarrow> sql_lex (job_fragment (k, v) @ rest) = map_option (\<lambda>y. ts @ y) (sql_lex rest))
       \<and> TkAnd \<notin> set ts \<and> TkOr \<notin> set ts
       \<and> (\<exists>p. parse_pred ts = Some p \<and> plan_pred job_schema p = Inr q)
       \<and> (\<forall>j. eval_cond job_row j q = Some True \<longleftrightarrow> job_match_entry (k, v) j)"
proof -
  let ?s = "js_to_string v"
  consider (tt) "k = ''title''" | (ms) "k = ''minSalary''" | (he) "k = ''hasEquity''"
    using assms by (auto split: if_splits)
  then show ?thesis
  proof cases
    case tt
    then have safe: "sq \<notin> set ?s" "like_plain ?s"
      using assms by auto
    have frag: "job_fragment (k, v) = ''title'' @ '' LIKE '' @ sq # CHR ''%'' # ?s @ [CHR ''%'', sq]"
      using tt by (simp add: job_fragment_def job_filter_clause_def job_acceptedFilters_def js_get_def)
    have row: "(case job_row j ''title'' of Some x \<Rightarrow> sublist ?s (text_of x) | None \<Rightarrow> False)
                 = job_match_entry (k, v) j" for j
      using tt by (simp add: job_row_def)
    show ?thesis
      using like_entry [of "''title''" job_schema ?s job_row] job_cols safe
      unfolding frag row by simp
  next
    case ms
    then obtain m where m: "parseInt v = Some m" and str: "?s = string_of_int m"
      using assms by (auto split: option.splits)
    have frag: "job_fragment (k, v) = ''salary'' @ CHR '' '' # ''>='' @ CHR '' '' # string_of_int m"
      using ms str by (simp add: job_fragment_def job_filter_clause_def job_acceptedFilters_def js_get_def)
    have row: "(case job_row j ''salary'' of Some x \<Rightarrow> cmp_op ''>='' (num_of x) (of_int m) | None \<Rightarrow> False)
                 = job_match_entry (k, v) j" for j
      using ms m by (cases "salary j") (simp_all add: job_row_def cmp_op_def)
    show ?thesis
      using cmp_entry [of "''salary''" "''>=''" job_schema TyInt m job_row] job_cols
      unfolding frag row by (simp add: is_num_ty_def)
  next
    case he
    then have "js_truthy v"
      using assms by simp
    then have frag: "job_fragment (k, v) = ''equity'' @ CHR '' '' # ''>'' @ CHR '' '' # string_of_int 0"
      using he by (simp add: job_fragment_def job_filter_clause_def job_acceptedFilters_def js_get_def
                             string_of_int_def string_of_nat.simps digit_char_def)
    have row: "(case job_row j ''equity'' of Some x \<Rightarrow> cmp_op ''>'' (num_of x) (of_int 0) | None \<Rightarrow> False)
                 = job_match_entry (k, v) j" for j
      using he by (cases "equity j") (simp_all add: job_row_def cmp_op_def)
    show ?thesis
      using cmp_entry [of "''equity''" "''>''" job_schema TyNumeric 0 job_row] job_cols
      unfolding frag row by (simp add: is_num_ty_def)
  qed
qed


lemmas job_query_simps = filterJobs_def job_filter_clause_def job_acceptedFilters_def object_eval_simps

subsection \<open>Properties of \<open>filterJobs\<close>\<close>

text \<open>
  C28: \<open>filterJobs\<close> refines its promise. For a non-empty query whose keys are all
  allowed, whose title is free of quotes and LIKE wildcards, whose minimum salary is an
  integer in decimal and whose \<open>hasEquity\<close> is truthy, the method returns the jobs whose
  title contains the text, whose salary is at least the minimum and whose equity is
  positive, in table order.
\<close>

theorem filterJobs_refines:
  assumes "job_filters_safe filters"
  shows "filterJobs filters st = Inr (filter (job_matches filters) (jobs st))"
proof -
  have ne: "filters \<noteq> []" and wf: "js_obj_wf filters" and safe: "list_all job_entry_safe filters"
    using assms by (simp_all add: job_filters_safe_def)
  have "\<forall>(k, v) \<in> set filters. job_filter_clause [(k, v)] k = Some (job_fragment (k, v)) \<and> (\<exists>ts q.
       (\<forall>rest. sep_ok rest \<longrightarrow> sql_lex (job_fragment (k, v) @ rest) = map_option (\<lambda>y. ts @ y) (sql_lex rest))
       \<and> TkAnd \<notin> set ts \<and> TkOr \<notin> set ts
       \<and> (\<exists>p. parse_pred ts = Some p \<and> plan_pred job_schema p = Inr q)
       \<and> (\<forall>r. eval_cond job_row r q = Some True \<longleftrightarrow> job_match_entry (k, v) r))"
  proof (intro ballI, clarify)
    fix k v
    assume "(k, v) \<in> set filters"
    then have e: "job_entry_safe (k, v)"
      using safe by (simp add: list_all_iff del: job_entry_safe.simps)
    then have "job_filter_clause [(k, v)] k \<noteq> None"
      by (auto simp: job_filter_clause_def job_acceptedFilters_def js_get_def split: if_splits)
    then show "job_filter_clause [(k, v)] k = Some (job_fragment (k, v)) \<and> (\<exists>ts q.
       (\<forall>rest. sep_ok rest \<longrightarrow> sql_lex (job_fragment (k, v) @ rest) = map_option (\<lambda>y. ts @ y) (sql_lex rest))
       \<and> TkAnd \<notin> set ts \<and> TkOr \<notin> set ts
       \<and> (\<exists>p. parse_pred ts = Some p \<and> plan_pred job_schema p = Inr q)
       \<and> (\<forall>r. eval_cond job_row r q = Some True \<longleftrightarrow> job_match_entry (k, v) r))"
      using job_entry_frag [OF e] by (auto simp: job_fragment_def)
  qed
  from filter_query_entries [OF ne wf job_filter_clause_get this]
  show ?thesis
    by (simp add: filterJobs_def Let_def job_matches_def [abs_def])
qed

theorem filterJobs_refines_witness:
  "job_filters_safe [(''title'', JStr ''j''), (''hasEquity'', JBool True)] \<and>
   filterJobs [(''title'', JStr ''j''), (''hasEquity'', JBool True)] test_db
     = Inr (filter (job_matches [(''title'', JStr ''j''), (''hasEquity'', JBool True)]) (jobs test_db))"
proof -
  have safe: "job_filters_safe [(''title'', JStr ''j''), (''hasEquity'', JBool True)]"
    by (simp add: job_filters_safe_def js_obj_wf_def like_plain_def)
  show ?thesis
    using filterJobs_refines [OF safe, of test_db] safe by blast
qed

text \<open>
  C29: the specification says a falsy \<open>hasEquity\<close> contributes no fragment. The callback
  does return nothing for it, but \<open>map\<close> keeps the \<open>undefined\<close>, which \<open>join\<close> renders as
  the empty string: \<open>{hasEquity: false}\<close> alone sends \<open>WHERE \<close> with nothing after it, and
  after a title it leaves a dangling \<open>AND\<close>; the database refuses both on every store.
\<close>

theorem filterJobs_hasEquity_falsy:
  assumes "\<not> js_truthy v"
  shows "filterJobs [(''hasEquity'', v)] st = Inl sql_syntax_error \<and>
         filterJobs [(''title'', JStr ''j''), (''hasEquity'', v)] st = Inl sql_syntax_error"
proof -
  have none: "job_filter_clause fs ''hasEquity'' = None" if "js_get fs ''hasEquity'' = v" for fs
    using assms that by (simp add: job_filter_clause_def job_acceptedFilters_def)
  have get: "js_get [(''hasEquity'', v)] ''hasEquity'' = v"
    "js_get [(''title'', JStr ''j''), (''hasEquity'', v)] ''hasEquity'' = v"
    by (simp_all add: js_get_def)
  have "filterJobs [(''hasEquity'', v)] st = Inl sql_syntax_error"
    using none [OF get(1)] by (simp add: filterJobs_def Let_def object_keys_def join_elem_def
                                         pg_select_where_def parse_where_def parse_pred_def)
  moreover have "filterJobs [(''title'', JStr ''j''), (''hasEquity'', v)] st = Inl sql_syntax_error"
    using none [OF get(2)]
    by (simp add: job_query_simps filter_eval_simps)
  ultimately show ?thesis ..
qed

theorem filterJobs_hasEquity_falsy_witness:
  "\<not> js_truthy (JBool False) \<and>
   filterJobs [(''hasEquity'', JBool False)] test_db = Inl sql_syntax_error \<and>
   filterJobs [(''title'', JStr ''j''), (''hasEquity'', JBool False)] test_db = Inl sql_syntax_error"
proof -
  have h: "\<not> js_truthy (JBool False)"
    by simp
  show ?thesis
    using filterJobs_hasEquity_falsy [OF h, of test_db] h by blast
qed

end
