(* ===== verification/Api.thy ===== *)
theory Api
  imports Company Job CompanyFilter JobFilter
begin

text \<open>
  The two models as one service: the routes (not in the sources) turn each request into
  one call of a static method, so a request is a value of \<open>model_op\<close> and the service a
  step function on the store (\<open>model_step\<close>) returning the method's result or its error.
  A failed call changes nothing (each method issues at most one modifying statement, and
  a statement that fails has no effect). \<open>reachable s0 s\<close> holds when some sequence of
  successful calls leads from \<open>s0\<close> to \<open>s\<close>; the store invariant \<open>db_wf\<close> holds in
  every reachable store, by rule induction on \<open>reachable\<close> from one lemma per method.
  The filter methods are requests too; they read the store and leave it unchanged.
\<close>

datatype model_op =
    CompanyCreate "jsval jsobj"
  | CompanyFindAll
  | CompanyGet jsval
  | CompanyUpdate jsval "jsval jsobj"
  | CompanyRemove jsval
  | CompanyFilterQuery "jsval jsobj"
  | JobCreate "jsval jsobj"
  | JobFindAll
  | JobGet jsval
  | JobUpdate jsval "jsval jsobj"
  | JobRemove jsval
  | JobFilterQuery "jsval jsobj"

datatype model_result =
    RCompany company
  | RCompanies "company list"
  | RJob job
  | RJobs "job list"
  | RDeleted

fun model_step :: "model_op \<Rightarrow> db \<Rightarrow> error + (model_result \<times> db)" where
  "model_step (CompanyCreate data) st = sbind (company_create data st) (\<lambda>(c, st'). Inr (RCompany c, st'))"
| "model_step CompanyFindAll st = Inr (RCompanies (company_findAll st), st)"
| "model_step (CompanyGet h) st = sbind (company_get h st) (\<lambda>c. Inr (RCompany c, st))"
| "model_step (CompanyUpdate h data) st =
     sbind (company_update h data st) (\<lambda>(c, st'). Inr (RCompany c, st'))"
| "model_step (CompanyRemove h) st = sbind (company_remove h st) (\<lambda>st'. Inr (RDeleted, st'))"
| "model_step (CompanyFilterQuery q) st = sbind (filterCompany q st) (\<lambda>cs. Inr (RCompanies cs, st))"
| "model_step (JobCreate data) st = sbind (job_create data st) (\<lambda>(j, st'). Inr (RJob j, st'))"
| "model_step JobFindAll st = Inr (RJobs (job_findAll st), st)"
| "model_step (JobGet i) st = sbind (job_get i st) (\<lambda>j. Inr (RJob j, st))"
| "model_step (JobUpdate i data) st = sbind (job_update i data st) (\<lambda>(j, st'). Inr (RJob j, st'))"
| "model_step (JobRemove i) st = sbind (job_remove i st) (\<lambda>st'. Inr (RDeleted, st'))"
| "model_step (JobFilterQuery q) st = sbind (filterJobs q st) (\<lambda>js. Inr (RJobs js, st))"

inductive reachable :: "db \<Rightarrow> db \<Rightarrow> bool" where
  reach_refl: "reachable s0 s0"
| reach_step: "reachable s0 s \<Longrightarrow> model_step op s = Inr (res, s') \<Longrightarrow> reachable s0 s'"

text \<open>A sequence of requests: each answered in turn, a failed one leaving the store as it was.\<close>

fun run_ops :: "model_op list \<Rightarrow> db \<Rightarrow> (error + model_result) list \<times> db" where
  "run_ops [] st = ([], st)"
| "run_ops (op # ops) st =
     (case model_step op st of
        Inl e \<Rightarrow> (let (rs, st') = run_ops ops st in (Inl e # rs, st'))
      | Inr (r, st1) \<Rightarrow> (let (rs, st') = run_ops ops st1 in (Inr r # rs, st')))"

subsection \<open>Each operation preserves the store invariant\<close>

lemma company_create_wf:
  assumes "db_wf st" and "company_create data st = Inr (c, st')"
  shows "db_wf st'"
proof -
  obtain h n d ne lu where "pg_insert_company h n d ne lu st = Inr (c, st')"
    using assms(2) by (auto simp: company_create_def Let_def split: if_splits)
  then show ?thesis
    using assms(1) by (auto simp: db_wf_def dest: pg_insert_company_result)
qed

lemma company_update_wf:
  assumes "db_wf st" and "company_update h data st = Inr (c, st')"
  shows "db_wf st'"
proof -
  obtain sc kr ps rows tbl where
    "pg_update set_company_col company_col_in handle pg_text_key sc kr ps (companies st) = Inr (rows, tbl)"
    and "st' = st\<lparr>companies := tbl\<rparr>"
    using assms(2) by (auto simp: company_update_def Let_def)
  then show ?thesis
    using assms(1) by (auto simp: db_wf_def dest: pg_update_distinct_keys)
qed

lemma company_remove_wf:
  assumes "db_wf st" and "company_remove h st = Inr st'"
  shows "db_wf st'"
  using assms by (auto simp: company_remove_def pg_delete_key_def pg_text_key_def db_wf_def
                             distinct_map_filter)

lemma job_create_wf:
  assumes "db_wf st" and "job_create data st = Inr (j, st')"
  shows "db_wf st'"
proof -
  obtain t s e ch where "pg_insert_job t s e ch st = Inr (j, st')"
    using assms(2) by (auto simp: job_create_def Let_def)
  then show ?thesis
    using assms(1) by (auto simp: db_wf_def dest: pg_insert_job_result)
qed

lemma job_update_wf:
  assumes "db_wf st" and "job_update i data st = Inr (j, st')"
  shows "db_wf st'"
proof -
  obtain sc kr ps rows tbl where
    "pg_update set_job_col job_col_in id' pg_int sc kr ps (jobs st) = Inr (rows, tbl)"
    and "st' = st\<lparr>jobs := tbl\<rparr>"
    using assms(2) by (auto simp: job_update_def Let_def)
  then show ?thesis
    using assms(1) by (auto simp: db_wf_def dest: pg_update_distinct_keys)
qed

lemma job_remove_wf:
  assumes "db_wf st" and "job_remove i st = Inr st'"
  shows "db_wf st'"
  using assms by (auto simp: job_remove_def pg_delete_key_def db_wf_def distinct_map_filter
                       )

lemma model_step_wf:
  assumes "db_wf st" and "model_step op st = Inr (res, st')"
  shows "db_wf st'"
  using assms
  by (cases op) (auto intro: company_create_wf company_update_wf company_remove_wf job_create_wf
                            job_update_wf job_remove_wf)

lemma reachable_trans: "reachable s1 s2 \<Longrightarrow> reachable s0 s1 \<Longrightarrow> reachable s0 s2"
  by (induction rule: reachable.induct) (auto intro: reach_step)

lemma run_ops_reachable: "reachable st (snd (run_ops ops st))"
proof (induction ops arbitrary: st)
  case Nil
  then show ?case by (simp add: reach_refl)
next
  case (Cons op ops)
  show ?case
  proof (cases "model_step op st")
    case (Inl e)
    then show ?thesis
      using Cons.IH [of st] by (simp add: split_def Let_def)
  next
    case (Inr rs)
    obtain r st1 where rs: "rs = (r, st1)" by (cases rs)
    have "reachable st1 (snd (run_ops ops st1))"
      by (rule Cons.IH)
    moreover have "reachable st st1"
      using reach_step [OF reach_refl] Inr rs by blast
    ultimately show ?thesis
      using Inr rs by (simp add: split_def Let_def reachable_trans)
  qed
qed

lemmas api_eval_simps = job_eval_simps company_eval_simps job_findAll_def company_findAll_def

end
