(* ===== verification/ServiceInvariants.thy ===== *)
theory ServiceInvariants
  imports Api
begin

text \<open>
  An invariant of the service beyond \<open>db_wf\<close>, proved by rule induction on
  \<open>reachable\<close> from one preservation lemma per request: the job ids stay within
  PostgreSQL's \<open>integer\<close> (\<open>job_ids_int4\<close>). The HOL types of the model do not carry
  this bound: an \<open>integer\<close> column is an \<open>int\<close> whose range PostgreSQL enforces on input
  (\<open>pg_int\<close>) and on the serial sequence. From it follow that every stored job can be
  fetched by its id and that every reachable store can be emptied of jobs, one removal
  per id.
\<close>

abbreviation int4 :: "int \<Rightarrow> bool" where
  "int4 n \<equiv> - 2147483648 \<le> n \<and> n \<le> 2147483647"

text \<open>The ids of the jobs table within the range of \<open>integer\<close>.\<close>

definition job_ids_int4 :: "db \<Rightarrow> bool" where
  "job_ids_int4 d \<longleftrightarrow> list_all (\<lambda>j. - 2147483648 \<le> id' j \<and> id' j \<le> 2147483647) (jobs d)"

subsection \<open>The job ids\<close>

lemma job_ids_int4_step:
  assumes "db_wf st" and "job_ids_int4 st" and "model_step op st = Inr (res, st')"
  shows "job_ids_int4 st'"
proof (cases op)
  case (JobCreate data)
  then obtain t s e ch j where "pg_insert_job t s e ch st = Inr (j, st')"
    using assms(3) by (auto simp: job_create_def Let_def split: sum.splits)
  then show ?thesis
    using assms(1,2) by (auto simp: job_ids_int4_def db_wf_def dest: pg_insert_job_result)
next
  case (JobUpdate i data)
  then obtain sc kr ps rows tbl where
    run: "pg_update set_job_col job_col_in id' pg_int sc kr ps (jobs st) = Inr (rows, tbl)" and st': "st' = st\<lparr>jobs := tbl\<rparr>"
    using assms(3) by (auto simp: job_update_def Let_def split: sum.splits list.splits)
  have "list_all (\<lambda>j. - 2147483648 \<le> id' j \<and> id' j \<le> 2147483647) tbl"
    by (rule pg_update_preserves [OF run]) (use assms(2) set_job_col_id pg_int_int4 in \<open>fastforce simp: job_ids_int4_def\<close>)+
  then show ?thesis
    by (simp add: job_ids_int4_def st')
next
  case (JobRemove i)
  then show ?thesis
    using assms(2,3) by (auto simp: job_remove_def pg_delete_key_def job_ids_int4_def list_all_iff split: sum.splits list.splits)
qed (use assms in \<open>auto simp: job_ids_int4_def company_create_def company_update_def company_remove_def
   pg_insert_company_def pg_delete_key_def Let_def split: sum.splits list.splits if_splits\<close>)

lemma reachable_jobs_inv:
  assumes "reachable s0 s" and "db_wf s0" and "job_ids_int4 s0"
  shows "db_wf s \<and> job_ids_int4 s"
  using assms
  by (induction rule: reachable.induct) (auto intro: model_step_wf job_ids_int4_step)

subsection \<open>Removing every job\<close>

text \<open>
  A table with unique ids within \<open>integer\<close> is emptied by removing its jobs one by one by
  their ids: each removal succeeds and deletes exactly the first remaining job.
\<close>

lemma run_remove_jobs:
  assumes "distinct (map id' js)" and "list_all (\<lambda>j. int4 (id' j)) js"
  shows "run_ops (map (\<lambda>j. JobRemove (JNum (id' j))) js) (st\<lparr>jobs := js\<rparr>)
           = (replicate (length js) (Inr RDeleted), st\<lparr>jobs := []\<rparr>)"
  using assms
proof (induction js arbitrary: st)
  case Nil
  then show ?case by simp
next
  case (Cons j js)
  have key: "pg_int (pg_prepare (JNum (id' j))) = Inr (Some (id' j))"
    using Cons.prems(2) pg_int_job_id(1) [of "id' j"] by simp
  have "filter (\<lambda>r. Some (id' j) \<noteq> Some (id' r)) js = js"
    using Cons.prems(1) by (auto simp: filter_id_conv)
  then have "model_step (JobRemove (JNum (id' j))) (st\<lparr>jobs := j # js\<rparr>) = Inr (RDeleted, st\<lparr>jobs := js\<rparr>)"
    unfolding model_step.simps job_remove_def pg_delete_key_def key by simp
  with Cons.IH [of st] Cons.prems show ?case
    by simp
qed

subsection \<open>Properties of the reachable stores\<close>

text \<open>
  C30: every job of a reachable store can be fetched by its id, sent as a number or as the
  decimal text of a URL segment: \<open>Job.get\<close> returns exactly that job.
\<close>

theorem reachable_job_get:
  assumes "db_wf s0" and "job_ids_int4 s0" and "reachable s0 s" and "j \<in> set (jobs s)"
  shows "job_get (JNum (id' j)) s = Inr j \<and> job_get (JStr (string_of_int (id' j))) s = Inr j"
proof -
  have wf: "db_wf s" and b: "job_ids_int4 s"
    using reachable_jobs_inv [OF assms(3,1,2)] by simp_all
  have "- 2147483648 \<le> id' j" and "id' j \<le> 2147483647"
    using b assms(4) by (simp_all add: job_ids_int4_def list_all_iff)
  note key = pg_int_job_id [OF this]
  have "filter (\<lambda>x. id' x = id' j) (jobs s) = [j]"
    using filter_key_unique [of id' "jobs s" j] wf assms(4) by (simp add: db_wf_def)
  then have "filter (\<lambda>r. Some (id' j) = Some (id' r)) (jobs s) = [j]"
    by (simp add: eq_commute [of "id' j"])
  then show ?thesis
    unfolding job_get_def pg_select_key_def key by simp
qed

theorem reachable_job_get_witness:
  "db_wf test_db \<and> job_ids_int4 test_db \<and> reachable test_db test_db \<and> jobs test_db ! 1 \<in> set (jobs test_db) \<and>
   job_get (JNum (id' (jobs test_db ! 1))) test_db = Inr (jobs test_db ! 1) \<and>
   job_get (JStr (string_of_int (id' (jobs test_db ! 1)))) test_db = Inr (jobs test_db ! 1)"
proof -
  have wf: "db_wf test_db" by (simp add: db_wf_def test_db_def)
  have b: "job_ids_int4 test_db" by (simp add: job_ids_int4_def test_db_def)
  have m: "jobs test_db ! 1 \<in> set (jobs test_db)" by (simp add: test_db_def)
  show ?thesis
    using reachable_job_get [OF wf b reach_refl m] wf b m reach_refl by blast
qed

text \<open>
  C16: every reachable store can be emptied of jobs. From a well-formed store whose job ids
  are within \<open>integer\<close>, in every store reachable by successful requests, removing the
  jobs one after the other by their ids succeeds at each request and leaves the jobs table
  empty; no job becomes impossible to delete.
\<close>

theorem reachable_jobs_removable:
  assumes "db_wf s0" and "job_ids_int4 s0" and "reachable s0 s"
  shows "run_ops (map (\<lambda>j. JobRemove (JNum (id' j))) (jobs s)) s
           = (replicate (length (jobs s)) (Inr RDeleted), s\<lparr>jobs := []\<rparr>)"
proof -
  have "db_wf s \<and> job_ids_int4 s"
    using reachable_jobs_inv [OF assms(3,1,2)] .
  then have "distinct (map id' (jobs s))" and "list_all (\<lambda>j. int4 (id' j)) (jobs s)"
    by (simp_all add: db_wf_def job_ids_int4_def)
  from run_remove_jobs [OF this, of s] show ?thesis
    by simp
qed

theorem reachable_jobs_removable_witness:
  "db_wf test_db \<and> job_ids_int4 test_db \<and> reachable test_db test_db \<and>
   run_ops (map (\<lambda>j. JobRemove (JNum (id' j))) (jobs test_db)) test_db
     = (replicate (length (jobs test_db)) (Inr RDeleted), test_db\<lparr>jobs := []\<rparr>)"
proof -
  have wf: "db_wf test_db" by (simp add: db_wf_def test_db_def)
  have b: "job_ids_int4 test_db" by (simp add: job_ids_int4_def test_db_def)
  show ?thesis
    using reachable_jobs_removable [OF wf b reach_refl] wf b reach_refl by blast
qed

end
