(* ===== verification/JobTests.thy ===== *)
theory JobTests
  imports Api
begin

text \<open>
  The model tests of \<open>src/models/job.test.js\<close> as requests to the service. Each test
  runs on the fixture of \<open>_testCommon\<close> (\<open>test_db\<close>): \<open>beforeEach\<close> opens a transaction
  and \<open>afterEach\<close> rolls it back, so the tests are independent runs from the same store
  (\<open>run_job_test\<close>). A test is its name, the requests it makes (a function of the store,
  for the tests that first look up the id of \<open>j1\<close> with \<open>db.query\<close>) and its \<open>expect\<close>
  lines as a check on the results and the final store; \<open>expect.any(Number)\<close> is an id
  left unchecked (\<open>job_expect\<close>). The test "update job equity" sends the JavaScript
  number \<open>0.1\<close>, which the model's integral numbers do not represent; it is not run.
\<close>

type_synonym job_test = "string \<times> (db \<Rightarrow> model_op list) \<times> ((error + model_result) list \<Rightarrow> db \<Rightarrow> bool)"

definition job_expect :: "string \<times> int option \<times> rat option \<times> string \<Rightarrow> job \<Rightarrow> bool" where
  "job_expect e j \<longleftrightarrow> e = (title j, salary j, equity j, company_handle j)"

definition expect_jobs :: "(string \<times> int option \<times> rat option \<times> string) list \<Rightarrow> (error + model_result) list \<Rightarrow> bool" where
  "expect_jobs es rs \<longleftrightarrow> (case rs of [Inr (RJobs js)] \<Rightarrow> list_all2 job_expect es js | _ \<Rightarrow> False)"

definition expect_job :: "string \<times> int option \<times> rat option \<times> string \<Rightarrow> (error + model_result) list \<Rightarrow> bool" where
  "expect_job e rs \<longleftrightarrow> (case rs of [Inr (RJob j)] \<Rightarrow> job_expect e j | _ \<Rightarrow> False)"

definition id_of_j1 :: "db \<Rightarrow> int" where
  "id_of_j1 st = id' (hd (filter (\<lambda>j. title j = ''j1'') (jobs st)))"

definition job_tests :: "job_test list" where
  "job_tests =
     [(''create new job'',
       \<lambda>st. [JobCreate [(''title'', JStr ''Manager at Hostner''), (''salary'', JNum 120000),
                        (''equity'', JNum 0), (''company_handle'', JStr ''c1'')]],
       \<lambda>rs st. expect_job (''Manager at Hostner'', Some 120000, Some 0, ''c1'') rs
               \<and> (case filter (\<lambda>j. title j = ''Manager at Hostner'') (jobs st) of
                    j # _ \<Rightarrow> job_expect (''Manager at Hostner'', Some 120000, Some 0, ''c1'') j
                  | [] \<Rightarrow> False)),
      (''Get list of jobs'', \<lambda>st. [JobFindAll],
       \<lambda>rs st. expect_jobs [(''j1'', Some 1, None, ''c1''), (''j2'', Some 2, Some (2 / 10), ''c2''),
                            (''j3'', Some 3, Some (3 / 10), ''c3'')] rs),
      (''GET / query string title'', \<lambda>st. [JobFilterQuery [(''title'', JStr ''1'')]],
       \<lambda>rs st. expect_jobs [(''j1'', Some 1, None, ''c1'')] rs),
      (''GET / query string minSalary'', \<lambda>st. [JobFilterQuery [(''minSalary'', JStr ''3'')]],
       \<lambda>rs st. expect_jobs [(''j3'', Some 3, Some (3 / 10), ''c3'')] rs),
      (''GET / query string hasEquity'', \<lambda>st. [JobFilterQuery [(''hasEquity'', JBool True)]],
       \<lambda>rs st. expect_jobs [(''j2'', Some 2, Some (2 / 10), ''c2''), (''j3'', Some 3, Some (3 / 10), ''c3'')] rs),
      (''Get a job / id '', \<lambda>st. [JobGet (JNum (id_of_j1 st))],
       \<lambda>rs st. expect_job (''j1'', Some 1, None, ''c1'') rs),
      (''update job salary'', \<lambda>st. [JobUpdate (JNum (id_of_j1 st)) [(''salary'', JNum 10)]],
       \<lambda>rs st. expect_job (''j1'', Some 10, None, ''c1'') rs),
      (''update job title'', \<lambda>st. [JobUpdate (JNum (id_of_j1 st)) [(''title'', JStr ''j10'')]],
       \<lambda>rs st. expect_job (''j10'', Some 1, None, ''c1'') rs)]"

definition job_test_delete :: job_test where
  "job_test_delete =
     (''delete a job '', \<lambda>st. [JobRemove (JNum (id_of_j1 st))],
      \<lambda>rs st. filter (\<lambda>j. title j = ''j1'') (jobs st) = [])"

definition run_job_test :: "job_test \<Rightarrow> bool" where
  "run_job_test t =
     (case t of (test_name, ops, check) \<Rightarrow>
        (case run_ops (ops test_db) test_db of (rs, st) \<Rightarrow> check rs st))"

text \<open>
  Every model test of \<open>job.test.js\<close> that the model represents passes: create, the
  list, the three filter queries, get, the two updates and the deletion, each from the
  fixture.
\<close>

theorem job_test_suite_passes:
  "list_all run_job_test (job_tests @ [job_test_delete])"
  by (simp add: job_tests_def job_test_delete_def run_job_test_def expect_job_def expect_jobs_def
                job_expect_def id_of_j1_def api_eval_simps job_query_simps filter_eval_simps job_schema_def
                job_row_def)

end
